(* ===== verification/Prelude.thy ===== *)
theory Prelude
  imports Main
begin

text \<open>
  Shared vocabulary of the development: the named fact collections the component
  theories fill, decimal printing of naturals (used for JavaScript's number-to-string
  conversion and for the correlation-id supply), the leading decimal digit (used for
  \<open>parseInt\<close> of a number printed in exponent form), and generic list and
  option lemmas the component proofs share.
\<close>

named_theorems js_simps "evaluation rules of the JavaScript value model"
named_theorems client_simps "evaluation rules of the client operations"

subsection \<open>Decimal printing of naturals\<close>

definition digit_char :: "nat \<Rightarrow> char" where
  "digit_char d = ''0123456789'' ! d"

fun string_of_nat :: "nat \<Rightarrow> string" where
  "string_of_nat n =
     (if n < 10 then [digit_char n] else string_of_nat (n div 10) @ [digit_char (n mod 10)])"

fun nat_of_digits :: "nat \<Rightarrow> string \<Rightarrow> nat" where
  "nat_of_digits acc [] = acc"
| "nat_of_digits acc (c # cs) = nat_of_digits (10 * acc + (of_char c - 48)) cs"

declare string_of_nat.simps [simp del]

lemma string_of_nat_eval [simp]:
  "string_of_nat (numeral k) =
     (if numeral k < (10::nat) then [digit_char (numeral k)]
      else string_of_nat (numeral k div 10) @ [digit_char (numeral k mod 10)])"
  "string_of_nat 0 = ''0''" "string_of_nat (Suc 0) = ''1''"
  by (simp_all add: string_of_nat.simps [of "numeral k"] string_of_nat.simps [of 0]
      string_of_nat.simps [of "Suc 0"] digit_char_def)

lemma digit_char_inv [simp]: "d < 10 \<Longrightarrow> of_char (digit_char d) - 48 = d"
  by (auto simp: digit_char_def less_Suc_eq numeral_eq_Suc)

lemma nat_of_digits_append:
  "nat_of_digits acc (xs @ ys) = nat_of_digits (nat_of_digits acc xs) ys"
  by (induction acc xs rule: nat_of_digits.induct) auto

lemma nat_of_digits_string_of_nat: "nat_of_digits 0 (string_of_nat n) = n"
proof (induction n rule: string_of_nat.induct)
  case (1 n)
  show ?case
  proof (cases "n < 10")
    case True
    then show ?thesis by (simp add: string_of_nat.simps [of n])
  next
    case False
    with "1.IH" show ?thesis
      by (simp add: string_of_nat.simps [of n] nat_of_digits_append)
  qed
qed

lemma string_of_nat_inj [simp]: "string_of_nat m = string_of_nat n \<longleftrightarrow> m = n"
  by (metis nat_of_digits_string_of_nat)

lemma string_of_nat_nonempty [simp]: "string_of_nat n \<noteq> []"
  by (subst string_of_nat.simps) simp

subsection \<open>Leading decimal digit\<close>

fun leading_digit :: "nat \<Rightarrow> nat" where
  "leading_digit n = (if n < 10 then n else leading_digit (n div 10))"

declare leading_digit.simps [simp del]

lemma leading_digit_bounds: "0 < n \<Longrightarrow> 1 \<le> leading_digit n \<and> leading_digit n \<le> 9"
proof (induction n rule: leading_digit.induct)
  case (1 n)
  show ?case
  proof (cases "n < 10")
    case True
    with "1.prems" show ?thesis by (simp add: leading_digit.simps [of n])
  next
    case False
    then have "0 < n div 10" by simp
    with "1.IH" False show ?thesis by (simp add: leading_digit.simps [of n])
  qed
qed

subsection \<open>Lists and options\<close>

lemma foldl_cong_set:
  "(\<And>acc x. x \<in> set xs \<Longrightarrow> f acc x = g acc x) \<Longrightarrow> foldl f a xs = foldl g a xs"
  by (induction xs arbitrary: a) auto

lemma map_of_append_None [simp]:
  "map_of xs k = None \<Longrightarrow> map_of (xs @ ys) k = map_of ys k"
  by (induction xs) auto

end
