(* ===== verification/JsValue.thy ===== *)
theory JsValue
  imports Prelude
begin

text \<open>
  The JavaScript values the library passes around (request configurations, response
  bodies, errors, hook invocations) and the lodash helpers it reads and writes them
  with: \<open>_.get\<close>, \<open>_.set\<close>, \<open>_.pick\<close>, the truthiness test of \<open>if (x)\<close>,
  \<open>!x\<close> and \<open>x || y\<close>, and the string conversion of a template literal.
  Objects are association lists in property order (a new property is appended, an
  existing one keeps its place); arrays are objects keyed by their indices, which is
  how property access sees them. Numbers are integers: the library never computes
  with a non-integral number it receives.
\<close>

datatype jsval =
    JUndef
  | JNull
  | JBool bool
  | JNum int
  | JStr string
  | JObj "(string \<times> jsval) list"

subsection \<open>Truthiness and nullishness\<close>

fun truthy :: "jsval \<Rightarrow> bool" where
  "truthy JUndef = False"
| "truthy JNull = False"
| "truthy (JBool b) = b"
| "truthy (JNum n) = (n \<noteq> 0)"
| "truthy (JStr s) = (s \<noteq> [])"
| "truthy (JObj ps) = True"

fun nullish :: "jsval \<Rightarrow> bool" where
  "nullish JUndef = True"
| "nullish JNull = True"
| "nullish _ = False"

fun is_object :: "jsval \<Rightarrow> bool" where
  "is_object (JObj ps) = True"
| "is_object _ = False"

definition js_or :: "jsval \<Rightarrow> jsval \<Rightarrow> jsval" where
  "js_or a b = (if truthy a then a else b)"

subsection \<open>Properties\<close>

text \<open>\<open>o[k]\<close> on an object, and the assignment \<open>o[k] = v\<close>.\<close>

fun own :: "(string \<times> jsval) list \<Rightarrow> string \<Rightarrow> jsval" where
  "own [] k = JUndef"
| "own ((k', v) # ps) k = (if k' = k then v else own ps k)"

fun has_own :: "(string \<times> jsval) list \<Rightarrow> string \<Rightarrow> bool" where
  "has_own [] k = False"
| "has_own ((k', v) # ps) k = (k' = k \<or> has_own ps k)"

fun assign :: "(string \<times> jsval) list \<Rightarrow> string \<Rightarrow> jsval \<Rightarrow> (string \<times> jsval) list" where
  "assign [] k v = [(k, v)]"
| "assign ((k', v') # ps) k v = (if k' = k then (k, v) # ps else (k', v') # assign ps k v)"

fun js_prop :: "jsval \<Rightarrow> string \<Rightarrow> jsval" where
  "js_prop (JObj ps) k = own ps k"
| "js_prop _ k = JUndef"

subsection \<open>lodash \<open>_.get\<close>, \<open>_.set\<close>, \<open>_.pick\<close>\<close>

text \<open>
  \<open>baseGet\<close> walks the path while the current value is not nullish; \<open>_.get\<close>
  answers \<open>undefined\<close> for an empty path, and its default replaces only
  \<open>undefined\<close>, not \<open>null\<close>.
\<close>

fun get_walk :: "jsval \<Rightarrow> string list \<Rightarrow> jsval" where
  "get_walk v [] = v"
| "get_walk v (k # ks) = (if nullish v then JUndef else get_walk (js_prop v k) ks)"

definition js_get :: "jsval \<Rightarrow> string list \<Rightarrow> jsval" where
  "js_get v path = (if path = [] then JUndef else get_walk v path)"

definition js_get_default :: "jsval \<Rightarrow> string list \<Rightarrow> jsval \<Rightarrow> jsval" where
  "js_get_default v path d = (let r = js_get v path in if r = JUndef then d else r)"

text \<open>
  \<open>baseSet\<close> leaves a non-object unchanged; along the path it keeps an existing
  intermediate object and replaces anything else by a fresh \<open>{}\<close>.
\<close>

definition obj_or_new :: "jsval \<Rightarrow> jsval" where
  "obj_or_new v = (if is_object v then v else JObj [])"

fun js_set :: "jsval \<Rightarrow> string list \<Rightarrow> jsval \<Rightarrow> jsval" where
  "js_set (JObj ps) [k] v = JObj (assign ps k v)"
| "js_set (JObj ps) (k # k' # ks) v =
     JObj (assign ps k (js_set (obj_or_new (own ps k)) (k' # ks) v))"
| "js_set x _ v = x"

text \<open>
  \<open>_.pick\<close> of single-key paths: a fresh object with the listed keys the source
  has (\<open>key in object\<close>), in the order of the list; \<open>{}\<close> for a non-object.
\<close>

definition pick_step :: "(string \<times> jsval) list \<Rightarrow> (string \<times> jsval) list \<Rightarrow> string \<Rightarrow> (string \<times> jsval) list" where
  "pick_step ps acc k = (if has_own ps k then assign acc k (own ps k) else acc)"

fun js_pick :: "jsval \<Rightarrow> string list \<Rightarrow> jsval" where
  "js_pick (JObj ps) keys = JObj (foldl (pick_step ps) [] keys)"
| "js_pick _ keys = JObj []"

text \<open>
  \<open>_.extend(object, source)\<close> (\<open>assignIn\<close>): every enumerable property of the
  source is assigned onto the object in order, so a later duplicate wins; a nullish
  source adds nothing (a string source's indices are not modelled).
\<close>

definition extend_step :: "(string \<times> jsval) list \<Rightarrow> string \<times> jsval \<Rightarrow> (string \<times> jsval) list" where
  "extend_step acc kv = assign acc (fst kv) (snd kv)"

fun js_extend :: "jsval \<Rightarrow> jsval \<Rightarrow> jsval" where
  "js_extend (JObj ps) (JObj qs) = JObj (foldl extend_step ps qs)"
| "js_extend obj _ = obj"

subsection \<open>String conversion (template literals)\<close>

definition string_of_int :: "int \<Rightarrow> string" where
  "string_of_int i = (if i < 0 then CHR ''-'' # string_of_nat (nat (- i)) else string_of_nat (nat i))"

fun js_to_string :: "jsval \<Rightarrow> string" where
  "js_to_string JUndef = ''undefined''"
| "js_to_string JNull = ''null''"
| "js_to_string (JBool b) = (if b then ''true'' else ''false'')"
| "js_to_string (JNum n) = string_of_int n"
| "js_to_string (JStr s) = s"
| "js_to_string (JObj ps) = ''[object Object]''"

text \<open>The \<open>TypeError\<close> a property read on \<open>undefined\<close> or \<open>null\<close> throws.\<close>

definition js_type_error :: jsval where
  "js_type_error = JObj [(''name'', JStr ''TypeError'')]"

subsection \<open>Lemmas\<close>

lemma prop_assign [simp]: "own (assign ps k v) k' = (if k' = k then v else own ps k')"
  by (induction ps k v rule: assign.induct) auto

lemma has_own_assign [simp]: "has_own (assign ps k v) k' = (k' = k \<or> has_own ps k')"
  by (induction ps k v rule: assign.induct) auto

lemma prop_not_has [simp]: "\<not> has_own ps k \<Longrightarrow> own ps k = JUndef"
  by (induction ps k rule: own.induct) (auto split: if_splits)

lemma js_get_single [simp]: "js_get v [k] = (if nullish v then JUndef else js_prop v k)"
  by (simp add: js_get_def)

lemma js_get_cons:
  "js_get v (k # k' # ks) = (if nullish v then JUndef else js_get (js_prop v k) (k' # ks))"
  by (simp add: js_get_def)

lemma truthy_not_nullish: "truthy v \<Longrightarrow> \<not> nullish v"
  by (cases v) auto

lemma is_object_not_nullish [simp]: "is_object v \<Longrightarrow> \<not> nullish v"
  by (cases v) auto

lemma is_object_truthy: "is_object v \<Longrightarrow> truthy v"
  by (cases v) auto

lemma is_object_obj_or_new [simp]: "is_object (obj_or_new v)"
  by (simp add: obj_or_new_def)

lemma js_set_non_object [simp]: "\<not> is_object v \<Longrightarrow> js_set v p x = v"
  by (cases v) auto

lemma is_object_js_set [simp]: "is_object (js_set v p x) = is_object v"
  by (induction v p x rule: js_set.induct) auto

lemma nullish_js_set [simp]: "nullish (js_set v p x) = nullish v"
  by (induction v p x rule: js_set.induct) auto

lemma js_prop_js_set_single [simp]:
  "is_object v \<Longrightarrow> js_prop (js_set v [k] x) k' = (if k' = k then x else js_prop v k')"
  by (cases v) auto

lemma js_prop_js_set_other [simp]:
  "k' \<noteq> k \<Longrightarrow> js_prop (js_set v (k # ks) x) k' = js_prop v k'"
  by (cases v; cases ks) auto

text \<open>Round trip: what \<open>_.set\<close> writes into an object, \<open>_.get\<close> reads back.\<close>

lemma js_get_js_set_same:
  "is_object v \<Longrightarrow> path \<noteq> [] \<Longrightarrow> js_get (js_set v path x) path = x"
proof (induction v path x rule: js_set.induct)
  case (2 ps k k' ks v)
  then show ?case by (simp add: js_get_cons is_object_not_nullish)
qed auto

text \<open>A frame rule: setting one top-level key leaves the others as they were.\<close>

lemma js_get_js_set_other:
  "k' \<noteq> k \<Longrightarrow> js_get (js_set v (k # ks) x) (k' # ks') = js_get v (k' # ks')"
proof (cases v)
  case (JObj ps)
  assume "k' \<noteq> k"
  with JObj show ?thesis
    by (cases ks; cases ks') (simp_all add: js_get_cons)
qed simp_all

lemma pick_step_prop:
  "own (foldl (pick_step ps) acc keys) k =
     (if k \<in> set keys \<and> has_own ps k then own ps k else own acc k)"
  by (induction keys arbitrary: acc) (auto simp: pick_step_def)

text \<open>\<open>_.pick\<close> keeps exactly the listed keys of an object.\<close>

lemma js_get_js_pick:
  "js_get (js_pick (JObj ps) keys) [k] = (if k \<in> set keys then own ps k else JUndef)"
  by (auto simp: pick_step_prop)

lemma own_append: "own (xs @ ys) k = (if has_own xs k then own xs k else own ys k)"
  by (induction xs) auto

lemma has_own_keys: "has_own ps k \<longleftrightarrow> k \<in> fst ` set ps"
  by (induction ps) auto

text \<open>\<open>_.extend\<close>: the last assignment of a key wins.\<close>

lemma own_extend:
  "own (foldl extend_step ps qs) k = (if has_own qs k then own (rev qs) k else own ps k)"
proof (induction qs arbitrary: ps)
  case (Cons q qs)
  then show ?case by (cases q) (auto simp: extend_step_def own_append has_own_keys)
qed simp

lemma js_or_truthy [simp]: "truthy a \<Longrightarrow> js_or a b = a"
  and js_or_falsy [simp]: "\<not> truthy a \<Longrightarrow> js_or a b = b"
  by (simp_all add: js_or_def)

lemmas js_eval [js_simps] = js_get_def js_get_default_def obj_or_new_def pick_step_def
  string_of_int_def js_type_error_def extend_step_def

end
