(* ===== verification/Session.thy ===== *)
theory Session
  imports JsValue
begin

text \<open>
  The client's constants (\<open>src/lib/constants.js\<close>), the session object the
  constructor of \<open>src/lib/index.js\<close> builds and every component reads, the
  interface of the caller-supplied hooks, and the provider sub-code check that
  \<open>src/lib/interceptors.js\<close> and \<open>src/lib/index.js\<close> import from
  \<open>./subCodeValidator\<close> (a module that is not among the sources, modelled from the
  specification: a fixed acceptance list, everything else rejected).
\<close>

subsection \<open>Constants\<close>

datatype status = UNINITIALIZED | UNAUTHENTICATED | AUTHENTICATED | TOKEN_VERIFIED

definition URL_AUTHENTICATE :: string where "URL_AUTHENTICATE = ''/payout/v1/authorize''"
definition URL_VERIFY_TOKEN :: string where "URL_VERIFY_TOKEN = ''/payout/v1/verifyToken''"
definition URL_ADD_BENEFICIARY :: string where "URL_ADD_BENEFICIARY = ''/payout/v1/addBeneficiary''"
definition URL_VERIFY_BENEFICIARY :: string where
  "URL_VERIFY_BENEFICIARY = ''/payout/v1/validation/bankDetails''"
definition URL_GET_BENEFICIARIES :: string where
  "URL_GET_BENEFICIARIES = ''/payout/v1/getBeneficiaries''"
definition URL_GET_BENEFICIARY_ID :: string where "URL_GET_BENEFICIARY_ID = ''/payout/v1/getBeneId''"
definition URL_GET_BENEFICIARY :: string where "URL_GET_BENEFICIARY = ''/payout/v1/getBeneficiary''"
definition URL_REMOVE_BENEFICIARIES :: string where
  "URL_REMOVE_BENEFICIARIES = ''/payout/v1/removeBeneficiary''"
definition URL_REQUEST_TRANSFER :: string where
  "URL_REQUEST_TRANSFER = ''/payout/v1/requestTransfer''"
definition URL_GET_BALANCE :: string where "URL_GET_BALANCE = ''/payout/v1/getBalance''"
definition URL_LIST_TRANSFERS :: string where "URL_LIST_TRANSFERS = ''/payout/v1/getTransfers''"
definition URL_GET_TRANSFER :: string where "URL_GET_TRANSFER = ''/payout/v1/getTransferStatus''"

definition TIMEOUT :: int where "TIMEOUT = 30000"

lemmas urls [client_simps] = URL_AUTHENTICATE_def URL_VERIFY_TOKEN_def URL_ADD_BENEFICIARY_def
  URL_VERIFY_BENEFICIARY_def URL_GET_BENEFICIARIES_def URL_GET_BENEFICIARY_ID_def
  URL_GET_BENEFICIARY_def URL_REMOVE_BENEFICIARIES_def URL_REQUEST_TRANSFER_def
  URL_GET_BALANCE_def URL_LIST_TRANSFERS_def URL_GET_TRANSFER_def TIMEOUT_def

subsection \<open>Hooks\<close>

text \<open>
  A hook is called as \<open>hook({ error, data, params }, done)\<close>. What it does with the
  call is one of: it calls \<open>done(err)\<close> (\<open>err\<close> is \<open>undefined\<close> for
  \<open>done()\<close>); it first writes to the object it was passed as \<open>data\<close> and then
  calls \<open>done(err)\<close> (\<open>Rewrites d err\<close>, \<open>d\<close> the object after the writes:
  \<open>data\<close> is passed by reference, so the caller sees them); it throws; or it never
  calls \<open>done\<close>.
\<close>

datatype hook_result = Done jsval | Rewrites jsval jsval | Throws jsval | Hangs

type_synonym hook = "jsval \<Rightarrow> hook_result"

subsection \<open>The session object\<close>

text \<open>
  \<open>const state = { clientId, clientSecret, preHook, postHook }\<close>; \<open>token\<close> and
  \<open>tokenVerified\<close> are absent (\<open>undefined\<close>) until the handshake writes them.
  A hook option that is \<open>undefined\<close> is \<open>None\<close>.
\<close>

record session =
  clientId :: jsval
  clientSecret :: jsval
  preHook :: "hook option"
  postHook :: "hook option"
  token :: jsval
  tokenVerified :: jsval

definition new_session :: "jsval \<Rightarrow> jsval \<Rightarrow> hook option \<Rightarrow> hook option \<Rightarrow> session" where
  "new_session cid secret pre post =
     \<lparr>clientId = cid, clientSecret = secret, preHook = pre, postHook = post,
      token = JUndef, tokenVerified = JUndef\<rparr>"

subsection \<open>Provider sub-codes\<close>

text \<open>
  \<open>validateSubCode(subCode)\<close>: membership in a fixed list, compared strictly
  (\<open>'200'\<close> is accepted, the number \<open>200\<close> and \<open>undefined\<close> are not). The model
  fixes the provider's success code; no theorem of the development but the concrete
  witnesses depends on which codes the list holds.
\<close>

definition accepted_sub_codes :: "string list" where
  "accepted_sub_codes = [''200'']"

definition validateSubCode :: "jsval \<Rightarrow> bool" where
  "validateSubCode sc = (sc \<in> set (map JStr accepted_sub_codes))"

lemma validateSubCode_JStr: "validateSubCode sc \<Longrightarrow> \<exists>s. sc = JStr s \<and> s \<noteq> []"
  by (auto simp: validateSubCode_def accepted_sub_codes_def)

lemma validateSubCode_nullish [simp]: "nullish sc \<Longrightarrow> \<not> validateSubCode sc"
  by (auto dest: validateSubCode_JStr)

lemma validateSubCode_truthy: "validateSubCode sc \<Longrightarrow> truthy sc"
  by (auto dest: validateSubCode_JStr)

lemmas sub_code_eval [client_simps] = validateSubCode_def accepted_sub_codes_def

end
