(* ===== verification/Validate.thy ===== *)
theory Validate
  imports Session
begin

text \<open>
  The state validator, \<open>src/lib/validate.js\<close>: a chain of early returns over the
  session's truthiness, with an implicit \<open>undefined\<close> when no branch is taken
  (\<open>None\<close> here). Its specification is the table of the design (section 4.2),
  a function of three booleans; the refinement lemma says the chain computes it and
  never falls off its end.
\<close>

definition validate_state :: "session option \<Rightarrow> status option" where
  "validate_state s =
     (case s of
        None \<Rightarrow> Some UNINITIALIZED
      | Some st \<Rightarrow>
          if \<not> truthy (clientId st) \<or> \<not> truthy (clientSecret st) then Some UNINITIALIZED
          else if \<not> truthy (token st) then Some UNAUTHENTICATED
          else if truthy (token st) \<and> \<not> truthy (tokenVerified st) then Some AUTHENTICATED
          else if truthy (tokenVerified st) then Some TOKEN_VERIFIED
          else None)"

text \<open>The specification's table: credentials present, token present, verified.\<close>

fun status_table :: "bool \<Rightarrow> bool \<Rightarrow> bool \<Rightarrow> status" where
  "status_table False _ _ = UNINITIALIZED"
| "status_table True False _ = UNAUTHENTICATED"
| "status_table True True False = AUTHENTICATED"
| "status_table True True True = TOKEN_VERIFIED"

definition credentials_present :: "session \<Rightarrow> bool" where
  "credentials_present st \<longleftrightarrow> truthy (clientId st) \<and> truthy (clientSecret st)"

text \<open>
  C1: for every session object, \<open>validate()\<close> returns the status the design's table
  assigns to (credentials present, token present, token verified).
\<close>

theorem validate_refines_table:
  "validate_state (Some st) =
     Some (status_table (credentials_present st) (truthy (token st)) (truthy (tokenVerified st)))"
  by (cases "truthy (clientId st)"; cases "truthy (clientSecret st)";
      cases "truthy (token st)"; cases "truthy (tokenVerified st)")
     (simp_all add: validate_state_def credentials_present_def)

lemma validate_state_fields:
  "validate_state (Some st) = validate_state (Some st')"
  if "clientId st = clientId st'" "clientSecret st = clientSecret st'"
     "token st = token st'" "tokenVerified st = tokenVerified st'"
  using that by (simp add: validate_state_def)

end
