(* ===== verification/Interceptors.thy ===== *)
theory Interceptors
  imports Session
begin

text \<open>
  The interceptor pipeline, \<open>src/lib/interceptors.js\<close>: correlation ids stamped on
  every request and response (\<open>addNetworkTracking\<close>), the bridge from a
  callback-style hook to a promise (\<open>promisify\<close>), and the four interceptors the
  module installs on the transport. A promise is modelled by the state it settles in;
  \<open>Pending\<close> is a promise that never settles (a hook that never calls back).
  Fresh ids come from a supply: \<open>chance.guid()\<close> is the \<open>n\<close>-th id of an injective
  enumeration, and the supply index is threaded through every step that may draw one.
\<close>

datatype js_promise = Pending | Fulfilled jsval | Rejected jsval

subsection \<open>Correlation ids\<close>

definition getNetworkId :: "nat \<Rightarrow> jsval" where
  "getNetworkId n = JStr (''guid-'' @ string_of_nat n)"

text \<open>
  \<open>_.set(data, 'networkId', _.get(data, path) || getNetworkId())\<close>: a fresh id is
  drawn only when the value at \<open>path\<close> is falsy.
\<close>

definition addNetworkTracking :: "jsval \<Rightarrow> string list \<Rightarrow> nat \<Rightarrow> jsval \<times> nat" where
  "addNetworkTracking data path n =
     (let v = js_get data path in
      if truthy v then (js_set data [''networkId''] v, n)
      else (js_set data [''networkId''] (getNetworkId n), Suc n))"

definition addRequestNetworkTracking :: "(jsval \<Rightarrow> 'a) \<Rightarrow> jsval \<Rightarrow> nat \<Rightarrow> 'a \<times> nat" where
  "addRequestNetworkTracking hook data n =
     (let (d, n') = addNetworkTracking data [''networkId''] n in (hook d, n'))"

definition addResponseNetworkTracking :: "(jsval \<Rightarrow> 'a) \<Rightarrow> jsval \<Rightarrow> nat \<Rightarrow> 'a \<times> nat" where
  "addResponseNetworkTracking hook data n =
     (let (d, n') = addNetworkTracking data [''config'', ''networkId''] n in (hook d, n'))"

subsection \<open>promisify\<close>

definition invocation :: "jsval \<Rightarrow> jsval \<Rightarrow> jsval \<Rightarrow> jsval" where
  "invocation error data params = JObj [(''error'', error), (''data'', data), (''params'', params)]"

text \<open>
  The callback the hook is given (interceptors.js, the arrow \<open>(err) => { ... }\<close>): a
  truthy \<open>err\<close> replaces the outcome by \<open>{ hookError: err, networkId }\<close> (the id
  read from \<open>error || data\<close>); otherwise the call rejects with \<open>error\<close> when it
  is truthy and resolves with \<open>data\<close>.
\<close>

definition hook_callback :: "jsval \<Rightarrow> jsval \<Rightarrow> jsval \<Rightarrow> js_promise" where
  "hook_callback error data err =
     (let combinedError =
        (if truthy err
         then JObj [(''hookError'', err), (''networkId'', js_get (js_or error data) [''networkId''])]
         else error)
      in if truthy combinedError then Rejected combinedError else Fulfilled data)"

text \<open>
  The \<open>data\<close> the callback closes over, after a hook that rewrote the object it was
  passed into \<open>d\<close>: only an object is passed by reference, so a hook can change
  \<open>data\<close> only when \<open>data\<close> is an object, and only into another object.
\<close>

definition hook_data :: "jsval \<Rightarrow> jsval \<Rightarrow> jsval" where
  "hook_data data d = (if is_object data \<and> is_object d then d else data)"

text \<open>
  A hook that throws rejects the promise with what it threw (the throw happens inside
  the executor); one that never calls back leaves the promise pending. Without a hook
  the call rejects with a truthy \<open>error\<close> and resolves with \<open>data\<close> otherwise.
\<close>

definition promisify :: "hook option \<Rightarrow> jsval \<Rightarrow> jsval \<Rightarrow> jsval \<Rightarrow> js_promise" where
  "promisify hook error data params =
     (case hook of
        Some h \<Rightarrow>
          (case h (invocation error data params) of
             Hangs \<Rightarrow> Pending
           | Throws x \<Rightarrow> Rejected x
           | Done err \<Rightarrow> hook_callback error data err
           | Rewrites d err \<Rightarrow> hook_callback error (hook_data data d) err)
      | None \<Rightarrow> if truthy error then Rejected error else Fulfilled data)"

subsection \<open>The four interceptors\<close>

definition request_params :: "jsval \<Rightarrow> jsval" where
  "request_params data = js_pick data [''headers'', ''method'', ''baseURL'', ''url'', ''params'', ''networkId'']"

definition preHook_i :: "session \<Rightarrow> jsval \<Rightarrow> js_promise" where
  "preHook_i st data = promisify (preHook st) JUndef data (request_params data)"

definition preErrorHook_i :: "session \<Rightarrow> jsval \<Rightarrow> js_promise" where
  "preErrorHook_i st error = promisify (preHook st) error JUndef JUndef"

text \<open>
  \<open>postHook\<close>: \<open>params\<close> is the response body \<open>data.data\<close> itself, so the
  \<open>_.set(params, 'networkId', ...)\<close> that stamps it also changes the response the
  hook and the caller see; when the body is not an object nothing is written.
\<close>

definition stamp_body :: "jsval \<Rightarrow> jsval \<times> jsval" where
  "stamp_body data =
     (let params = js_get data [''data''];
          params' = js_set params [''networkId''] (js_get data [''networkId''])
      in (params', if is_object params then js_set data [''data''] params' else data))"

definition postHook_i :: "session \<Rightarrow> jsval \<Rightarrow> js_promise" where
  "postHook_i st data =
     (let (params, data') = stamp_body data;
          error = (if validateSubCode (js_get params [''subCode'']) then JNull else params)
      in promisify (postHook st) error data' (if truthy error then JNull else params))"

definition postErrorHook_i :: "session \<Rightarrow> jsval \<Rightarrow> js_promise" where
  "postErrorHook_i st error = promisify (postHook st) error JUndef JUndef"

text \<open>\<open>network.interceptors.request.use(...)\<close> and \<open>response.use(...)\<close>.\<close>

definition request_fulfilled :: "session \<Rightarrow> jsval \<Rightarrow> nat \<Rightarrow> js_promise \<times> nat" where
  "request_fulfilled st = addRequestNetworkTracking (preHook_i st)"

definition request_rejected :: "session \<Rightarrow> jsval \<Rightarrow> nat \<Rightarrow> js_promise \<times> nat" where
  "request_rejected st = addRequestNetworkTracking (preErrorHook_i st)"

definition response_fulfilled :: "session \<Rightarrow> jsval \<Rightarrow> nat \<Rightarrow> js_promise \<times> nat" where
  "response_fulfilled st = addResponseNetworkTracking (postHook_i st)"

definition response_rejected :: "session \<Rightarrow> jsval \<Rightarrow> nat \<Rightarrow> js_promise \<times> nat" where
  "response_rejected st = addResponseNetworkTracking (postErrorHook_i st)"

subsection \<open>Lemmas\<close>

lemma getNetworkId_inj [simp]: "getNetworkId m = getNetworkId n \<longleftrightarrow> m = n"
  by (simp add: getNetworkId_def)

lemma getNetworkId_truthy [simp]: "truthy (getNetworkId n)"
  by (simp add: getNetworkId_def)

lemma addNetworkTracking_supply:
  "addNetworkTracking data path n = (d, n') \<Longrightarrow> n' = n \<or> n' = Suc n"
  by (auto simp: addNetworkTracking_def Let_def split: if_splits)

lemma addNetworkTracking_object:
  assumes "is_object data"
  shows "addNetworkTracking data path n =
     (if truthy (js_get data path)
      then (js_set data [''networkId''] (js_get data path), n)
      else (js_set data [''networkId''] (getNetworkId n), Suc n))"
  by (simp add: addNetworkTracking_def Let_def)

lemma addNetworkTracking_id:
  "is_object data \<Longrightarrow> addNetworkTracking data path n = (d, n') \<Longrightarrow>
     js_get d [''networkId''] = (if truthy (js_get data path) then js_get data path else getNetworkId n)"
  by (auto simp: addNetworkTracking_def Let_def js_get_js_set_same split: if_splits)

lemmas promisify_eval = promisify_def hook_callback_def hook_data_def

lemma promisify_no_hook:
  "promisify None error data params = (if truthy error then Rejected error else Fulfilled data)"
  by (simp add: promisify_eval)

lemma promisify_hook_error:
  "h (invocation error data params) = Done err \<Longrightarrow> truthy err \<Longrightarrow>
     promisify (Some h) error data params =
       Rejected (JObj [(''hookError'', err), (''networkId'', js_get (js_or error data) [''networkId''])])"
  by (simp add: promisify_eval hook_callback_def)

lemma promisify_hook_ok:
  "h (invocation error data params) = Done err \<Longrightarrow> \<not> truthy err \<Longrightarrow>
     promisify (Some h) error data params = (if truthy error then Rejected error else Fulfilled data)"
  by (simp add: promisify_eval hook_callback_def)

lemmas interceptor_defs [client_simps] = request_fulfilled_def request_rejected_def
  response_fulfilled_def response_rejected_def addRequestNetworkTracking_def
  addResponseNetworkTracking_def preHook_i_def preErrorHook_i_def postHook_i_def
  postErrorHook_i_def request_params_def invocation_def

end
