(* ===== verification/AxiosConfig.thy ===== *)
theory AxiosConfig
  imports JsValue
begin

text \<open>
  How axios treats a request config (axios is a library the sources call; this is
  modelled from its code of the release line the client was written against, 0.18).
  \<open>Axios.prototype.request\<close> lays the request config over the instance defaults with
  the deep merge \<open>utils.merge(defaults, { method: 'get' }, this.defaults, config)\<close>
  before the request interceptors run; after them, \<open>dispatchRequest\<close> joins a
  relative \<open>url\<close> to \<open>baseURL\<close> and flattens the headers, writing both into the
  config object the adapter sends and the response carries.
\<close>

subsection \<open>\<open>utils.merge\<close>\<close>

text \<open>\<open>typeof v === 'object'\<close>: objects, and \<open>null\<close>.\<close>

fun typeof_object :: "jsval \<Rightarrow> bool" where
  "typeof_object JNull = True"
| "typeof_object (JObj ps) = True"
| "typeof_object _ = False"

text \<open>The own properties \<open>utils.forEach\<close> visits: none for anything but an object.\<close>

fun obj_props :: "jsval \<Rightarrow> (string \<times> jsval) list" where
  "obj_props (JObj ps) = ps"
| "obj_props _ = []"

text \<open>
  The keys of \<open>merge(a, b)\<close>, in the order the result object gets them: those of
  \<open>a\<close>, then those of \<open>b\<close> it does not have yet.
\<close>

definition merge_keys :: "(string \<times> jsval) list \<Rightarrow> (string \<times> jsval) list \<Rightarrow> string list" where
  "merge_keys ps qs = foldl (\<lambda>ks k. if k \<in> set ks then ks else ks @ [k]) [] (map fst ps @ map fst qs)"

text \<open>
  \<open>merge(a, b)\<close>: a fresh object with every key of both; a key of \<open>b\<close> wins, except
  that two values that are both of type \<open>object\<close> are merged in turn (so a
  \<open>null\<close> never overrides an object).
\<close>

function js_merge :: "jsval \<Rightarrow> jsval \<Rightarrow> jsval" where
  "js_merge a b =
     JObj (map (\<lambda>k. (k,
        if has_own (obj_props b) k then
          (if has_own (obj_props a) k \<and> typeof_object (own (obj_props a) k)
              \<and> typeof_object (own (obj_props b) k)
           then js_merge (own (obj_props a) k) (own (obj_props b) k)
           else own (obj_props b) k)
        else own (obj_props a) k))
      (merge_keys (obj_props a) (obj_props b)))"
  by pat_completeness auto
termination
proof (relation "measure (\<lambda>(a, b). size b)")
  have own_size: "has_own ps k \<Longrightarrow> size (own ps k) < Suc (size_list (size_prod (\<lambda>_. 0) size) ps)" for ps k
    by (induction ps) auto
  fix a b k
  assume "has_own (obj_props b) k"
  then show "((own (obj_props a) k, own (obj_props b) k), a, b) \<in> measure (\<lambda>(a, b). size b)"
    using own_size by (cases b) auto
qed simp

subsection \<open>\<open>dispatchRequest\<close>\<close>

text \<open>
  \<open>isAbsoluteURL(url)\<close>: \<open>/^([a-z][a-z\\d\\+\\-\\.]*:)?\\/\\//i\<close>, a scheme (a letter,
  then letters, digits, \<open>+\<close>, \<open>-\<close> or \<open>.\<close>, then a colon) or nothing, then
  two slashes.
\<close>

definition is_letter :: "char \<Rightarrow> bool" where
  "is_letter c = (let n = (of_char c :: nat) in (97 \<le> n \<and> n \<le> 122) \<or> (65 \<le> n \<and> n \<le> 90))"

definition is_scheme_char :: "char \<Rightarrow> bool" where
  "is_scheme_char c =
     (is_letter c \<or> (let n = (of_char c :: nat) in 48 \<le> n \<and> n \<le> 57) \<or> c \<in> set ''+-.'')"

fun scheme_tail :: "string \<Rightarrow> bool" where
  "scheme_tail [] = False"
| "scheme_tail (c # cs) = (if c = CHR '':'' then take 2 cs = ''//'' else is_scheme_char c \<and> scheme_tail cs)"

definition is_absolute_url :: "string \<Rightarrow> bool" where
  "is_absolute_url s = (take 2 s = ''//'' \<or> (case s of [] \<Rightarrow> False | c # cs \<Rightarrow> is_letter c \<and> scheme_tail cs))"

text \<open>
  \<open>combineURLs(baseURL, relativeURL)\<close>: \<open>relativeURL ? baseURL.replace(/\\/+$/, '') + '/'
  + relativeURL.replace(/^\\/+/, '') : baseURL\<close>.
\<close>

definition combine_urls :: "string \<Rightarrow> string \<Rightarrow> string" where
  "combine_urls b r =
     (if r = [] then b
      else rev (dropWhile (\<lambda>c. c = CHR ''/'') (rev b)) @ ''/'' @ dropWhile (\<lambda>c. c = CHR ''/'') r)"

text \<open>
  \<open>if (config.baseURL && !isAbsoluteURL(config.url)) config.url =
  combineURLs(config.baseURL, config.url)\<close>, for a string \<open>baseURL\<close>; a \<open>url\<close> that is
  not a string counts as relative, and a falsy one leaves \<open>baseURL\<close> alone.
\<close>

definition wire_url :: "jsval \<Rightarrow> jsval \<Rightarrow> jsval" where
  "wire_url base url =
     (case base of
        JStr b \<Rightarrow>
          if b = [] then url
          else (case url of
                  JStr u \<Rightarrow> if is_absolute_url u then url else JStr (combine_urls b u)
                | _ \<Rightarrow> if truthy url then url else base)
      | _ \<Rightarrow> url)"

text \<open>
  \<open>config.headers = utils.merge(headers.common || {}, headers[config.method] || {},
  headers || {})\<close>, then the per-method groups and \<open>common\<close> are deleted.
\<close>

definition header_groups :: "string list" where
  "header_groups = [''delete'', ''get'', ''head'', ''post'', ''put'', ''patch'', ''common'']"

definition flatten_headers :: "jsval \<Rightarrow> jsval \<Rightarrow> jsval" where
  "flatten_headers method hs =
     (let per_method = (case method of JStr m \<Rightarrow> js_get hs [m] | _ \<Rightarrow> JUndef);
          merged = js_merge (js_merge (js_or (js_get hs [''common'']) (JObj [])) (js_or per_method (JObj [])))
                     (js_or hs (JObj []))
      in JObj (filter (\<lambda>p. fst p \<notin> set header_groups) (obj_props merged)))"

text \<open>The config as \<open>dispatchRequest\<close> leaves it: what the adapter sends.\<close>

definition axios_wire :: "jsval \<Rightarrow> jsval" where
  "axios_wire cfg =
     (let u = wire_url (js_get cfg [''baseURL'']) (js_get cfg [''url'']);
          c1 = (if u = js_get cfg [''url''] then cfg else js_set cfg [''url''] u)
      in js_set c1 [''headers''] (flatten_headers (js_get cfg [''method'']) (js_get cfg [''headers''])))"

subsection \<open>Lemmas\<close>

lemma merge_keys_fold:
  "set (foldl (\<lambda>ks k. if k \<in> set ks then ks else ks @ [k]) ks0 xs) = set ks0 \<union> set xs"
  by (induction xs arbitrary: ks0) auto

lemma set_merge_keys: "set (merge_keys ps qs) = fst ` set ps \<union> fst ` set qs"
  by (simp add: merge_keys_def merge_keys_fold)

lemma own_map_keys: "own (map (\<lambda>k. (k, f k)) ks) k = (if k \<in> set ks then f k else JUndef)"
  by (induction ks) auto

lemma js_prop_obj_props: "js_prop v k = own (obj_props v) k"
  by (cases v) simp_all

lemma obj_props_js_merge: "obj_props (js_merge a b) =
     map (\<lambda>k. (k,
        if has_own (obj_props b) k then
          (if has_own (obj_props a) k \<and> typeof_object (own (obj_props a) k)
              \<and> typeof_object (own (obj_props b) k)
           then js_merge (own (obj_props a) k) (own (obj_props b) k)
           else own (obj_props b) k)
        else own (obj_props a) k))
      (merge_keys (obj_props a) (obj_props b))"
  by (subst js_merge.simps) simp

declare js_merge.simps [simp del]

text \<open>
  Evaluation equations: \<open>js_merge\<close> unfolds only on two object literals, so that
  \<open>simp\<close> computes a merge of concrete configs and leaves a symbolic one alone.
\<close>

lemma js_merge_obj:
  "js_merge (JObj ps) (JObj qs) =
     JObj (map (\<lambda>k. (k,
        if has_own qs k then
          (if has_own ps k \<and> typeof_object (own ps k) \<and> typeof_object (own qs k)
           then js_merge (own ps k) (own qs k)
           else own qs k)
        else own ps k))
      (merge_keys ps qs))"
  by (subst js_merge.simps) simp

lemma obj_props_non_object: "\<not> is_object v \<Longrightarrow> obj_props v = []"
  by (cases v) simp_all

lemma js_merge_non_object_left: "\<not> is_object a \<Longrightarrow> js_merge a b = js_merge (JObj []) b"
  by (subst (1 2) js_merge.simps) (simp add: obj_props_non_object)

lemma js_merge_non_object_right: "\<not> is_object b \<Longrightarrow> js_merge a b = js_merge a (JObj [])"
  by (subst (1 2) js_merge.simps) (simp add: obj_props_non_object)

lemma is_object_js_merge [simp]: "is_object (js_merge a b)"
  by (subst js_merge.simps) simp

lemma has_own_js_merge [simp]:
  "has_own (obj_props (js_merge a b)) k = (has_own (obj_props a) k \<or> has_own (obj_props b) k)"
  by (simp add: obj_props_js_merge has_own_keys set_merge_keys image_image)

lemma js_prop_js_merge:
  "js_prop (js_merge a b) k =
     (if has_own (obj_props b) k then
        (if has_own (obj_props a) k \<and> typeof_object (js_prop a k) \<and> typeof_object (js_prop b k)
         then js_merge (js_prop a k) (js_prop b k)
         else js_prop b k)
      else js_prop a k)"
  by (auto simp: js_prop_obj_props obj_props_js_merge own_map_keys set_merge_keys has_own_keys)

lemma js_prop_js_merge_right:
  "has_own (obj_props b) k \<Longrightarrow> \<not> typeof_object (js_prop b k) \<Longrightarrow> js_prop (js_merge a b) k = js_prop b k"
  by (simp add: js_prop_js_merge)

lemma js_prop_js_merge_left:
  "\<not> has_own (obj_props b) k \<Longrightarrow> js_prop (js_merge a b) k = js_prop a k"
  by (simp add: js_prop_js_merge)

lemma js_prop_js_merge_new:
  "\<not> has_own (obj_props a) k \<Longrightarrow> js_prop (js_merge a b) k = js_prop b k"
  by (subst js_prop_js_merge) (auto simp: js_prop_obj_props)

lemma has_own_js_set_other [simp]:
  "k' \<noteq> k \<Longrightarrow> has_own (obj_props (js_set v (k # ks) x)) k' = has_own (obj_props v) k'"
  by (cases v; cases ks) auto

lemma is_object_axios_wire [simp]: "is_object (axios_wire cfg) = is_object cfg"
  by (simp add: axios_wire_def Let_def)

lemma js_prop_axios_wire:
  "k \<noteq> ''url'' \<Longrightarrow> k \<noteq> ''headers'' \<Longrightarrow> js_prop (axios_wire cfg) k = js_prop cfg k"
  by (cases cfg) (simp_all add: axios_wire_def Let_def)

lemma axios_wire_non_object: "\<not> is_object cfg \<Longrightarrow> axios_wire cfg = cfg"
  by (simp add: axios_wire_def Let_def)

lemma js_prop_axios_wire_networkId [simp]:
  "js_prop (axios_wire cfg) ''networkId'' = js_prop cfg ''networkId''"
  by (simp add: js_prop_axios_wire)

lemma nullish_axios_wire [simp]: "nullish (axios_wire cfg) = nullish cfg"
  by (cases "is_object cfg") (auto simp: axios_wire_non_object is_object_not_nullish)

lemma js_get_axios_wire_networkId [simp]:
  "js_get (axios_wire cfg) [''networkId''] = js_get cfg [''networkId'']"
  by (cases "is_object cfg") (auto simp: js_prop_axios_wire axios_wire_non_object is_object_not_nullish)

text \<open>
  The headers the adapter sends: a request with only a \<open>common\<close> group sends that
  group's headers, whatever its method.
\<close>

lemma js_prop_axios_wire_url:
  "is_object cfg \<Longrightarrow> js_prop (axios_wire cfg) ''url'' = wire_url (js_get cfg [''baseURL'']) (js_get cfg [''url''])"
  by (cases cfg) (auto simp: axios_wire_def Let_def)

lemma is_absolute_url_slash: "\<not> is_absolute_url (CHR ''/'' # c # cs) \<longleftrightarrow> c \<noteq> CHR ''/''"
  by (simp add: is_absolute_url_def is_letter_def)

lemma js_prop_axios_wire_headers:
  "is_object cfg \<Longrightarrow> js_prop (axios_wire cfg) ''headers'' = flatten_headers (js_get cfg [''method'']) (js_get cfg [''headers''])"
  by (cases cfg) (simp_all add: axios_wire_def Let_def)

lemma is_object_flatten_headers [simp]: "is_object (flatten_headers m hs)"
  by (simp add: flatten_headers_def Let_def)

lemma flatten_headers_common:
  "\<not> typeof_object a \<Longrightarrow> js_prop (flatten_headers m (JObj [(''common'', JObj [(''Authorization'', a)])])) ''Authorization'' = a"
  by (cases m) (simp_all add: flatten_headers_def js_merge_obj merge_keys_def header_groups_def js_or_def)

end
