(* ===== verification/Transport.thy ===== *)
theory Transport
  imports Interceptors AxiosConfig
begin

text \<open>
  The HTTP transport the client is built on: the axios instance \<open>getNetwork\<close>
  creates (\<open>src/lib/index.js\<close>) and the way axios runs one \<open>request(config)\<close>
  through the interceptors \<open>src/lib/interceptors.js\<close> installs. axios is a library,
  not part of the sources; its request chain is modelled from its documented
  behaviour:
  \<^verbatim>\<open>Promise.resolve(config).then(reqFulfilled, reqRejected)
         .then(dispatchRequest, undefined)
         .then(resFulfilled, resRejected)\<close>
  so a rejection by the request interceptor skips the network and reaches the
  response error interceptor. The remote side is a \<open>transport\<close>: the answer to the
  \<open>k\<close>-th request that reaches the network, a status and a body or a failure
  (connection error, timeout). \<open>request(config)\<close> first lays the config over the
  instance defaults (\<open>axios_prepare\<close>, with the deep merge of \<open>AxiosConfig\<close>): the
  method defaults to \<open>get\<close>, every key of the caller's \<open>axiosConfig\<close> (its timeout,
  \<open>baseURL\<close>, and any other) reaches the request, and the \<open>Authorization\<close> default
  header, once set, sits in \<open>headers.common\<close>. The interceptors see that merged
  config; the transport gets it as \<open>dispatchRequest\<close> leaves it
  (\<open>axios_wire\<close>: \<open>baseURL\<close> joined to a relative \<open>url\<close>, headers flattened),
  and so does the response's \<open>config\<close>.
\<close>

datatype net_result = NetResponse int jsval | NetFailure jsval

type_synonym transport = "nat \<Rightarrow> jsval \<Rightarrow> net_result"

text \<open>
  The client's mutable world: the session object, the instance defaults, the
  instance's default \<open>Authorization\<close> header (\<open>undefined\<close> until set), the index of the next fresh
  correlation id, and the configurations that reached the network, in order.
\<close>

record client =
  state :: session
  defaults :: jsval
  authorization :: jsval
  guid_next :: nat
  sent :: "jsval list"

text \<open>
  \<open>getNetwork(options)\<close>: \<open>axios.create(_.extend({ timeout: TIMEOUT }, options))\<close>,
  the defaults of the instance; the caller's \<open>axiosConfig\<close> overrides the timeout.
\<close>

definition getNetwork :: "jsval \<Rightarrow> jsval" where
  "getNetwork options = js_extend (JObj [(''timeout'', JNum TIMEOUT)]) options"

definition new_client :: "jsval \<Rightarrow> session \<Rightarrow> client" where
  "new_client axiosConfig st =
     \<lparr>state = st, defaults = getNetwork axiosConfig, authorization = JUndef, guid_next = 0, sent = []\<rparr>"

text \<open>
  The instance defaults as a request reads them: \<open>network.defaults\<close>, with
  \<open>headers.common.Authorization\<close> once the handshake has set it.
\<close>

definition instance_defaults :: "jsval \<Rightarrow> jsval \<Rightarrow> jsval" where
  "instance_defaults defs auth =
     (if truthy auth then js_set defs [''headers'', ''common'', ''Authorization''] auth else defs)"

text \<open>\<open>config = utils.merge(defaults, { method: 'get' }, this.defaults, config)\<close>.\<close>

definition axios_prepare :: "jsval \<Rightarrow> jsval \<Rightarrow> jsval \<Rightarrow> jsval" where
  "axios_prepare defs auth cfg =
     js_merge (js_merge (JObj [(''method'', JStr ''get'')]) (instance_defaults defs auth)) cfg"

definition axios_dispatch :: "transport \<Rightarrow> nat \<Rightarrow> jsval \<Rightarrow> js_promise" where
  "axios_dispatch tr k cfg =
     (let w = axios_wire cfg in
      case tr k w of
        NetResponse st body \<Rightarrow>
          (let resp = JObj [(''data'', body), (''status'', JNum st), (''config'', w)] in
           if 200 \<le> st \<and> st < 300 then Fulfilled resp
           else Rejected (JObj [(''message'', JStr (''Request failed with status code '' @ string_of_int st)),
                                (''config'', w), (''response'', resp)]))
      | NetFailure msg \<Rightarrow> Rejected (JObj [(''message'', msg), (''config'', w)]))"

text \<open>The response side of the chain, applied to what the earlier stages settled in.\<close>

definition response_stage :: "session \<Rightarrow> js_promise \<Rightarrow> nat \<Rightarrow> js_promise \<times> nat" where
  "response_stage st p n =
     (case p of
        Pending \<Rightarrow> (Pending, n)
      | Fulfilled r \<Rightarrow> response_fulfilled st r n
      | Rejected e \<Rightarrow> response_rejected st e n)"

definition axios_request :: "transport \<Rightarrow> jsval \<Rightarrow> client \<Rightarrow> js_promise \<times> client" where
  "axios_request tr cfg c =
     (let (p1, n1) = request_fulfilled (state c) (axios_prepare (defaults c) (authorization c) cfg) (guid_next c)
      in case p1 of
           Fulfilled cfg1 \<Rightarrow>
             (let (p, n2) = response_stage (state c) (axios_dispatch tr (length (sent c)) cfg1) n1
              in (p, c\<lparr>guid_next := n2, sent := sent c @ [cfg1]\<rparr>))
         | _ \<Rightarrow>
             (let (p, n2) = response_stage (state c) p1 n1 in (p, c\<lparr>guid_next := n2\<rparr>)))"

subsection \<open>Lemmas\<close>

lemma is_object_axios_prepare [simp]: "is_object (axios_prepare defs auth cfg)"
  by (simp add: axios_prepare_def)

lemma is_object_getNetwork [simp]: "is_object (getNetwork options)"
  by (cases options) (simp_all add: getNetwork_def)

lemma has_own_instance_defaults [simp]:
  "k \<noteq> ''headers'' \<Longrightarrow> has_own (obj_props (instance_defaults defs auth)) k = has_own (obj_props defs) k"
  by (simp add: instance_defaults_def)

lemma js_prop_instance_defaults [simp]:
  "k \<noteq> ''headers'' \<Longrightarrow> js_prop (instance_defaults defs auth) k = js_prop defs k"
  by (simp add: instance_defaults_def)

text \<open>
  A key the instance defaults do not set is the request's own; one the request does
  not set comes from the defaults; a request's own value that is not an object wins.
\<close>

lemma axios_prepare_own:
  "k \<noteq> ''headers'' \<Longrightarrow> k \<noteq> ''method'' \<Longrightarrow> \<not> has_own (obj_props defs) k \<Longrightarrow>
     js_prop (axios_prepare defs auth cfg) k = js_prop cfg k"
  by (simp add: axios_prepare_def js_prop_js_merge_new)

lemma axios_prepare_default:
  "k \<noteq> ''headers'' \<Longrightarrow> k \<noteq> ''method'' \<Longrightarrow> \<not> has_own (obj_props cfg) k \<Longrightarrow>
     js_prop (axios_prepare defs auth cfg) k = js_prop defs k"
  by (simp add: axios_prepare_def js_prop_js_merge_left js_prop_js_merge_new)

lemma axios_prepare_wins:
  "has_own (obj_props cfg) k \<Longrightarrow> \<not> typeof_object (js_prop cfg k) \<Longrightarrow>
     js_prop (axios_prepare defs auth cfg) k = js_prop cfg k"
  by (simp add: axios_prepare_def js_prop_js_merge_right)

lemma axios_prepare_request:
  "k \<noteq> ''headers'' \<Longrightarrow> k \<noteq> ''method'' \<Longrightarrow> has_own (obj_props cfg) k \<Longrightarrow>
     \<not> typeof_object (js_prop defs k) \<Longrightarrow> js_prop (axios_prepare defs auth cfg) k = js_prop cfg k"
  by (auto simp: axios_prepare_def js_prop_js_merge js_prop_js_merge_new)

lemma axios_prepare_method:
  "\<not> has_own (obj_props cfg) ''method'' \<Longrightarrow> \<not> has_own (obj_props defs) ''method'' \<Longrightarrow>
     js_prop (axios_prepare defs auth cfg) ''method'' = JStr ''get''"
  by (simp add: axios_prepare_def js_prop_js_merge_left js_prop_js_merge_new)

text \<open>
  With no headers of its own in the defaults or the request, the merged config's
  headers are the \<open>Authorization\<close> default alone, in the \<open>common\<close> group.
\<close>

lemma axios_prepare_headers:
  assumes "is_object defs" "\<not> has_own (obj_props defs) ''headers''" "\<not> has_own (obj_props cfg) ''headers''" "truthy auth"
  shows "js_prop (axios_prepare defs auth cfg) ''headers'' = JObj [(''common'', JObj [(''Authorization'', auth)])]"
  using assms
  by (cases defs) (simp_all add: axios_prepare_def js_prop_js_merge_left js_prop_js_merge_new instance_defaults_def obj_or_new_def)

text \<open>
  With no headers in the instance defaults, the merged config's headers are the
  request's own, merged over the \<open>Authorization\<close> default once one is set.
\<close>

lemma instance_defaults_headers:
  assumes "is_object defs" "\<not> has_own (obj_props defs) ''headers''"
  shows "has_own (obj_props (instance_defaults defs auth)) ''headers'' = truthy auth"
    "js_prop (instance_defaults defs auth) ''headers'' =
      (if truthy auth then JObj [(''common'', JObj [(''Authorization'', auth)])] else JUndef)"
  using assms by (cases defs; simp add: instance_defaults_def obj_or_new_def js_prop_obj_props)+

lemma axios_prepare_cfg_headers:
  assumes "is_object defs" "\<not> has_own (obj_props defs) ''headers''"
  shows "js_prop (axios_prepare defs auth (JObj [(''url'', u), (''method'', m), (''headers'', JObj hs)])) ''headers'' =
    (if truthy auth then js_merge (JObj [(''common'', JObj [(''Authorization'', auth)])]) (JObj hs) else JObj hs)"
proof -
  have "js_prop (js_merge (JObj [(''method'', JStr ''get'')]) (instance_defaults defs auth)) ''headers'' =
      js_prop (instance_defaults defs auth) ''headers''"
    by (rule js_prop_js_merge_new) simp
  then show ?thesis
    using instance_defaults_headers [OF assms, of auth]
    by (simp add: axios_prepare_def js_prop_js_merge)
qed

lemma axios_request_frame:
  "axios_request tr cfg c = (p, c') \<Longrightarrow>
     state c' = state c \<and> authorization c' = authorization c \<and> defaults c' = defaults c"
  by (auto simp: axios_request_def split: prod.splits js_promise.splits)

lemma axios_request_sent:
  "axios_request tr cfg c = (p, c') \<Longrightarrow> \<exists>xs. sent c' = sent c @ xs \<and> length xs \<le> 1"
  by (auto simp: axios_request_def split: prod.splits js_promise.splits)

lemmas axios_eval = js_merge_obj js_merge_non_object_left js_merge_non_object_right merge_keys_def axios_wire_def flatten_headers_def wire_url_def
  is_absolute_url_def combine_urls_def header_groups_def is_letter_def is_scheme_char_def
  instance_defaults_def js_or_def

lemmas transport_defs [client_simps] = axios_prepare_def axios_dispatch_def response_stage_def
  axios_request_def new_client_def getNetwork_def

end
