(* ===== verification/Pipeline.thy ===== *)
theory Pipeline
  imports Transport
begin

text \<open>
  Properties of one request through the whole interceptor pipeline
  (\<open>src/lib/interceptors.js\<close> installed on the axios chain of \<open>Transport\<close>):
  what the pre-hook can veto, which correlation id the caller sees, how a rejected
  provider sub-code becomes a rejection, and that the id supply never repeats.
\<close>

definition never_throws :: "hook option \<Rightarrow> bool" where
  "never_throws h \<longleftrightarrow> (\<forall>f x v. h = Some f \<longrightarrow> f x \<noteq> Throws v)"

text \<open>A hook that never writes to the \<open>data\<close> object it is passed.\<close>

definition never_rewrites :: "hook option \<Rightarrow> bool" where
  "never_rewrites h \<longleftrightarrow> (\<forall>f x d e. h = Some f \<longrightarrow> f x \<noteq> Rewrites d e)"

lemma never_rewrites_None [simp]: "never_rewrites None"
  by (simp add: never_rewrites_def)

fun settled_id :: "js_promise \<Rightarrow> jsval option" where
  "settled_id Pending = None"
| "settled_id (Fulfilled r) = Some (js_get r [''networkId''])"
| "settled_id (Rejected e) = Some (js_get e [''networkId''])"

fun is_fulfilled :: "js_promise \<Rightarrow> bool" where
  "is_fulfilled (Fulfilled r) = True"
| "is_fulfilled _ = False"

subsection \<open>The request side\<close>

lemma request_fulfilled_tracked:
  "request_fulfilled st cfg n =
     (let (d, n') = addNetworkTracking cfg [''networkId''] n
      in (promisify (preHook st) JUndef d (request_params d), n'))"
  by (simp add: request_fulfilled_def addRequestNetworkTracking_def preHook_i_def split: prod.splits)

lemma promisify_truthy_error:
  "truthy error \<Longrightarrow> \<not> is_fulfilled (promisify hk error d ps)"
  by (auto simp: promisify_eval Let_def split: option.splits hook_result.splits)

lemma response_rejected_not_fulfilled:
  "is_object e \<Longrightarrow> \<not> is_fulfilled (fst (response_rejected st e n))"
  by (auto simp: response_rejected_def addResponseNetworkTracking_def postErrorHook_i_def
      addNetworkTracking_def Let_def is_object_truthy intro!: promisify_truthy_error)

lemma veto_request:
  assumes "preHook st = Some h" "\<forall>x. h x = Done err" "truthy err"
  shows "\<exists>e n'. request_fulfilled st cfg n = (Rejected e, n') \<and> is_object e"
  using assms
  by (auto simp: request_fulfilled_tracked promisify_eval Let_def split: prod.splits)

text \<open>
  The id the request interceptor finds on a merged config is the caller's own unless
  the instance defaults (the constructor's \<open>axiosConfig\<close>) carry one.
\<close>

lemma axios_prepare_networkId_get:
  "\<not> has_own (obj_props defs) ''networkId'' \<Longrightarrow>
     js_get (axios_prepare defs auth cfg) [''networkId''] = js_get cfg [''networkId'']"
  by (cases cfg) (simp_all add: axios_prepare_own)

lemma veto_request_id:
  assumes "preHook st = Some h" "\<forall>x. h x = Done err" "truthy err" "is_object cfg"
    "\<not> truthy (js_get cfg [''networkId''])"
  shows "request_fulfilled st cfg n =
    (Rejected (JObj [(''hookError'', err), (''networkId'', getNetworkId n)]), Suc n)"
  using assms
  by (simp add: request_fulfilled_tracked addNetworkTracking_def promisify_eval Let_def
      js_get_js_set_same del: js_get_single)

subsection \<open>The pre-hook's veto\<close>

text \<open>C3: a pre-hook that reports an error keeps the request off the network, and the caller never sees a success.\<close>

theorem prehook_veto_blocks_network:
  assumes "preHook (state c) = Some h" "\<forall>x. h x = Done err" "truthy err"
    and "axios_request tr cfg c = (p, c')"
  shows "sent c' = sent c \<and> \<not> is_fulfilled p"
proof -
  obtain e n' where req: "request_fulfilled (state c) (axios_prepare (defaults c) (authorization c) cfg) (guid_next c)
      = (Rejected e, n')" and obj: "is_object e"
    using veto_request [OF assms(1-3)] by blast
  from assms(4) req have "p = fst (response_rejected (state c) e n')" and "sent c' = sent c"
    by (auto simp: axios_request_def response_stage_def split: prod.splits)
  with obj show ?thesis by (simp add: response_rejected_not_fulfilled)
qed

text \<open>
  C4: the correlation id of a vetoed request is lost. The request was stamped with the
  fresh id \<open>n\<close> and the pre-hook's error carries it, but axios hands the rejection to
  the response error interceptor, whose \<open>addNetworkTracking\<close> finds no
  \<open>config.networkId\<close> on it and stamps a second fresh id over it: the caller receives
  id \<open>n + 1\<close>.
\<close>

theorem prehook_veto_networkId_replaced:
  assumes "preHook (state c) = Some h" "\<forall>x. h x = Done err" "truthy err"
    and "postHook (state c) = None" "\<not> has_own (obj_props (defaults c)) ''networkId''"
    "\<not> truthy (js_get cfg [''networkId''])"
  shows "axios_request tr cfg c =
      (Rejected (JObj [(''hookError'', err), (''networkId'', getNetworkId (Suc (guid_next c)))]),
       c\<lparr>guid_next := Suc (Suc (guid_next c))\<rparr>)
    \<and> js_get (fst (addNetworkTracking (axios_prepare (defaults c) (authorization c) cfg) [''networkId''] (guid_next c)))
        [''networkId''] = getNetworkId (guid_next c)
    \<and> getNetworkId (Suc (guid_next c)) \<noteq> getNetworkId (guid_next c)"
proof -
  let ?cfg = "axios_prepare (defaults c) (authorization c) cfg"
  have obj: "is_object ?cfg" by simp
  have fresh: "\<not> truthy (js_get ?cfg [''networkId''])"
    using assms(6) axios_prepare_networkId_get [OF assms(5)] by simp
  have req: "request_fulfilled (state c) ?cfg (guid_next c) =
      (Rejected (JObj [(''hookError'', err), (''networkId'', getNetworkId (guid_next c))]), Suc (guid_next c))"
    by (rule veto_request_id [OF assms(1-3) obj fresh])
  have "response_rejected (state c)
      (JObj [(''hookError'', err), (''networkId'', getNetworkId (guid_next c))]) (Suc (guid_next c)) =
      (Rejected (JObj [(''hookError'', err), (''networkId'', getNetworkId (Suc (guid_next c)))]),
       Suc (Suc (guid_next c)))"
    using assms(4)
    by (simp add: response_rejected_def addResponseNetworkTracking_def postErrorHook_i_def
        addNetworkTracking_def promisify_eval js_get_cons)
  with req have "axios_request tr cfg c =
      (Rejected (JObj [(''hookError'', err), (''networkId'', getNetworkId (Suc (guid_next c)))]),
       c\<lparr>guid_next := Suc (Suc (guid_next c))\<rparr>)"
    by (simp add: axios_request_def response_stage_def)
  moreover have "js_get (fst (addNetworkTracking ?cfg [''networkId''] (guid_next c))) [''networkId'']
      = getNetworkId (guid_next c)"
    using obj fresh by (simp add: addNetworkTracking_def js_get_js_set_same del: js_get_single)
  ultimately show ?thesis by simp
qed

subsection \<open>A pre-hook that rewrites the request\<close>

lemma addNetworkTracking_is_object:
  "is_object data \<Longrightarrow> is_object (fst (addNetworkTracking data path n))"
  by (simp add: addNetworkTracking_def Let_def)

text \<open>
  C38: the request that reaches the network is the one the pre-hook leaves behind.
  A pre-hook that writes to the config it is passed and then calls back without an
  error sends its own version of the request, whatever the method built: the
  transport is called with the rewritten object, and that object is what the log of
  sent requests records.
\<close>

theorem prehook_rewrite_reaches_network:
  assumes "preHook (state c) = Some h" "\<forall>x. h x = Rewrites d err" "\<not> truthy err"
    and "is_object d" "is_object cfg"
  shows "sent (snd (axios_request tr cfg c)) = sent c @ [d]"
proof -
  let ?cfg = "axios_prepare (defaults c) (authorization c) cfg"
  obtain d0 n1 where t: "addNetworkTracking ?cfg [''networkId''] (guid_next c) = (d0, n1)" by force
  have "is_object d0"
    using addNetworkTracking_is_object [of ?cfg "[''networkId'']" "guid_next c"] t assms(5) by simp
  with t assms(1-4) have "request_fulfilled (state c) ?cfg (guid_next c) = (Fulfilled d, n1)"
    by (simp add: request_fulfilled_tracked promisify_eval)
  then show ?thesis by (simp add: axios_request_def case_prod_beta)
qed

subsection \<open>Correlation ids from request to response\<close>

lemma promisify_Fulfilled:
  "never_rewrites hk \<Longrightarrow> promisify hk error d ps = Fulfilled r \<Longrightarrow> r = d"
  by (auto simp: promisify_eval never_rewrites_def Let_def split: option.splits hook_result.splits if_splits)

lemma promisify_settled_id:
  assumes "never_throws hk" "never_rewrites hk"
    and "truthy error \<Longrightarrow> js_get error [''networkId''] = i"
    and "\<not> truthy error \<Longrightarrow> js_get d [''networkId''] = i"
  shows "settled_id (promisify hk error d ps) \<in> {None, Some i}"
  using assms
  by (cases "truthy error")
     (auto simp: promisify_eval never_throws_def never_rewrites_def Let_def
        split: option.splits hook_result.splits)

lemma response_fulfilled_settled_id:
  assumes "never_throws (postHook st)" "is_object resp" "truthy (js_get resp [''config'', ''networkId''])"
    and "is_object (js_get resp [''data''])" "never_rewrites (postHook st)"
  shows "settled_id (fst (response_fulfilled st resp n)) \<in> {None, Some (js_get resp [''config'', ''networkId''])}"
proof -
  let ?i = "js_get resp [''config'', ''networkId'']"
  let ?d = "js_set resp [''networkId''] ?i"
  let ?body = "js_get ?d [''data'']"
  have body: "?body = js_get resp [''data'']"
    by (simp add: js_get_js_set_other del: js_get_single)
  let ?params = "js_set ?body [''networkId''] ?i"
  have d_id: "js_get ?d [''networkId''] = ?i"
    using assms(2) by (simp add: js_get_js_set_same del: js_get_single)
  have params_id: "js_get ?params [''networkId''] = ?i"
    using assms(4) body by (simp add: js_get_js_set_same del: js_get_single)
  have data'_id: "js_get (js_set ?d [''data''] ?params) [''networkId''] = ?i"
    using d_id by (simp add: js_get_js_set_other del: js_get_single)
  have stamp: "stamp_body ?d = (?params, js_set ?d [''data''] ?params)"
    using assms(4) body d_id by (simp add: stamp_body_def Let_def del: js_get_single)
  have "response_fulfilled st resp n = (postHook_i st ?d, n)"
    using assms(3) by (simp add: response_fulfilled_def addResponseNetworkTracking_def
        addNetworkTracking_def del: js_get_single)
  moreover have "settled_id (postHook_i st ?d) \<in> {None, Some ?i}"
    unfolding postHook_i_def stamp Let_def prod.case
    by (rule promisify_settled_id [OF assms(1,5)])
       (auto simp: params_id data'_id simp del: js_get_single)
  ultimately show ?thesis by simp
qed

lemma response_rejected_settled_id:
  assumes "never_throws (postHook st)" "is_object e" "truthy (js_get e [''config'', ''networkId''])"
    "never_rewrites (postHook st)"
  shows "settled_id (fst (response_rejected st e n)) \<in> {None, Some (js_get e [''config'', ''networkId''])}"
proof -
  let ?i = "js_get e [''config'', ''networkId'']"
  have "response_rejected st e n = (postErrorHook_i st (js_set e [''networkId''] ?i), n)"
    using assms(3) by (simp add: response_rejected_def addResponseNetworkTracking_def
        addNetworkTracking_def del: js_get_single)
  moreover have "js_get (js_set e [''networkId''] ?i) [''networkId''] = ?i"
    using assms(2) by (simp add: js_get_js_set_same del: js_get_single)
  then have "settled_id (postErrorHook_i st (js_set e [''networkId''] ?i)) \<in> {None, Some ?i}"
    unfolding postErrorHook_i_def
    by (intro promisify_settled_id [OF assms(1,4)]) (auto simp: is_object_truthy assms(2))
  ultimately show ?thesis by simp
qed

lemma axios_dispatch_Fulfilled:
  "axios_dispatch tr k cfg = Fulfilled r \<Longrightarrow>
     \<exists>st b. tr k (axios_wire cfg) = NetResponse st b
       \<and> r = JObj [(''data'', b), (''status'', JNum st), (''config'', axios_wire cfg)]"
  by (auto simp: axios_dispatch_def Let_def split: net_result.splits if_splits)

lemma axios_dispatch_Rejected:
  "axios_dispatch tr k cfg = Rejected e \<Longrightarrow> is_object e \<and> js_prop e ''config'' = axios_wire cfg"
  by (auto simp: axios_dispatch_def Let_def split: net_result.splits if_splits)

lemma axios_dispatch_not_Pending: "axios_dispatch tr k cfg \<noteq> Pending"
  by (auto simp: axios_dispatch_def Let_def split: net_result.splits)

text \<open>
  Only a request whose pre-hook let it through reaches the network, and then the
  response side runs on what the network answered.
\<close>

lemma axios_request_dispatched:
  assumes "axios_request tr cfg c = (p, c')" "sent c' = sent c @ [cfg1]"
  shows "\<exists>n1. request_fulfilled (state c) (axios_prepare (defaults c) (authorization c) cfg) (guid_next c) = (Fulfilled cfg1, n1)
      \<and> p = fst (response_stage (state c) (axios_dispatch tr (length (sent c)) cfg1) n1)"
  using assms
  by (auto simp: axios_request_def split: prod.splits js_promise.splits)

lemma request_fulfilled_Fulfilled:
  assumes "request_fulfilled st cfg n = (Fulfilled cfg1, n1)" "is_object cfg" "never_rewrites (preHook st)"
  shows "is_object cfg1 \<and> js_get cfg1 [''networkId''] =
    (if truthy (js_get cfg [''networkId'']) then js_get cfg [''networkId''] else getNetworkId n)"
proof -
  obtain d n' where tr: "addNetworkTracking cfg [''networkId''] n = (d, n')" by force
  with assms(1) have "promisify (preHook st) JUndef d (request_params d) = Fulfilled cfg1"
    by (simp add: request_fulfilled_tracked)
  then have "cfg1 = d" by (rule promisify_Fulfilled [OF assms(3)])
  moreover have "is_object d" using tr assms(2)
    by (auto simp: addNetworkTracking_def Let_def split: if_splits)
  ultimately show ?thesis using addNetworkTracking_id [OF assms(2) tr] by simp
qed

text \<open>
  C5: for every request that reaches the network, the id the caller's result carries
  (success or failure) is the id of the request that was sent, and that id is the
  caller's own \<open>networkId\<close> when it supplied one, a fresh one otherwise. The
  hypotheses: the post-hook never throws, neither hook writes to the object it is
  passed, the provider's bodies are JSON objects, and the instance defaults carry no
  \<open>networkId\<close> of their own (axios merges them into every request).
\<close>

theorem correlation_id_preserved:
  assumes "axios_request tr cfg c = (p, c')" "sent c' = sent c @ [cfg1]"
    and "never_throws (postHook (state c))" "\<not> has_own (obj_props (defaults c)) ''networkId''"
    and "\<forall>k x st b. tr k x = NetResponse st b \<longrightarrow> is_object b"
    and "never_rewrites (preHook (state c))" "never_rewrites (postHook (state c))"
  shows "settled_id p \<in> {None, Some (js_get cfg1 [''networkId''])} \<and>
    js_get cfg1 [''networkId''] =
      (if truthy (js_get cfg [''networkId'']) then js_get cfg [''networkId''] else getNetworkId (guid_next c))"
proof -
  obtain n1 where req: "request_fulfilled (state c) (axios_prepare (defaults c) (authorization c) cfg) (guid_next c) = (Fulfilled cfg1, n1)"
    and p: "p = fst (response_stage (state c) (axios_dispatch tr (length (sent c)) cfg1) n1)"
    using axios_request_dispatched [OF assms(1,2)] by blast
  have cfg1: "is_object cfg1 \<and> js_get cfg1 [''networkId''] =
    (if truthy (js_get cfg [''networkId'']) then js_get cfg [''networkId''] else getNetworkId (guid_next c))"
    using request_fulfilled_Fulfilled [OF req _ assms(6)] axios_prepare_networkId_get [OF assms(4)]
    by (simp del: js_get_single)
  then have id_truthy: "truthy (js_get cfg1 [''networkId''])"
    by (auto simp del: js_get_single)
  have "settled_id p \<in> {None, Some (js_get cfg1 [''networkId''])}"
  proof (cases "axios_dispatch tr (length (sent c)) cfg1")
    case Pending
    then show ?thesis using axios_dispatch_not_Pending by blast
  next
    case (Fulfilled r)
    then obtain st b where tr: "tr (length (sent c)) (axios_wire cfg1) = NetResponse st b"
      and r: "r = JObj [(''data'', b), (''status'', JNum st), (''config'', axios_wire cfg1)]"
      by (blast dest: axios_dispatch_Fulfilled)
    have "is_object b" using assms(5) tr by blast
    moreover have "js_get r [''config'', ''networkId''] = js_get cfg1 [''networkId'']"
      using r by (simp add: js_get_cons del: js_get_single)
    ultimately have "settled_id (fst (response_fulfilled (state c) r n1)) \<in> {None, Some (js_get cfg1 [''networkId''])}"
      using response_fulfilled_settled_id [OF assms(3) _ _ _ assms(7), of r n1] id_truthy r
      by (simp add: js_get_cons)
    with Fulfilled p show ?thesis by (simp add: response_stage_def)
  next
    case (Rejected e)
    then have e: "is_object e" "js_prop e ''config'' = axios_wire cfg1" by (auto dest: axios_dispatch_Rejected)
    moreover have "js_get e [''config'', ''networkId''] = js_get cfg1 [''networkId'']"
      using e by (simp add: js_get_cons del: js_get_single)
    ultimately have "settled_id (fst (response_rejected (state c) e n1)) \<in> {None, Some (js_get cfg1 [''networkId''])}"
      using response_rejected_settled_id [OF assms(3) _ _ assms(7), of e n1] id_truthy
      by (simp add: js_get_cons)
    with Rejected p show ?thesis by (simp add: response_stage_def)
  qed
  with cfg1 show ?thesis by blast
qed

lemma dispatch_config:
  "axios_dispatch tr k cfg1 = Fulfilled r \<or> axios_dispatch tr k cfg1 = Rejected r \<Longrightarrow>
     is_object r \<and> js_prop r ''config'' = axios_wire cfg1"
  by (auto dest: axios_dispatch_Fulfilled axios_dispatch_Rejected)

text \<open>
  C32: the correlation id round-trips through the network: the id the request
  interceptor writes on the config (the caller's own, or a fresh one) is the id the
  response interceptor reads back from \<open>config.networkId\<close> of the answer or of the
  transport error, and reading it draws no fresh id.
\<close>

theorem correlation_id_roundtrip:
  assumes "is_object cfg" "addRequestNetworkTracking id cfg n = (cfg1, n1)"
    and "axios_dispatch tr k cfg1 = Fulfilled r \<or> axios_dispatch tr k cfg1 = Rejected r"
  shows "addResponseNetworkTracking id r m = (js_set r [''networkId''] (js_get cfg1 [''networkId'']), m)
    \<and> js_get cfg1 [''networkId''] =
        (if truthy (js_get cfg [''networkId'']) then js_get cfg [''networkId''] else getNetworkId n)"
proof -
  have t: "addNetworkTracking cfg [''networkId''] n = (cfg1, n1)"
    using assms(2) by (simp add: addRequestNetworkTracking_def case_prod_beta)
  have idv: "js_get cfg1 [''networkId''] =
      (if truthy (js_get cfg [''networkId'']) then js_get cfg [''networkId''] else getNetworkId n)"
    by (rule addNetworkTracking_id [OF assms(1) t])
  then have tr1: "truthy (js_get cfg1 [''networkId''])" by (auto simp del: js_get_single)
  from dispatch_config [OF assms(3)] have r: "is_object r" "js_prop r ''config'' = axios_wire cfg1" by simp_all
  then have "js_get r [''config'', ''networkId''] = js_get cfg1 [''networkId'']"
    by (simp add: js_get_cons del: js_get_single)
  with tr1 idv show ?thesis
    by (simp add: addResponseNetworkTracking_def addNetworkTracking_def del: js_get_single)
qed

subsection \<open>Provider-level rejection\<close>

lemma request_fulfilled_no_hook:
  assumes "preHook st = None" "is_object cfg" "\<not> truthy (js_get cfg [''networkId''])"
  shows "request_fulfilled st cfg n = (Fulfilled (js_set cfg [''networkId''] (getNetworkId n)), Suc n)"
  using assms by (simp add: request_fulfilled_tracked addNetworkTracking_def promisify_eval)

lemma postHook_i_invalid_subcode:
  assumes "is_object d" "is_object (js_get d [''data''])"
    and "\<not> validateSubCode (js_get d [''data'', ''subCode''])"
  shows "postHook_i st d =
    promisify (postHook st) (js_set (js_get d [''data'']) [''networkId''] (js_get d [''networkId'']))
      (js_set d [''data''] (js_set (js_get d [''data'']) [''networkId''] (js_get d [''networkId''])))
      JNull"
proof -
  let ?b = "js_get d [''data'']"
  let ?b' = "js_set ?b [''networkId''] (js_get d [''networkId''])"
  have sc: "js_get ?b' [''subCode''] = js_get d [''data'', ''subCode'']"
    using assms(1,2) by (simp add: js_get_cons)
  have "truthy ?b'" using assms(2) by (simp add: is_object_truthy)
  with sc assms show ?thesis
    by (simp add: postHook_i_def stamp_body_def Let_def del: js_get_single)
qed

text \<open>
  C6: a 2xx response whose body's \<open>subCode\<close> the validator rejects is handed to the
  post-hook in error mode, the whole body (stamped with the request's id) as the error
  and \<open>params\<close> null; without a post-hook the call rejects with exactly that body.
\<close>

theorem subcode_rejection:
  assumes "preHook (state c) = None" "\<not> has_own (obj_props (defaults c)) ''networkId''"
    "\<not> truthy (js_get cfg [''networkId''])"
    and "tr (length (sent c)) = (\<lambda>_. NetResponse st body)" "200 \<le> st" "st < 300"
    and "is_object body" "\<not> validateSubCode (js_get body [''subCode''])"
  shows "(\<exists>resp. fst (axios_request tr cfg c) =
      promisify (postHook (state c)) (js_set body [''networkId''] (getNetworkId (guid_next c))) resp JNull)
    \<and> (postHook (state c) = None \<longrightarrow>
      fst (axios_request tr cfg c) = Rejected (js_set body [''networkId''] (getNetworkId (guid_next c))))"
proof -
  let ?n = "guid_next c"
  let ?cfg1 = "js_set (axios_prepare (defaults c) (authorization c) cfg) [''networkId''] (getNetworkId ?n)"
  let ?resp = "JObj [(''data'', body), (''status'', JNum st), (''config'', axios_wire ?cfg1)]"
  let ?d = "js_set ?resp [''networkId''] (getNetworkId ?n)"
  have req: "request_fulfilled (state c) (axios_prepare (defaults c) (authorization c) cfg) ?n = (Fulfilled ?cfg1, Suc ?n)"
    using assms(1,3) axios_prepare_networkId_get [OF assms(2)]
    by (intro request_fulfilled_no_hook) (simp_all del: js_get_single)
  have disp: "axios_dispatch tr (length (sent c)) ?cfg1 = Fulfilled ?resp"
    using assms(4-6) by (simp add: axios_dispatch_def)
  have cfg1_id: "js_get (axios_wire ?cfg1) [''networkId''] = getNetworkId ?n"
    by (simp add: js_get_js_set_same del: js_get_single)
  have resp: "response_fulfilled (state c) ?resp (Suc ?n) = (postHook_i (state c) ?d, Suc ?n)"
    using cfg1_id by (simp add: response_fulfilled_def addResponseNetworkTracking_def
        addNetworkTracking_def js_get_cons Let_def del: js_get_single)
  have dd: "js_get ?d [''data''] = body" "js_get ?d [''networkId''] = getNetworkId ?n"
    "js_get ?d [''data'', ''subCode''] = js_get body [''subCode'']"
    by (simp_all add: js_get_cons)
  have post: "postHook_i (state c) ?d = promisify (postHook (state c))
      (js_set body [''networkId''] (getNetworkId ?n)) (js_set ?d [''data''] (js_set body [''networkId''] (getNetworkId ?n))) JNull"
    using postHook_i_invalid_subcode [of ?d] assms(7,8) dd by (simp del: js_get_single)
  have run: "fst (axios_request tr cfg c) = promisify (postHook (state c))
      (js_set body [''networkId''] (getNetworkId ?n)) (js_set ?d [''data''] (js_set body [''networkId''] (getNetworkId ?n))) JNull"
    using req disp resp post by (simp add: axios_request_def response_stage_def)
  moreover have "truthy (js_set body [''networkId''] (getNetworkId ?n))"
    using assms(7) by (simp add: is_object_truthy)
  ultimately show ?thesis by (auto simp: promisify_no_hook)
qed

subsection \<open>What a fulfilled request can carry\<close>

lemma js_get_data_subCode_non_object:
  "\<not> is_object (js_get d [''data'']) \<Longrightarrow> js_get d [''data'', ''subCode''] = JUndef"
  by (cases d) (auto simp: js_get_cons elim: is_object.elims)

lemma postHook_i_fulfilled:
  assumes "postHook_i st d = Fulfilled r" "never_rewrites (postHook st)"
  shows "validateSubCode (js_get r [''data'', ''subCode'']) \<or> nullish (js_get r [''data'', ''subCode''])"
proof (cases "is_object (js_get d [''data''])")
  case True
  let ?ps = "js_set (js_get d [''data'']) [''networkId''] (js_get d [''networkId''])"
  have d: "is_object d" using True by (cases d) auto
  have sc: "js_get (js_set d [''data''] ?ps) [''data'', ''subCode''] = js_get ?ps [''subCode'']"
    using d True by (simp add: js_get_cons)
  show ?thesis
  proof (cases "validateSubCode (js_get ?ps [''subCode''])")
    case valid: True
    from assms True have "promisify (postHook st) JNull (js_set d [''data''] ?ps) JNull = Fulfilled r \<or>
        promisify (postHook st) JNull (js_set d [''data''] ?ps) ?ps = Fulfilled r"
      by (simp add: postHook_i_def stamp_body_def Let_def valid del: js_get_single)
    then have "r = js_set d [''data''] ?ps" using assms(2) by (auto dest: promisify_Fulfilled)
    with valid sc show ?thesis by simp
  next
    case False
    have t: "truthy ?ps" using True by (simp add: is_object_truthy)
    with assms True False have "promisify (postHook st) ?ps (js_set d [''data''] ?ps) JNull = Fulfilled r"
      by (simp add: postHook_i_def stamp_body_def Let_def del: js_get_single)
    then have False using promisify_truthy_error [OF t] by (metis is_fulfilled.simps(1))
    then show ?thesis ..
  qed
next
  case False
  have "stamp_body d = (js_get d [''data''], d)"
    using False by (simp add: stamp_body_def Let_def del: js_get_single)
  with assms have "r = d"
    by (auto simp: postHook_i_def Let_def dest: promisify_Fulfilled [OF assms(2)])
  with False show ?thesis by (simp add: js_get_data_subCode_non_object del: js_get_single)
qed

lemma response_stage_fulfilled:
  assumes "fst (response_stage st p n) = Fulfilled r" "never_rewrites (postHook st)"
  shows "validateSubCode (js_get r [''data'', ''subCode'']) \<or> nullish (js_get r [''data'', ''subCode''])"
proof (cases p)
  case (Fulfilled resp)
  obtain d n' where "addNetworkTracking resp [''config'', ''networkId''] n = (d, n')" by force
  with assms Fulfilled have "postHook_i st d = Fulfilled r"
    by (simp add: response_stage_def response_fulfilled_def addResponseNetworkTracking_def)
  then show ?thesis using assms(2) by (rule postHook_i_fulfilled)
next
  case (Rejected e)
  obtain d n' where "addNetworkTracking e [''config'', ''networkId''] n = (d, n')" by force
  with assms Rejected have "r = JUndef"
    by (auto simp: response_stage_def response_rejected_def addResponseNetworkTracking_def
        postErrorHook_i_def dest: promisify_Fulfilled [OF assms(2)])
  then show ?thesis by (simp add: js_get_cons)
qed (use assms in \<open>simp add: response_stage_def\<close>)

lemma axios_request_fulfilled_subcode:
  assumes "axios_request tr cfg c = (Fulfilled r, c')" "never_rewrites (postHook (state c))"
  shows "validateSubCode (js_get r [''data'', ''subCode'']) \<or> nullish (js_get r [''data'', ''subCode''])"
proof -
  from assms obtain p n n' where "response_stage (state c) p n = (Fulfilled r, n')"
    by (auto simp: axios_request_def split: prod.splits js_promise.splits)
  then show ?thesis using response_stage_fulfilled [of "state c" p n r] assms(2) by simp
qed

subsection \<open>A request the provider answers with 2xx\<close>

lemma addNetworkTracking_truthy:
  "is_object data \<Longrightarrow> truthy (js_get (fst (addNetworkTracking data path n)) [''networkId''])"
  by (simp add: addNetworkTracking_def Let_def js_get_js_set_same getNetworkId_def del: js_get_single)

text \<open>
  The id a request carries is whatever the request interceptor settles on: the
  merged config's own when truthy, a fresh one otherwise.
\<close>

lemma axios_request_2xx:
  fixes cfg :: jsval
  assumes "preHook (state c) = None"
    and "tr (length (sent c)) = (\<lambda>_. NetResponse st body)" "200 \<le> st" "st < 300"
  defines "cfg1 \<equiv> fst (addNetworkTracking (axios_prepare (defaults c) (authorization c) cfg) [''networkId''] (guid_next c))"
    and "n1 \<equiv> snd (addNetworkTracking (axios_prepare (defaults c) (authorization c) cfg) [''networkId''] (guid_next c))"
  shows "axios_request tr cfg c =
    (postHook_i (state c) (js_set (JObj [(''data'', body), (''status'', JNum st), (''config'', axios_wire cfg1)])
        [''networkId''] (js_get cfg1 [''networkId''])),
     c\<lparr>guid_next := n1, sent := sent c @ [cfg1]\<rparr>)"
proof -
  have req: "request_fulfilled (state c) (axios_prepare (defaults c) (authorization c) cfg) (guid_next c) =
      (Fulfilled cfg1, n1)"
    unfolding cfg1_def n1_def using assms(1)
    by (simp add: request_fulfilled_tracked promisify_eval case_prod_beta)
  have "truthy (js_get cfg1 [''networkId''])"
    unfolding cfg1_def by (simp add: addNetworkTracking_truthy del: js_get_single)
  with req assms(2-4) show ?thesis
    by (simp add: axios_request_def response_stage_def axios_dispatch_def response_fulfilled_def
        addResponseNetworkTracking_def addNetworkTracking_def js_get_cons Let_def del: js_get_single)
qed

lemma postHook_i_valid_no_hook:
  assumes "postHook st = None" "is_object d" "is_object (js_get d [''data''])"
    and "validateSubCode (js_get d [''data'', ''subCode''])"
  shows "postHook_i st d =
    Fulfilled (js_set d [''data''] (js_set (js_get d [''data'']) [''networkId''] (js_get d [''networkId''])))"
proof -
  have "js_get (js_set (js_get d [''data'']) [''networkId''] (js_get d [''networkId''])) [''subCode'']
      = js_get d [''data'', ''subCode'']"
    using assms(2,3) by (simp add: js_get_cons)
  with assms show ?thesis
    by (simp add: postHook_i_def stamp_body_def Let_def promisify_eval del: js_get_single)
qed

text \<open>A post-hook that rewrites the response and calls back without error: the call resolves with its rewrite.\<close>

lemma postHook_i_valid_rewrite:
  assumes "postHook st = Some hk" "\<And>x. hk x = Rewrites d' err" "\<not> truthy err" "is_object d'"
    and "is_object d" "is_object (js_get d [''data''])"
    and "validateSubCode (js_get d [''data'', ''subCode''])"
  shows "postHook_i st d = Fulfilled d'"
proof -
  have "js_get (js_set (js_get d [''data'']) [''networkId''] (js_get d [''networkId''])) [''subCode'']
      = js_get d [''data'', ''subCode'']"
    using assms(5,6) by (simp add: js_get_cons)
  with assms show ?thesis
    by (simp add: postHook_i_def stamp_body_def Let_def promisify_def hook_callback_def hook_data_def
        del: js_get_single)
qed

subsection \<open>Witnesses\<close>

theorem prehook_veto_blocks_network_witness:
  "sent (snd (axios_request (\<lambda>_ _. NetResponse 200 (JObj [])) (JObj [(''url'', JStr ''/x'')])
      (new_client JUndef (new_session (JStr ''id'') (JStr ''secret'') (Some (\<lambda>_. Done (JStr ''veto''))) None))))
    = [] \<and>
   \<not> is_fulfilled (fst (axios_request (\<lambda>_ _. NetResponse 200 (JObj [])) (JObj [(''url'', JStr ''/x'')])
      (new_client JUndef (new_session (JStr ''id'') (JStr ''secret'') (Some (\<lambda>_. Done (JStr ''veto''))) None))))"
  using prehook_veto_blocks_network [of
      "new_client JUndef (new_session (JStr ''id'') (JStr ''secret'') (Some (\<lambda>_. Done (JStr ''veto''))) None)"
      "\<lambda>_. Done (JStr ''veto'')" "JStr ''veto''" "\<lambda>_ _. NetResponse 200 (JObj [])"
      "JObj [(''url'', JStr ''/x'')]", OF _ _ _ prod.collapse [symmetric]]
  by (simp add: new_client_def new_session_def)

theorem prehook_veto_networkId_replaced_witness:
  "axios_request (\<lambda>_ _. NetResponse 200 (JObj [])) (JObj [(''url'', JStr ''/x'')])
      (new_client JUndef (new_session (JStr ''id'') (JStr ''secret'') (Some (\<lambda>_. Done (JStr ''veto''))) None)) =
    (Rejected (JObj [(''hookError'', JStr ''veto''), (''networkId'', getNetworkId 1)]),
     new_client JUndef (new_session (JStr ''id'') (JStr ''secret'') (Some (\<lambda>_. Done (JStr ''veto''))) None)
       \<lparr>guid_next := 2\<rparr>)"
  using prehook_veto_networkId_replaced [of
      "new_client JUndef (new_session (JStr ''id'') (JStr ''secret'') (Some (\<lambda>_. Done (JStr ''veto''))) None)"
      "\<lambda>_. Done (JStr ''veto'')" "JStr ''veto''" "JObj [(''url'', JStr ''/x'')]"
      "\<lambda>_ _. NetResponse 200 (JObj [])"]
  by (simp add: new_client_def new_session_def getNetwork_def numeral_2_eq_2)

theorem prehook_rewrite_reaches_network_witness:
  "sent (snd (axios_request (\<lambda>_ _. NetFailure (JStr ''down'')) (JObj [(''url'', JStr URL_GET_BALANCE)])
      (new_client JUndef (new_session (JStr ''id'') (JStr ''secret'')
         (Some (\<lambda>_. Rewrites (JObj [(''url'', JStr ''https://elsewhere.example/'')]) JUndef)) None))))
   = [JObj [(''url'', JStr ''https://elsewhere.example/'')]]"
  using prehook_rewrite_reaches_network [where c = "new_client JUndef (new_session (JStr ''id'') (JStr ''secret'')
      (Some (\<lambda>_. Rewrites (JObj [(''url'', JStr ''https://elsewhere.example/'')]) JUndef)) None)"
      and h = "\<lambda>_. Rewrites (JObj [(''url'', JStr ''https://elsewhere.example/'')]) JUndef"
      and d = "JObj [(''url'', JStr ''https://elsewhere.example/'')]" and err = JUndef
      and cfg = "JObj [(''url'', JStr URL_GET_BALANCE)]" and tr = "\<lambda>_ _. NetFailure (JStr ''down'')"]
  by (simp add: new_client_def new_session_def)

theorem correlation_id_preserved_witness:
  "settled_id (fst (axios_request (\<lambda>_ _. NetResponse 200 (JObj [(''subCode'', JStr ''200'')]))
      (JObj [(''url'', JStr ''/x'')]) (new_client JUndef (new_session (JStr ''id'') (JStr ''secret'') None None))))
    \<in> {None, Some (JStr ''guid-0'')}"
proof -
  let ?tr = "\<lambda>(_::nat) (_::jsval). NetResponse 200 (JObj [(''subCode'', JStr ''200'')])"
  let ?cfg = "JObj [(''url'', JStr ''/x'')]"
  let ?c = "new_client JUndef (new_session (JStr ''id'') (JStr ''secret'') None None)"
  let ?cfg1 = "JObj [(''method'', JStr ''get''), (''timeout'', JNum 30000), (''url'', JStr ''/x''),
      (''networkId'', JStr ''guid-0'')]"
  have run: "sent (snd (axios_request ?tr ?cfg ?c)) = sent ?c @ [?cfg1]"
    by (simp add: client_simps axios_eval js_simps Let_def addNetworkTracking_def getNetworkId_def
        stamp_body_def promisify_eval new_session_def js_get_cons)
  have nt: "never_throws (postHook (state ?c))"
    by (simp add: never_throws_def new_client_def new_session_def)
  have obj: "\<forall>k x st b. ?tr k x = NetResponse st b \<longrightarrow> is_object b" by simp
  have "settled_id (fst (axios_request ?tr ?cfg ?c)) \<in> {None, Some (js_get ?cfg1 [''networkId''])}"
    using correlation_id_preserved [OF prod.collapse [symmetric] run nt _ obj]
    by (simp add: getNetworkId_def new_client_def new_session_def getNetwork_def)
  then show ?thesis by simp
qed

theorem subcode_rejection_witness:
  "fst (axios_request (\<lambda>_ _. NetResponse 200 (JObj [(''subCode'', JStr ''403''), (''message'', JStr ''denied'')]))
      (JObj [(''url'', JStr ''/x'')]) (new_client JUndef (new_session (JStr ''id'') (JStr ''secret'') None None)))
   = Rejected (JObj [(''subCode'', JStr ''403''), (''message'', JStr ''denied''), (''networkId'', JStr ''guid-0'')])"
  using subcode_rejection [of "new_client JUndef (new_session (JStr ''id'') (JStr ''secret'') None None)"
      "JObj [(''url'', JStr ''/x'')]"
      "\<lambda>_ _. NetResponse 200 (JObj [(''subCode'', JStr ''403''), (''message'', JStr ''denied'')])"
      200 "JObj [(''subCode'', JStr ''403''), (''message'', JStr ''denied'')]"]
  by (simp add: new_client_def new_session_def getNetworkId_def sub_code_eval getNetwork_def)

theorem correlation_id_roundtrip_witness:
  "addResponseNetworkTracking id (JObj [(''message'', JStr ''down''), (''config'', axios_wire (fst (addRequestNetworkTracking id (JObj [(''url'', JStr ''/x'')]) 0)))]) 0
     = (js_set (JObj [(''message'', JStr ''down''), (''config'', axios_wire (fst (addRequestNetworkTracking id (JObj [(''url'', JStr ''/x'')]) 0)))])
          [''networkId''] (js_get (fst (addRequestNetworkTracking id (JObj [(''url'', JStr ''/x'')]) 0)) [''networkId'']), 0)
   \<and> js_get (fst (addRequestNetworkTracking id (JObj [(''url'', JStr ''/x'')]) 0)) [''networkId''] =
       (if truthy (js_get (JObj [(''url'', JStr ''/x'')]) [''networkId'']) then js_get (JObj [(''url'', JStr ''/x'')]) [''networkId''] else getNetworkId 0)"
proof -
  have o: "is_object (JObj [(''url'', JStr ''/x'')])" by simp
  have d: "axios_dispatch (\<lambda>_ _. NetFailure (JStr ''down'')) 0 (fst (addRequestNetworkTracking id (JObj [(''url'', JStr ''/x'')]) 0))
      = Fulfilled (JObj [(''message'', JStr ''down''), (''config'', axios_wire (fst (addRequestNetworkTracking id (JObj [(''url'', JStr ''/x'')]) 0)))])
    \<or> axios_dispatch (\<lambda>_ _. NetFailure (JStr ''down'')) 0 (fst (addRequestNetworkTracking id (JObj [(''url'', JStr ''/x'')]) 0))
      = Rejected (JObj [(''message'', JStr ''down''), (''config'', axios_wire (fst (addRequestNetworkTracking id (JObj [(''url'', JStr ''/x'')]) 0)))])"
    by (simp add: axios_dispatch_def Let_def)
  from correlation_id_roundtrip [OF o prod.collapse [symmetric] d] show ?thesis .
qed

end
