(* ===== verification/Client.thy ===== *)
theory Client
  imports Pipeline
begin

text \<open>
  The client's remote operations, \<open>src/lib/index.js\<close>. Every operation is
  \<^verbatim>\<open>network.request(config).then(wrapResponse(callback, handler)).catch(callback)\<close>
  and is modelled by \<open>call_api\<close> over the transport model: the callback's first
  invocation is the operation's visible result (\<open>None\<close> when the request never
  settles), and the handler may also change the client (the two handshake steps
  do). The \<open>then\<close> continuation either calls the callback or throws
  (\<open>then_result\<close>); what it throws reaches the callback through \<open>catch\<close>.
  \<open>call_api_invocations\<close> lists every invocation for a callback that may throw:
  one thrown by the callback inside \<open>then\<close> brings a second.
\<close>

text \<open>\<open>callback(err, value)\<close>; a missing argument is \<open>undefined\<close>.\<close>

datatype callback_call = Callback jsval jsval

text \<open>
  How the \<open>then\<close> continuation ends: it calls the callback (\<open>return callback(...)\<close>),
  or it throws before calling it (the \<open>TypeError\<close> of reading a property of
  \<open>undefined\<close> or \<open>null\<close>).
\<close>

datatype then_result = Called callback_call | Raised jsval

type_synonym handler = "jsval \<Rightarrow> client \<Rightarrow> then_result \<times> client"

text \<open>The callback invocation a \<open>then\<close> result leads to: its own, or \<open>.catch(callback)\<close>'s.\<close>

fun caught :: "then_result \<Rightarrow> callback_call" where
  "caught (Called cb) = cb"
| "caught (Raised v) = Callback v JUndef"

definition wrapResponse :: "handler \<Rightarrow> jsval \<Rightarrow> client \<Rightarrow> then_result \<times> client" where
  "wrapResponse handler response c =
     (let data = js_get response [''data''];
          subCode = js_get data [''subCode'']
      in if \<not> validateSubCode subCode
         then (if nullish subCode then (Raised js_type_error, c) else (Called (Callback data JUndef), c))
         else handler data c)"

definition call_api :: "transport \<Rightarrow> jsval \<Rightarrow> handler \<Rightarrow> client \<Rightarrow> callback_call option \<times> client" where
  "call_api tr cfg handler c =
     (let (p, c1) = axios_request tr cfg c in
      case p of
        Pending \<Rightarrow> (None, c1)
      | Rejected e \<Rightarrow> (Some (Callback e JUndef), c1)
      | Fulfilled r \<Rightarrow> (let (t, c2) = wrapResponse handler r c1 in (Some (caught t), c2)))"

subsection \<open>The handshake steps\<close>

definition authenticate_config :: "session \<Rightarrow> jsval" where
  "authenticate_config st =
     JObj [(''url'', JStr URL_AUTHENTICATE), (''method'', JStr ''post''),
           (''headers'', JObj [(''X-Client-Id'', clientId st), (''X-Client-Secret'', clientSecret st)])]"

definition authenticate_handler :: handler where
  "authenticate_handler data c =
     (let tok = js_get data [''data'', ''token''] in
      if \<not> truthy tok then (Called (Callback (JStr ''No token returned'') JUndef), c)
      else (Called (Callback JUndef JUndef),
            c\<lparr>state := (state c)\<lparr>token := tok\<rparr>,
              authorization := JStr (''Bearer '' @ js_to_string tok)\<rparr>))"

definition authenticate :: "transport \<Rightarrow> client \<Rightarrow> callback_call option \<times> client" where
  "authenticate tr c = call_api tr (authenticate_config (state c)) authenticate_handler c"

definition verifyToken_config :: jsval where
  "verifyToken_config = JObj [(''url'', JStr URL_VERIFY_TOKEN), (''method'', JStr ''post'')]"

definition verifyToken_handler :: handler where
  "verifyToken_handler data c =
     (Called (Callback JUndef JUndef), c\<lparr>state := (state c)\<lparr>tokenVerified := JBool True\<rparr>\<rparr>)"

definition verifyToken :: "transport \<Rightarrow> client \<Rightarrow> callback_call option \<times> client" where
  "verifyToken tr c = call_api tr verifyToken_config verifyToken_handler c"

subsection \<open>The endpoint methods\<close>

text \<open>
  \<open>_.get(data, 'data', {})\<close> falls back to \<open>{}\<close> only for \<open>undefined\<close>: a
  \<open>null\<close> there makes \<open>info.accountExists\<close> throw.
\<close>

definition validateBeneficiary_handler :: handler where
  "validateBeneficiary_handler data c =
     (let info = js_get_default data [''data''] (JObj []) in
      if nullish info then (Raised js_type_error, c)
      else if js_prop info ''accountExists'' \<noteq> JStr ''YES'' then (Called (Callback data JUndef), c)
      else (Called (Callback JNull info), c))"

definition validateBeneficiary :: "transport \<Rightarrow> jsval \<Rightarrow> client \<Rightarrow> callback_call option \<times> client" where
  "validateBeneficiary tr params =
     call_api tr (JObj [(''url'', JStr URL_VERIFY_BENEFICIARY), (''method'', JStr ''get''),
                        (''params'', js_pick params [''bankAccount'', ''ifsc'', ''name'', ''phone''])])
       validateBeneficiary_handler"

definition addBeneficiary_fields :: "string list" where
  "addBeneficiary_fields = [''beneId'', ''name'', ''email'', ''phone'', ''bankAccount'', ''ifsc'',
     ''address1'', ''address2 '', ''city'', ''state'', ''pincode '']"

definition addBeneficiary :: "transport \<Rightarrow> jsval \<Rightarrow> client \<Rightarrow> callback_call option \<times> client" where
  "addBeneficiary tr params =
     call_api tr (JObj [(''url'', JStr URL_ADD_BENEFICIARY), (''method'', JStr ''post''),
                        (''data'', js_pick params addBeneficiary_fields)])
       (\<lambda>data c. (Called (Callback JNull data), c))"

definition getBeneficiary :: "transport \<Rightarrow> jsval \<Rightarrow> client \<Rightarrow> callback_call option \<times> client" where
  "getBeneficiary tr params =
     call_api tr (JObj [(''url'', JStr (URL_GET_BENEFICIARY @ ''/'' @ js_to_string (js_get params [''beneId''])))])
       (\<lambda>data c. (Called (Callback JNull (js_get data [''data''])), c))"

definition getBeneficiaryId :: "transport \<Rightarrow> jsval \<Rightarrow> client \<Rightarrow> callback_call option \<times> client" where
  "getBeneficiaryId tr params =
     call_api tr (JObj [(''url'', JStr URL_GET_BENEFICIARY_ID),
                        (''params'', js_pick params [''bankAccount'', ''ifsc''])])
       (\<lambda>data c. (Called (Callback JNull (js_get data [''data'', ''beneId''])), c))"

definition getBeneficiaries :: "transport \<Rightarrow> jsval \<Rightarrow> client \<Rightarrow> callback_call option \<times> client" where
  "getBeneficiaries tr params =
     call_api tr (JObj [(''url'', JStr URL_GET_BENEFICIARIES),
                        (''params'', js_pick params [''maxReturn'', ''lastReturnId''])])
       (\<lambda>data c. (Called (Callback JNull (js_get_default data [''data'', ''beneficiaries''] (JObj []))), c))"

definition removeBeneficiary :: "transport \<Rightarrow> jsval \<Rightarrow> client \<Rightarrow> callback_call option \<times> client" where
  "removeBeneficiary tr params =
     call_api tr (JObj [(''url'', JStr URL_REMOVE_BENEFICIARIES), (''method'', JStr ''post''),
                        (''data'', js_pick params [''beneId'', ''ifsc''])])
       (\<lambda>data c. (Called (Callback JNull data), c))"

definition requestTransfer_fields :: "string list" where
  "requestTransfer_fields = [''beneId'', ''amount'', ''transferId'', ''transferMode'', ''remarks '']"

definition requestTransfer :: "transport \<Rightarrow> jsval \<Rightarrow> client \<Rightarrow> callback_call option \<times> client" where
  "requestTransfer tr params =
     call_api tr (JObj [(''url'', JStr URL_REQUEST_TRANSFER), (''method'', JStr ''post''),
                        (''data'', js_pick params requestTransfer_fields)])
       (\<lambda>data c. (Called (Callback JNull data), c))"

definition getBalance :: "transport \<Rightarrow> client \<Rightarrow> callback_call option \<times> client" where
  "getBalance tr =
     call_api tr (JObj [(''url'', JStr URL_GET_BALANCE)])
       (\<lambda>data c. (Called (Callback JNull (js_get data [''data''])), c))"

definition listTransfers :: "transport \<Rightarrow> jsval \<Rightarrow> client \<Rightarrow> callback_call option \<times> client" where
  "listTransfers tr params =
     call_api tr (JObj [(''url'', JStr URL_LIST_TRANSFERS),
                        (''data'', js_pick params [''maxReturn'', ''lastReturnId''])])
       (\<lambda>data c. (Called (Callback JNull (js_get_default data [''data'', ''transfers''] (JObj []))), c))"

definition getTransfer :: "transport \<Rightarrow> jsval \<Rightarrow> client \<Rightarrow> callback_call option \<times> client" where
  "getTransfer tr params =
     call_api tr (JObj [(''url'', JStr URL_GET_TRANSFER),
                        (''params'', js_pick params [''referenceId'', ''transferId''])])
       (\<lambda>data c. (Called (Callback JNull (js_get data [''data''])), c))"

subsection \<open>How often the callback runs\<close>

text \<open>
  The caller's callback, by what it does when invoked: it returns (\<open>None\<close>) or
  throws a value.
\<close>

type_synonym callback_behaviour = "callback_call \<Rightarrow> jsval option"

text \<open>
  The invocations of the callback, in order, under
  \<^verbatim>\<open>network.request(config).then(wrapResponse(callback, handler)).catch(callback)\<close>:
  when the \<open>then\<close> continuation calls the callback, a value the callback throws
  there rejects the chain, so \<open>catch\<close> runs it a second time with that value as
  the error. When the continuation throws before calling it (\<open>wrapResponse\<close>'s
  \<open>subCode[0]\<close>, or a handler's own \<open>TypeError\<close>), and when the request is
  rejected, the callback runs once, from \<open>catch\<close>: a throw there only rejects the
  returned promise, which nobody handles.
\<close>

definition call_api_invocations ::
  "transport \<Rightarrow> jsval \<Rightarrow> handler \<Rightarrow> callback_behaviour \<Rightarrow> client \<Rightarrow> callback_call list \<times> client" where
  "call_api_invocations tr cfg handler callback c =
     (let (p, c1) = axios_request tr cfg c in
      case p of
        Pending \<Rightarrow> ([], c1)
      | Rejected e \<Rightarrow> ([Callback e JUndef], c1)
      | Fulfilled r \<Rightarrow>
          (case wrapResponse handler r c1 of
             (Raised v, c2) \<Rightarrow> ([Callback v JUndef], c2)
           | (Called cb, c2) \<Rightarrow>
               (case callback cb of
                  None \<Rightarrow> ([cb], c2)
                | Some v \<Rightarrow> ([cb, Callback v JUndef], c2))))"

text \<open>A handler that always ends by calling the callback, never by throwing.\<close>

definition never_raises :: "handler \<Rightarrow> bool" where
  "never_raises h \<longleftrightarrow> (\<forall>d c. \<exists>cb. fst (h d c) = Called cb)"

lemmas client_defs [client_simps] = wrapResponse_def call_api_def authenticate_config_def
  authenticate_handler_def authenticate_def verifyToken_config_def verifyToken_handler_def
  verifyToken_def

subsection \<open>Operations on a 2xx answer\<close>

lemma axios_request_2xx_valid:
  fixes cfg :: jsval
  assumes "preHook (state c) = None" "postHook (state c) = None"
    and "tr (length (sent c)) = (\<lambda>_. NetResponse st body)" "200 \<le> st" "st < 300"
    and "is_object body" "validateSubCode (js_get body [''subCode''])"
  defines "cfg1 \<equiv> fst (addNetworkTracking (axios_prepare (defaults c) (authorization c) cfg) [''networkId''] (guid_next c))"
  defines "c1 \<equiv> c\<lparr>guid_next := snd (addNetworkTracking (axios_prepare (defaults c) (authorization c) cfg)
      [''networkId''] (guid_next c)), sent := sent c @ [cfg1]\<rparr>"
  shows "\<exists>r. axios_request tr cfg c = (Fulfilled r, c1)
    \<and> wrapResponse h r c1 = h (js_set body [''networkId''] (js_get cfg1 [''networkId''])) c1"
proof -
  let ?i = "js_get cfg1 [''networkId'']"
  let ?d = "js_set (JObj [(''data'', body), (''status'', JNum st), (''config'', axios_wire cfg1)]) [''networkId''] ?i"
  let ?r = "js_set ?d [''data''] (js_set body [''networkId''] ?i)"
  have req: "axios_request tr cfg c = (postHook_i (state c) ?d, c1)"
    unfolding c1_def cfg1_def
    by (rule axios_request_2xx [where c = c and cfg = cfg and tr = tr and st = st and body = body,
          OF assms(1,3-5)])
  have d: "is_object ?d" "js_get ?d [''data''] = body" "js_get ?d [''networkId''] = ?i"
    "js_get ?d [''data'', ''subCode''] = js_get body [''subCode'']"
    by (simp_all add: js_get_cons)
  have post: "postHook_i (state c) ?d = Fulfilled ?r"
    using postHook_i_valid_no_hook [OF assms(2), of ?d] d assms(6,7) by (simp del: js_get_single)
  have sc: "js_get (js_set body [''networkId''] ?i) [''subCode''] = js_get body [''subCode'']"
    using assms(6) by simp
  with assms(6,7) have "wrapResponse h ?r c1 = h (js_set body [''networkId''] ?i) c1"
    by (simp add: wrapResponse_def Let_def)
  then show ?thesis using req post by simp
qed

lemma call_api_2xx_valid:
  fixes cfg :: jsval
  assumes "preHook (state c) = None" "postHook (state c) = None"
    and "tr (length (sent c)) = (\<lambda>_. NetResponse st body)" "200 \<le> st" "st < 300"
    and "is_object body" "validateSubCode (js_get body [''subCode''])"
  defines "cfg1 \<equiv> fst (addNetworkTracking (axios_prepare (defaults c) (authorization c) cfg) [''networkId''] (guid_next c))"
  defines "c1 \<equiv> c\<lparr>guid_next := snd (addNetworkTracking (axios_prepare (defaults c) (authorization c) cfg)
      [''networkId''] (guid_next c)), sent := sent c @ [cfg1]\<rparr>"
  shows "call_api tr cfg h c =
    (Some (caught (fst (h (js_set body [''networkId''] (js_get cfg1 [''networkId''])) c1))),
     snd (h (js_set body [''networkId''] (js_get cfg1 [''networkId''])) c1))"
  using axios_request_2xx_valid [where c = c and cfg = cfg and tr = tr and st = st and body = body
      and h = h, OF assms(1-7)] unfolding c1_def cfg1_def
  by (auto simp: call_api_def split: prod.splits)

lemma authenticate_config_object [simp]:
  "is_object (authenticate_config st)" "js_get (authenticate_config st) [''networkId''] = JUndef"
  by (simp_all add: authenticate_config_def)

lemma js_get_body_stamped:
  "is_object body \<Longrightarrow> js_get (js_set body [''networkId''] i) [''data'', ''token''] = js_get body [''data'', ''token'']"
  by (simp add: js_get_cons)

text \<open>
  C7: when the provider answers the authenticate call with an accepted sub-code and a
  token, the step succeeds (\<open>callback()\<close>), stores the token in the session, sets
  the default \<open>Authorization: Bearer <token>\<close> header, leaves \<open>tokenVerified\<close>
  alone and makes exactly one network call.
\<close>

theorem authenticate_success:
  assumes "preHook (state c) = None" "postHook (state c) = None"
    and "tr (length (sent c)) = (\<lambda>_. NetResponse st body)" "200 \<le> st" "st < 300"
    and "is_object body" "validateSubCode (js_get body [''subCode''])"
    and "truthy (js_get body [''data'', ''token''])"
  shows "fst (authenticate tr c) = Some (Callback JUndef JUndef)
    \<and> token (state (snd (authenticate tr c))) = js_get body [''data'', ''token'']
    \<and> authorization (snd (authenticate tr c)) = JStr (''Bearer '' @ js_to_string (js_get body [''data'', ''token'']))
    \<and> tokenVerified (state (snd (authenticate tr c))) = tokenVerified (state c)
    \<and> length (sent (snd (authenticate tr c))) = Suc (length (sent c))"
  using call_api_2xx_valid [where c = c and cfg = "authenticate_config (state c)" and tr = tr
      and st = st and body = body and h = authenticate_handler,
      OF assms(1,2) assms(3-7)] assms(6,8)
  by (simp add: authenticate_def authenticate_handler_def js_get_body_stamped Let_def del: js_get_single)

text \<open>
  C8: an authenticate answer that is accepted at the transport and provider level but
  carries no token is a failure of the step (\<open>callback('No token returned')\<close>), and
  the session and the default headers are left as they were.
\<close>

theorem authenticate_no_token:
  assumes "preHook (state c) = None" "postHook (state c) = None"
    and "tr (length (sent c)) = (\<lambda>_. NetResponse st body)" "200 \<le> st" "st < 300"
    and "is_object body" "validateSubCode (js_get body [''subCode''])"
    and "\<not> truthy (js_get body [''data'', ''token''])"
  shows "fst (authenticate tr c) = Some (Callback (JStr ''No token returned'') JUndef)
    \<and> state (snd (authenticate tr c)) = state c
    \<and> authorization (snd (authenticate tr c)) = authorization c"
  using call_api_2xx_valid [where c = c and cfg = "authenticate_config (state c)" and tr = tr
      and st = st and body = body and h = authenticate_handler,
      OF assms(1,2) assms(3-7)] assms(6,8)
  by (simp add: authenticate_def authenticate_handler_def js_get_body_stamped Let_def del: js_get_single)

subsection \<open>wrapResponse behind the interceptors\<close>

text \<open>
  C9: behind the interceptors, \<open>wrapResponse\<close> either hands an accepted body to
  the handler or throws the \<open>TypeError\<close> of \<open>subCode[0]\<close>: its branch
  \<open>callback(data)\<close> for a rejected sub-code is dead code, because the response
  interceptor already rejects every body with a present, rejected sub-code, provided
  the post-hook (which runs after that check) does not write into the response.
\<close>

theorem wrapResponse_behind_interceptors:
  assumes "axios_request tr cfg c = (Fulfilled r, c1)" "never_rewrites (postHook (state c))"
  shows "wrapResponse h r c1 =
    (if validateSubCode (js_get r [''data'', ''subCode'']) then h (js_get r [''data'']) c1
     else (Raised js_type_error, c1))"
proof -
  have "validateSubCode (js_get r [''data'', ''subCode'']) \<or> nullish (js_get r [''data'', ''subCode''])"
    by (rule axios_request_fulfilled_subcode [OF assms])
  then show ?thesis by (auto simp: wrapResponse_def Let_def js_get_cons)
qed

lemma postHook_i_falsy_body_no_hook:
  assumes "postHook st = None" "\<not> truthy (js_get d [''data''])"
  shows "postHook_i st d = Fulfilled d"
proof -
  have n: "\<not> is_object (js_get d [''data''])" using assms(2) is_object_truthy by blast
  then have "stamp_body d = (js_get d [''data''], d)"
    by (simp add: stamp_body_def Let_def del: js_get_single)
  moreover have "\<not> validateSubCode (js_get (js_get d [''data'']) [''subCode''])"
    using n by (cases "js_get d [''data'']") auto
  ultimately show ?thesis using assms by (simp add: postHook_i_def promisify_eval del: js_get_single)
qed

text \<open>
  C39: the hypothesis on the post-hook in C9 is needed. The post-hook runs after the
  response interceptor has checked the sub-code, and what it writes to the response
  object is what the caller's promise resolves with: on any 2xx answer with an
  accepted sub-code, a post-hook that calls back without error after setting
  \<open>data\<close> to a body with a present, rejected sub-code makes every operation take
  the \<open>callback(data)\<close> branch of \<open>wrapResponse\<close> that C9 shows dead otherwise:
  the callback receives that body as its error, and the handler never runs.
\<close>

theorem rewriting_posthook_reaches_subcode_branch:
  assumes "preHook (state c) = None" "postHook (state c) = Some hk"
    and "tr (length (sent c)) = (\<lambda>_. NetResponse st body)" "200 \<le> st" "st < 300"
    and "is_object body" "validateSubCode (js_get body [''subCode''])"
    and "\<And>x. hk x = Rewrites d err" "\<not> truthy err" "is_object d"
    and "\<not> validateSubCode (js_get d [''data'', ''subCode''])" "\<not> nullish (js_get d [''data'', ''subCode''])"
  shows "fst (call_api tr cfg h c) = Some (Callback (js_get d [''data'']) JUndef)"
proof -
  let ?cfg1 = "fst (addNetworkTracking (axios_prepare (defaults c) (authorization c) cfg) [''networkId''] (guid_next c))"
  let ?i = "js_get ?cfg1 [''networkId'']"
  let ?d = "js_set (JObj [(''data'', body), (''status'', JNum st), (''config'', axios_wire ?cfg1)]) [''networkId''] ?i"
  obtain c1 where req: "axios_request tr cfg c = (postHook_i (state c) ?d, c1)"
    using axios_request_2xx [where c = c and cfg = cfg and tr = tr and st = st and body = body,
        OF assms(1,3-5)] by simp
  have d: "is_object ?d" "is_object (js_get ?d [''data''])"
    "validateSubCode (js_get ?d [''data'', ''subCode''])"
    using assms(6,7) by (simp_all add: js_get_cons)
  have "postHook_i (state c) ?d = Fulfilled d"
    by (rule postHook_i_valid_rewrite [OF assms(2,8,9,10) d])
  with req have r: "axios_request tr cfg c = (Fulfilled d, c1)" by simp
  from r assms(10-12) show ?thesis
    by (simp add: call_api_def wrapResponse_def Let_def js_get_cons)
qed

text \<open>
  C10: a 2xx answer with an empty (falsy) body is let through by the response
  interceptor (its error value is the falsy body itself), and the operation's callback
  then receives the \<open>TypeError\<close> thrown by \<open>subCode[0]\<close>, not a provider error.
\<close>

theorem empty_body_type_error:
  assumes "preHook (state c) = None" "postHook (state c) = None"
    and "tr (length (sent c)) = (\<lambda>_. NetResponse st body)" "200 \<le> st" "st < 300"
    and "\<not> truthy body"
  shows "fst (call_api tr cfg h c) = Some (Callback js_type_error JUndef)"
proof -
  let ?cfg1 = "fst (addNetworkTracking (axios_prepare (defaults c) (authorization c) cfg) [''networkId''] (guid_next c))"
  let ?d = "js_set (JObj [(''data'', body), (''status'', JNum st), (''config'', axios_wire ?cfg1)])
      [''networkId''] (js_get ?cfg1 [''networkId''])"
  have req: "fst (axios_request tr cfg c) = postHook_i (state c) ?d"
    using axios_request_2xx [where c = c and cfg = cfg and tr = tr and st = st and body = body,
        OF assms(1,3-5)] by simp
  have "js_get ?d [''data''] = body" by (simp add: js_get_cons)
  then have "postHook_i (state c) ?d = Fulfilled ?d"
    using postHook_i_falsy_body_no_hook [OF assms(2), of ?d] assms(6) by simp
  moreover have "js_get body [''subCode''] = JUndef" using assms(6) by (cases body) auto
  ultimately show ?thesis using req
    by (auto simp: call_api_def wrapResponse_def Let_def js_get_cons split: prod.splits)
qed

subsection \<open>Callback invocations\<close>

text \<open>
  \<open>call_api\<close> is the first invocation of the callback, and the client state does
  not depend on the callback.
\<close>

lemma call_api_first_invocation:
  "fst (call_api tr cfg h c) = (case fst (call_api_invocations tr cfg h cb c) of [] \<Rightarrow> None | x # _ \<Rightarrow> Some x)
   \<and> snd (call_api_invocations tr cfg h cb c) = snd (call_api tr cfg h c)"
  by (auto simp: call_api_def call_api_invocations_def
      split: prod.splits js_promise.splits option.splits then_result.splits)

text \<open>
  C40: a method's callback is called twice when it throws on success. On every 2xx
  answer with an accepted sub-code (no hooks), a handler that ends by calling the
  callback (every method's but \<open>validateBeneficiary\<close>'s, which can throw first)
  runs it inside \<open>then\<close>; if the callback throws \<open>v\<close> there,
  \<open>.catch(callback)\<close> calls it again with \<open>v\<close> as the error, so a node-style
  caller sees both the result and its own exception.
\<close>

theorem throwing_callback_called_twice:
  assumes "preHook (state c) = None" "postHook (state c) = None"
    and "tr (length (sent c)) = (\<lambda>_. NetResponse st body)" "200 \<le> st" "st < 300"
    and "is_object body" "validateSubCode (js_get body [''subCode''])"
    and "never_raises h" "fst (call_api tr cfg h c) = Some x" "cb x = Some v"
  shows "fst (call_api_invocations tr cfg h cb c) = [x, Callback v JUndef]"
proof -
  let ?t = "addNetworkTracking (axios_prepare (defaults c) (authorization c) cfg) [''networkId''] (guid_next c)"
  let ?d = "js_set body [''networkId''] (js_get (fst ?t) [''networkId''])"
  let ?c1 = "c\<lparr>guid_next := snd ?t, sent := sent c @ [fst ?t]\<rparr>"
  obtain r where req: "axios_request tr cfg c = (Fulfilled r, ?c1)"
    and w: "wrapResponse h r ?c1 = h ?d ?c1"
    using axios_request_2xx_valid [where c = c and cfg = cfg and tr = tr and st = st and body = body
      and h = h, OF assms(1-7)] by blast
  obtain y where y: "fst (h ?d ?c1) = Called y"
    using assms(8) by (auto simp: never_raises_def)
  have "x = y"
    using call_api_2xx_valid [where c = c and cfg = cfg and tr = tr and st = st and body = body
      and h = h, OF assms(1-7)] assms(9) y by simp
  with req w y assms(10) show ?thesis
    by (simp add: call_api_invocations_def case_prod_beta)
qed

text \<open>
  C18: \<open>validateBeneficiary\<close> loses a provider answer whose \<open>data\<close> is
  \<open>null\<close>: on a 2xx answer with an accepted sub-code and \<open>data: null\<close> (no hooks),
  \<open>_.get(data, 'data', {})\<close> is \<open>null\<close> and \<open>info.accountExists\<close> throws, so
  the callback is called once, by \<open>.catch(callback)\<close>, with the \<open>TypeError\<close>, and
  never a second time, whatever the callback does.
\<close>

theorem validateBeneficiary_null_data_type_error:
  assumes "preHook (state c) = None" "postHook (state c) = None"
    and "tr (length (sent c)) = (\<lambda>_. NetResponse st body)" "200 \<le> st" "st < 300"
    and "is_object body" "validateSubCode (js_get body [''subCode''])" "js_get body [''data''] = JNull"
  shows "fst (call_api_invocations tr cfg validateBeneficiary_handler cb c) = [Callback js_type_error JUndef]
    \<and> fst (call_api tr cfg validateBeneficiary_handler c) = Some (Callback js_type_error JUndef)"
proof -
  let ?t = "addNetworkTracking (axios_prepare (defaults c) (authorization c) cfg) [''networkId''] (guid_next c)"
  let ?d = "js_set body [''networkId''] (js_get (fst ?t) [''networkId''])"
  let ?c1 = "c\<lparr>guid_next := snd ?t, sent := sent c @ [fst ?t]\<rparr>"
  have hd: "validateBeneficiary_handler ?d ?c1 = (Raised js_type_error, ?c1)"
    using assms(6,8) by (simp add: validateBeneficiary_handler_def js_get_default_def)
  obtain r where req: "axios_request tr cfg c = (Fulfilled r, ?c1)"
    and w: "wrapResponse validateBeneficiary_handler r ?c1 = validateBeneficiary_handler ?d ?c1"
    using axios_request_2xx_valid [where c = c and cfg = cfg and tr = tr and st = st and body = body
      and h = validateBeneficiary_handler, OF assms(1-7)] by blast
  from req w hd show ?thesis
    by (simp add: call_api_invocations_def call_api_def)
qed

subsection \<open>Witnesses\<close>

theorem authenticate_success_witness:
  "fst (authenticate (\<lambda>_ _. NetResponse 200 (JObj [(''subCode'', JStr ''200''), (''data'', JObj [(''token'', JStr ''tok'')])]))
      (new_client JUndef (new_session (JStr ''id'') (JStr ''secret'') None None))) = Some (Callback JUndef JUndef)
   \<and> token (state (snd (authenticate (\<lambda>_ _. NetResponse 200 (JObj [(''subCode'', JStr ''200''), (''data'', JObj [(''token'', JStr ''tok'')])]))
      (new_client JUndef (new_session (JStr ''id'') (JStr ''secret'') None None))))) = JStr ''tok''
   \<and> authorization (snd (authenticate (\<lambda>_ _. NetResponse 200 (JObj [(''subCode'', JStr ''200''), (''data'', JObj [(''token'', JStr ''tok'')])]))
      (new_client JUndef (new_session (JStr ''id'') (JStr ''secret'') None None)))) = JStr ''Bearer tok''"
  using authenticate_success [of "new_client JUndef (new_session (JStr ''id'') (JStr ''secret'') None None)"
      "\<lambda>_ _. NetResponse 200 (JObj [(''subCode'', JStr ''200''), (''data'', JObj [(''token'', JStr ''tok'')])])"
      200 "JObj [(''subCode'', JStr ''200''), (''data'', JObj [(''token'', JStr ''tok'')])]"]
  by (simp add: new_client_def new_session_def sub_code_eval js_get_cons)

theorem authenticate_no_token_witness:
  "fst (authenticate (\<lambda>_ _. NetResponse 200 (JObj [(''subCode'', JStr ''200''), (''data'', JObj [])]))
      (new_client JUndef (new_session (JStr ''id'') (JStr ''secret'') None None)))
     = Some (Callback (JStr ''No token returned'') JUndef)
   \<and> state (snd (authenticate (\<lambda>_ _. NetResponse 200 (JObj [(''subCode'', JStr ''200''), (''data'', JObj [])]))
      (new_client JUndef (new_session (JStr ''id'') (JStr ''secret'') None None))))
     = new_session (JStr ''id'') (JStr ''secret'') None None"
  using authenticate_no_token [of "new_client JUndef (new_session (JStr ''id'') (JStr ''secret'') None None)"
      "\<lambda>_ _. NetResponse 200 (JObj [(''subCode'', JStr ''200''), (''data'', JObj [])])"
      200 "JObj [(''subCode'', JStr ''200''), (''data'', JObj [])]"]
  by (simp add: new_client_def new_session_def sub_code_eval js_get_cons)

theorem empty_body_type_error_witness:
  "fst (getBalance (\<lambda>_ _. NetResponse 200 JUndef)
      (new_client JUndef (new_session (JStr ''id'') (JStr ''secret'') None None)))
     = Some (Callback js_type_error JUndef)"
  unfolding getBalance_def
  using empty_body_type_error [where c = "new_client JUndef (new_session (JStr ''id'') (JStr ''secret'') None None)"
      and cfg = "JObj [(''url'', JStr URL_GET_BALANCE)]" and tr = "\<lambda>_ _. NetResponse 200 JUndef" and st = 200
      and body = JUndef]
  by (simp add: new_client_def new_session_def)

theorem wrapResponse_behind_interceptors_witness:
  "wrapResponse (\<lambda>d c. (Called (Callback JNull d), c))
     (JObj [(''data'', JObj [(''subCode'', JStr ''200''), (''networkId'', JStr ''guid-0'')]),
            (''status'', JNum 200),
            (''config'', JObj [(''method'', JStr ''get''), (''timeout'', JNum 30000),
               (''url'', JStr ''/x''), (''networkId'', JStr ''guid-0''), (''headers'', JObj [])]),
            (''networkId'', JStr ''guid-0'')])
     ((new_client JUndef (new_session (JStr ''id'') (JStr ''secret'') None None))\<lparr>guid_next := 1,
        sent := [JObj [(''method'', JStr ''get''), (''timeout'', JNum 30000),
          (''url'', JStr ''/x''), (''networkId'', JStr ''guid-0'')]]\<rparr>)
   = (Called (Callback JNull (JObj [(''subCode'', JStr ''200''), (''networkId'', JStr ''guid-0'')])),
      (new_client JUndef (new_session (JStr ''id'') (JStr ''secret'') None None))\<lparr>guid_next := 1,
        sent := [JObj [(''method'', JStr ''get''), (''timeout'', JNum 30000),
          (''url'', JStr ''/x''), (''networkId'', JStr ''guid-0'')]]\<rparr>)"
proof -
  have run: "axios_request (\<lambda>_ _. NetResponse 200 (JObj [(''subCode'', JStr ''200'')])) (JObj [(''url'', JStr ''/x'')])
      (new_client JUndef (new_session (JStr ''id'') (JStr ''secret'') None None)) =
    (Fulfilled
     (JObj [(''data'', JObj [(''subCode'', JStr ''200''), (''networkId'', JStr ''guid-0'')]),
            (''status'', JNum 200),
            (''config'', JObj [(''method'', JStr ''get''), (''timeout'', JNum 30000),
               (''url'', JStr ''/x''), (''networkId'', JStr ''guid-0''), (''headers'', JObj [])]),
            (''networkId'', JStr ''guid-0'')]),
     (new_client JUndef (new_session (JStr ''id'') (JStr ''secret'') None None))\<lparr>guid_next := 1,
        sent := [JObj [(''method'', JStr ''get''), (''timeout'', JNum 30000),
          (''url'', JStr ''/x''), (''networkId'', JStr ''guid-0'')]]\<rparr>)"
    by (simp add: transport_defs axios_eval interceptor_defs js_simps Let_def addNetworkTracking_def
        getNetworkId_def stamp_body_def promisify_eval new_session_def js_get_cons urls sub_code_eval)
  show ?thesis
    using wrapResponse_behind_interceptors [OF run, of "\<lambda>d c. (Called (Callback JNull d), c)"]
    by (simp add: sub_code_eval js_get_cons new_client_def new_session_def)
qed

theorem throwing_callback_called_twice_witness:
  "fst (call_api_invocations (\<lambda>_ _. NetResponse 200 (JObj [(''subCode'', JStr ''200''), (''data'', JNum 5)]))
      (JObj [(''url'', JStr URL_GET_BALANCE)]) (\<lambda>data c. (Called (Callback JNull (js_get data [''data''])), c))
      (\<lambda>_. Some (JStr ''boom'')) (new_client JUndef (new_session (JStr ''id'') (JStr ''secret'') None None)))
   = [Callback JNull (JNum 5), Callback (JStr ''boom'') JUndef]"
  using throwing_callback_called_twice [where c = "new_client JUndef (new_session (JStr ''id'') (JStr ''secret'') None None)"
      and cfg = "JObj [(''url'', JStr URL_GET_BALANCE)]"
      and tr = "\<lambda>_ _. NetResponse 200 (JObj [(''subCode'', JStr ''200''), (''data'', JNum 5)])"
      and st = 200 and body = "JObj [(''subCode'', JStr ''200''), (''data'', JNum 5)]"
      and h = "\<lambda>data c. (Called (Callback JNull (js_get data [''data''])), c)"
      and x = "Callback JNull (JNum 5)" and cb = "\<lambda>_. Some (JStr ''boom'')" and v = "JStr ''boom''"]
  by (simp add: transport_defs axios_eval interceptor_defs client_defs js_simps Let_def addNetworkTracking_def
      getNetworkId_def stamp_body_def promisify_eval new_session_def js_get_cons urls sub_code_eval
      never_raises_def)

theorem rewriting_posthook_reaches_subcode_branch_witness:
  "fst (getBalance (\<lambda>_ _. NetResponse 200 (JObj [(''subCode'', JStr ''200'')]))
     (new_client JUndef (new_session (JStr ''id'') (JStr ''secret'') None
        (Some (\<lambda>_. Rewrites (JObj [(''data'', JObj [(''subCode'', JStr ''403'')])]) JUndef)))))
   = Some (Callback (JObj [(''subCode'', JStr ''403'')]) JUndef)"
  unfolding getBalance_def
  using rewriting_posthook_reaches_subcode_branch [where
      c = "new_client JUndef (new_session (JStr ''id'') (JStr ''secret'') None
        (Some (\<lambda>_. Rewrites (JObj [(''data'', JObj [(''subCode'', JStr ''403'')])]) JUndef)))"
      and hk = "\<lambda>_. Rewrites (JObj [(''data'', JObj [(''subCode'', JStr ''403'')])]) JUndef"
      and tr = "\<lambda>_ _. NetResponse 200 (JObj [(''subCode'', JStr ''200'')])" and st = 200
      and body = "JObj [(''subCode'', JStr ''200'')]"
      and d = "JObj [(''data'', JObj [(''subCode'', JStr ''403'')])]" and err = JUndef
      and cfg = "JObj [(''url'', JStr URL_GET_BALANCE)]"
      and h = "\<lambda>data c. (Called (Callback JNull (js_get data [''data''])), c)"]
  by (simp add: new_client_def new_session_def sub_code_eval js_get_cons)

theorem validateBeneficiary_null_data_type_error_witness:
  "fst (call_api_invocations (\<lambda>_ _. NetResponse 200 (JObj [(''subCode'', JStr ''200''), (''data'', JNull)]))
      (JObj [(''url'', JStr URL_VERIFY_BENEFICIARY), (''method'', JStr ''get'')]) validateBeneficiary_handler
      (\<lambda>_. Some (JStr ''boom'')) (new_client JUndef (new_session (JStr ''id'') (JStr ''secret'') None None)))
     = [Callback js_type_error JUndef]
   \<and> fst (validateBeneficiary (\<lambda>_ _. NetResponse 200 (JObj [(''subCode'', JStr ''200''), (''data'', JNull)]))
      (JObj [(''bankAccount'', JStr ''1'')]) (new_client JUndef (new_session (JStr ''id'') (JStr ''secret'') None None)))
     = Some (Callback js_type_error JUndef)"
proof -
  have a: "fst (call_api_invocations (\<lambda>_ _. NetResponse 200 (JObj [(''subCode'', JStr ''200''), (''data'', JNull)]))
      (JObj [(''url'', JStr URL_VERIFY_BENEFICIARY), (''method'', JStr ''get'')]) validateBeneficiary_handler
      (\<lambda>_. Some (JStr ''boom'')) (new_client JUndef (new_session (JStr ''id'') (JStr ''secret'') None None)))
     = [Callback js_type_error JUndef]"
    using validateBeneficiary_null_data_type_error [where c = "new_client JUndef (new_session (JStr ''id'') (JStr ''secret'') None None)"
      and tr = "\<lambda>_ _. NetResponse 200 (JObj [(''subCode'', JStr ''200''), (''data'', JNull)])" and st = 200
      and body = "JObj [(''subCode'', JStr ''200''), (''data'', JNull)]"
      and cfg = "JObj [(''url'', JStr URL_VERIFY_BENEFICIARY), (''method'', JStr ''get'')]"
      and cb = "\<lambda>_. Some (JStr ''boom'')"]
    by (simp add: new_client_def new_session_def sub_code_eval)
  have b: "fst (validateBeneficiary (\<lambda>_ _. NetResponse 200 (JObj [(''subCode'', JStr ''200''), (''data'', JNull)]))
      (JObj [(''bankAccount'', JStr ''1'')]) (new_client JUndef (new_session (JStr ''id'') (JStr ''secret'') None None)))
     = Some (Callback js_type_error JUndef)"
    unfolding validateBeneficiary_def
    using validateBeneficiary_null_data_type_error [where c = "new_client JUndef (new_session (JStr ''id'') (JStr ''secret'') None None)"
      and tr = "\<lambda>_ _. NetResponse 200 (JObj [(''subCode'', JStr ''200''), (''data'', JNull)])" and st = 200
      and body = "JObj [(''subCode'', JStr ''200''), (''data'', JNull)]"
      and cfg = "JObj [(''url'', JStr URL_VERIFY_BENEFICIARY), (''method'', JStr ''get''),
                       (''params'', js_pick (JObj [(''bankAccount'', JStr ''1'')]) [''bankAccount'', ''ifsc'', ''name'', ''phone''])]"
      and cb = "\<lambda>_. None"]
    by (simp add: new_client_def new_session_def sub_code_eval)
  from a b show ?thesis ..
qed

end
