(* ===== verification/AuthSession.thy ===== *)
theory AuthSession
  imports Client Validate
begin

text \<open>
  The login handshake of the constructor, \<open>src/lib/index.js\<close> lines 147-159:
  \<^verbatim>\<open>resolution(counter) = async.series([authenticate, verifyToken], err => ...)\<close>
  retried after \<open>parseInt(Math.pow(2, timeout) * 500)\<close> milliseconds on failure,
  with \<open>timeout = counter || 1\<close> and the next call given \<open>timeout + 1\<close>.
  \<open>async.series\<close> runs the second step only when the first one called back with a
  falsy error, and reports the first truthy error. The retry loop has no bound, so it
  is given fuel: one unit per handshake cycle, \<open>Retrying\<close> when the fuel runs out;
  \<open>Stalled\<close> is a cycle that never completes (a hook that never calls back).
  The delay is what the runtime really waits: the number \<open>2^t * 500\<close> is exact as a
  double up to \<open>t = 1015\<close> and \<open>Infinity\<close> beyond; \<open>parseInt\<close> reads its decimal
  string, which is plain digits below \<open>10^21\<close> and exponent notation (whose
  leading digit \<open>parseInt\<close> keeps) from there on, and \<open>NaN\<close> for
  \<open>Infinity\<close>; Node's \<open>setTimeout\<close> replaces a delay that is not a number in
  \<open>[1, 2^31 - 1]\<close> by 1 ms.
\<close>

datatype series_result = SeriesOk | SeriesErr jsval

definition auth_series :: "transport \<Rightarrow> client \<Rightarrow> series_result option \<times> client" where
  "auth_series tr c =
     (case authenticate tr c of
        (None, c1) \<Rightarrow> (None, c1)
      | (Some (Callback e _), c1) \<Rightarrow>
          if truthy e then (Some (SeriesErr e), c1)
          else (case verifyToken tr c1 of
                  (None, c2) \<Rightarrow> (None, c2)
                | (Some (Callback e2 _), c2) \<Rightarrow>
                    if truthy e2 then (Some (SeriesErr e2), c2) else (Some SeriesOk, c2)))"

subsection \<open>The retry delay\<close>

definition backoff_delay :: "nat \<Rightarrow> nat option" where
  "backoff_delay t =
     (if 1015 < t then None
      else (let x = 2 ^ t * 500 in if x < 10 ^ 21 then Some x else Some (leading_digit x)))"

definition TIMEOUT_MAX :: nat where "TIMEOUT_MAX = 2147483647"

definition node_timer_delay :: "nat option \<Rightarrow> nat" where
  "node_timer_delay d =
     (case d of None \<Rightarrow> 1 | Some x \<Rightarrow> if 1 \<le> x \<and> x \<le> TIMEOUT_MAX then x else 1)"

definition retry_delay :: "nat \<Rightarrow> nat" where
  "retry_delay t = node_timer_delay (backoff_delay t)"

subsection \<open>The retry loop\<close>

datatype auth_outcome = Ready | Stalled | Retrying

text \<open>
  \<open>resolution fuel tr counter c\<close>: the outcome, the delays scheduled (in order), and
  the client at the end. \<open>counter = 0\<close> is the first call \<open>resolution()\<close>.
\<close>

fun resolution :: "nat \<Rightarrow> transport \<Rightarrow> nat \<Rightarrow> client \<Rightarrow> auth_outcome \<times> nat list \<times> client" where
  "resolution 0 tr counter c = (Retrying, [], c)"
| "resolution (Suc fuel) tr counter c =
     (let timeout = (if counter = 0 then 1 else counter) in
      case auth_series tr c of
        (None, c1) \<Rightarrow> (Stalled, [], c1)
      | (Some SeriesOk, c1) \<Rightarrow> (Ready, [], c1)
      | (Some (SeriesErr e), c1) \<Rightarrow>
          (let (outcome, delays, c2) = resolution fuel tr (timeout + 1) c1
           in (outcome, retry_delay timeout # delays, c2)))"

definition session_config :: "session \<Rightarrow> jsval \<times> jsval \<times> hook option \<times> hook option" where
  "session_config st = (clientId st, clientSecret st, preHook st, postHook st)"

text \<open>
  A provider that, from its \<open>k\<close>-th request on, answers every request with a 2xx
  JSON object carrying an accepted sub-code and a token.
\<close>

definition provider_good_from :: "nat \<Rightarrow> transport \<Rightarrow> bool" where
  "provider_good_from k tr \<longleftrightarrow>
     (\<forall>i. k \<le> i \<longrightarrow> (\<exists>st body. tr i = (\<lambda>_. NetResponse st body) \<and> 200 \<le> st \<and> st < 300 \<and>
        is_object body \<and> validateSubCode (js_get body [''subCode'']) \<and>
        truthy (js_get body [''data'', ''token''])))"

text \<open>
  The invariant of the handshake: a verified token is present, and a present token is
  the one the \<open>Authorization\<close> default header carries.
\<close>

definition auth_inv :: "client \<Rightarrow> bool" where
  "auth_inv c \<longleftrightarrow>
     (truthy (tokenVerified (state c)) \<longrightarrow> truthy (token (state c))) \<and>
     (truthy (token (state c)) \<longrightarrow> authorization c = JStr (''Bearer '' @ js_to_string (token (state c))))"

subsection \<open>Delay lemmas\<close>

lemma pow_500_small: "t \<le> 60 \<Longrightarrow> (2::nat) ^ t * 500 < 10 ^ 21"
proof -
  assume "t \<le> 60"
  then have "(2::nat) ^ t \<le> 2 ^ 60" by (rule power_increasing) simp
  then show ?thesis by simp
qed

lemma pow_500_mono: "t \<le> 22 \<Longrightarrow> (2::nat) ^ t * 500 \<le> 2 ^ 22 * 500"
  using power_increasing [of t 22 "2::nat"] by simp

lemma pow_500_large: "23 \<le> t \<Longrightarrow> TIMEOUT_MAX < (2::nat) ^ t * 500"
proof -
  assume "23 \<le> t"
  then have "(2::nat) ^ 23 \<le> 2 ^ t" by (rule power_increasing) simp
  then show ?thesis by (simp add: TIMEOUT_MAX_def)
qed

lemma backoff_delay_exact: "t \<le> 60 \<Longrightarrow> backoff_delay t = Some (2 ^ t * 500)"
  using pow_500_small [of t] by (simp add: backoff_delay_def Let_def)

text \<open>
  C11: up to the 22nd failed cycle the delay the runtime waits is exactly
  \<open>2^t * 500\<close> ms: 1000 ms after the first failure, doubling each time, up to
  2^22 * 500 ms (about 24 days).
\<close>

theorem retry_delay_doubles:
  assumes "t \<le> 22"
  shows "retry_delay t = 2 ^ t * 500"
proof -
  have "(2::nat) ^ t * 500 \<le> TIMEOUT_MAX" "1 \<le> (2::nat) ^ t * 500"
    using pow_500_mono [OF assms] by (simp_all add: TIMEOUT_MAX_def)
  with assms show ?thesis
    by (simp add: retry_delay_def node_timer_delay_def backoff_delay_exact)
qed

text \<open>
  C12: from the 23rd failed cycle on, the computed delay exceeds \<open>2^31 - 1\<close> ms (or
  becomes a single digit through exponent notation, or \<open>NaN\<close>), and the delay the
  runtime really waits collapses to between 1 and 9 ms: the backoff turns into a
  tight retry loop instead of growing without bound.
\<close>

theorem retry_delay_collapses:
  assumes "23 \<le> t"
  shows "1 \<le> retry_delay t \<and> retry_delay t \<le> 9"
proof (cases "1015 < t")
  case True
  then show ?thesis by (simp add: retry_delay_def backoff_delay_def node_timer_delay_def)
next
  case False
  let ?x = "(2::nat) ^ t * 500"
  have big: "TIMEOUT_MAX < ?x" by (rule pow_500_large [OF assms])
  show ?thesis
  proof (cases "?x < 10 ^ 21")
    case True
    with False big show ?thesis
      by (simp add: retry_delay_def backoff_delay_def node_timer_delay_def Let_def)
  next
    case small: False
    have "0 < ?x" by simp
    then have "1 \<le> leading_digit ?x \<and> leading_digit ?x \<le> 9" by (rule leading_digit_bounds)
    with False small show ?thesis
      by (simp add: retry_delay_def backoff_delay_def node_timer_delay_def Let_def TIMEOUT_MAX_def)
  qed
qed

lemma resolution_delays:
  "resolution fuel tr counter c = (outcome, delays, c') \<Longrightarrow>
     delays = map retry_delay [(if counter = 0 then 1 else counter) ..< (if counter = 0 then 1 else counter) + length delays]"
proof (induction fuel arbitrary: counter c outcome delays c')
  case 0
  then show ?case by simp
next
  case (Suc fuel)
  let ?t = "if counter = 0 then 1 else counter"
  show ?case
  proof (cases "auth_series tr c")
    case (Pair r c1)
    show ?thesis
    proof (cases r)
      case None
      with Suc.prems Pair show ?thesis by (simp add: Let_def)
    next
      case (Some sr)
      show ?thesis
      proof (cases sr)
        case SeriesOk
        with Suc.prems Pair Some show ?thesis by (simp add: Let_def)
      next
        case (SeriesErr e)
        obtain o' ds c2 where rec: "resolution fuel tr (?t + 1) c1 = (o', ds, c2)"
          by (metis prod_cases3)
        with Suc.prems Pair Some SeriesErr have delays: "delays = retry_delay ?t # ds"
          by (simp add: Let_def)
        from Suc.IH [OF rec] have "ds = map retry_delay [?t + 1 ..< ?t + 1 + length ds]" by simp
        with delays show ?thesis by (simp add: upt_conv_Cons del: upt_Suc)
      qed
    qed
  qed
qed

subsection \<open>Effects of the two handshake steps\<close>

lemma promisify_rejected_truthy:
  "never_throws hk \<Longrightarrow> promisify hk error d ps = Rejected e \<Longrightarrow> truthy e"
  by (auto simp: promisify_eval never_throws_def Let_def split: option.splits hook_result.splits if_splits)

lemma response_stage_rejected_truthy:
  assumes "never_throws (postHook st)" "fst (response_stage st p n) = Rejected e"
  shows "truthy e"
proof (cases p)
  case (Fulfilled r)
  obtain d n' where "addNetworkTracking r [''config'', ''networkId''] n = (d, n')" by force
  with assms Fulfilled obtain er dd ps where "promisify (postHook st) er dd ps = Rejected e"
    by (auto simp: response_stage_def response_fulfilled_def addResponseNetworkTracking_def
        postHook_i_def Let_def split: prod.splits)
  with assms(1) show ?thesis by (rule promisify_rejected_truthy)
next
  case (Rejected e0)
  obtain d n' where "addNetworkTracking e0 [''config'', ''networkId''] n = (d, n')" by force
  with assms Rejected have "promisify (postHook st) d JUndef JUndef = Rejected e"
    by (simp add: response_stage_def response_rejected_def addResponseNetworkTracking_def
        postErrorHook_i_def)
  with assms(1) show ?thesis by (rule promisify_rejected_truthy)
qed (use assms in \<open>simp add: response_stage_def\<close>)

lemma axios_request_rejected_truthy:
  assumes "never_throws (postHook (state c))" "axios_request tr cfg c = (Rejected e, c')"
  shows "truthy e"
proof -
  from assms(2) obtain p n n' where "response_stage (state c) p n = (Rejected e, n')"
    by (auto simp: axios_request_def split: prod.splits js_promise.splits)
  then show ?thesis using response_stage_rejected_truthy [OF assms(1), of p n e] by simp
qed

lemma wrapResponse_cases:
  "wrapResponse h r c = (t, c') \<Longrightarrow>
     (t, c') = h (js_get r [''data'']) c \<or> (c' = c \<and> (\<exists>e. caught t = Callback e JUndef \<and> truthy e))"
  by (cases "js_get r [''data'']")
     (auto simp: wrapResponse_def Let_def js_type_error_def split: if_splits)

text \<open>
  Every operation either runs its handler on a client whose session and headers are
  those it started from, or leaves session and headers alone and, when it calls back,
  calls back with a truthy error.
\<close>

lemma call_api_cases:
  assumes "never_throws (postHook (state c))" "call_api tr cfg h c = (r, c')"
  shows "(\<exists>c1 data t. state c1 = state c \<and> authorization c1 = authorization c \<and>
            h data c1 = (t, c') \<and> r = Some (caught t))
       \<or> (state c' = state c \<and> authorization c' = authorization c \<and>
            (\<forall>e v. r = Some (Callback e v) \<longrightarrow> truthy e))"
proof -
  obtain p c1 where req: "axios_request tr cfg c = (p, c1)" by force
  have fr: "state c1 = state c" "authorization c1 = authorization c"
    using axios_request_frame [OF req] by simp_all
  show ?thesis
  proof (cases p)
    case Pending
    with assms(2) req fr show ?thesis by (simp add: call_api_def)
  next
    case (Rejected e)
    with assms req have "truthy e" by (blast intro: axios_request_rejected_truthy)
    with Rejected assms(2) req fr show ?thesis by (auto simp: call_api_def)
  next
    case (Fulfilled x)
    obtain t c2 where w: "wrapResponse h x c1 = (t, c2)" by force
    with Fulfilled assms(2) req have r: "r = Some (caught t)" "c' = c2" by (simp_all add: call_api_def)
    from wrapResponse_cases [OF w] show ?thesis
    proof
      assume "(t, c2) = h (js_get x [''data'']) c1"
      with fr r show ?thesis by (metis (no_types))
    next
      assume "c2 = c1 \<and> (\<exists>e. caught t = Callback e JUndef \<and> truthy e)"
      with fr r show ?thesis by auto
    qed
  qed
qed

lemma authenticate_step:
  assumes "never_throws (postHook (state c))" "authenticate tr c = (r, c')"
  shows "(state c' = state c \<and> authorization c' = authorization c \<and>
          (\<forall>e v. r = Some (Callback e v) \<longrightarrow> truthy e))
       \<or> (\<exists>tok. truthy tok \<and> r = Some (Callback JUndef JUndef) \<and>
          state c' = (state c)\<lparr>token := tok\<rparr> \<and>
          authorization c' = JStr (''Bearer '' @ js_to_string tok))"
  using call_api_cases [OF assms(1) assms(2) [unfolded authenticate_def]]
  by (auto simp: authenticate_handler_def Let_def split: if_splits)

lemma verifyToken_step:
  assumes "never_throws (postHook (state c))" "verifyToken tr c = (r, c')"
  shows "(state c' = state c \<and> authorization c' = authorization c \<and>
          (\<forall>e v. r = Some (Callback e v) \<longrightarrow> truthy e))
       \<or> (r = Some (Callback JUndef JUndef) \<and>
          state c' = (state c)\<lparr>tokenVerified := JBool True\<rparr> \<and> authorization c' = authorization c)"
  using call_api_cases [OF assms(1) assms(2) [unfolded verifyToken_def]]
  by (auto simp: verifyToken_handler_def)

lemma auth_series_step:
  assumes "never_throws (postHook (state c))" "auth_series tr c = (r, c')"
  shows "session_config (state c') = session_config (state c)
    \<and> (auth_inv c \<longrightarrow> auth_inv c')
    \<and> (r = Some SeriesOk \<longrightarrow> truthy (token (state c')) \<and> tokenVerified (state c') = JBool True)"
proof -
  obtain r1 c1 where a: "authenticate tr c = (r1, c1)" by force
  from authenticate_step [OF assms(1) a] show ?thesis
  proof
    assume fr: "state c1 = state c \<and> authorization c1 = authorization c \<and>
      (\<forall>e v. r1 = Some (Callback e v) \<longrightarrow> truthy e)"
    then have "(r, c') = (None, c1) \<or> (\<exists>e. (r, c') = (Some (SeriesErr e), c1))"
      using assms(2) a by (auto simp: auth_series_def split: option.splits callback_call.splits)
    with fr show ?thesis by (auto simp: auth_inv_def)
  next
    assume "\<exists>tok. truthy tok \<and> r1 = Some (Callback JUndef JUndef) \<and>
      state c1 = (state c)\<lparr>token := tok\<rparr> \<and> authorization c1 = JStr (''Bearer '' @ js_to_string tok)"
    then obtain tok where tok: "truthy tok" "r1 = Some (Callback JUndef JUndef)"
      "state c1 = (state c)\<lparr>token := tok\<rparr>" "authorization c1 = JStr (''Bearer '' @ js_to_string tok)"
      by blast
    obtain r2 c2 where v: "verifyToken tr c1 = (r2, c2)" by force
    have nt: "never_throws (postHook (state c1))" using assms(1) tok(3) by simp
    have rc: "(r, c') = (case r2 of None \<Rightarrow> (None, c2)
        | Some (Callback e2 _) \<Rightarrow> if truthy e2 then (Some (SeriesErr e2), c2) else (Some SeriesOk, c2))"
      using assms(2) a v tok(2) by (simp add: auth_series_def)
    from verifyToken_step [OF nt v] show ?thesis
    proof
      assume fr: "state c2 = state c1 \<and> authorization c2 = authorization c1 \<and>
        (\<forall>e v. r2 = Some (Callback e v) \<longrightarrow> truthy e)"
      then have "c' = c2 \<and> r \<noteq> Some SeriesOk"
        using rc by (auto split: option.splits callback_call.splits if_splits)
      with fr tok show ?thesis by (auto simp: auth_inv_def session_config_def)
    next
      assume ok: "r2 = Some (Callback JUndef JUndef) \<and>
        state c2 = (state c1)\<lparr>tokenVerified := JBool True\<rparr> \<and> authorization c2 = authorization c1"
      then have "c' = c2 \<and> r = Some SeriesOk" using rc by simp
      with ok tok show ?thesis by (auto simp: auth_inv_def session_config_def)
    qed
  qed
qed

lemma resolution_step:
  assumes "never_throws (postHook (state c))" "resolution fuel tr counter c = (outcome, delays, c')"
  shows "session_config (state c') = session_config (state c)
    \<and> (auth_inv c \<longrightarrow> auth_inv c')
    \<and> (outcome = Ready \<longrightarrow> truthy (token (state c')) \<and> tokenVerified (state c') = JBool True)"
  using assms
proof (induction fuel arbitrary: counter c outcome delays c')
  case 0
  then show ?case by simp
next
  case (Suc fuel)
  obtain r c1 where ser: "auth_series tr c = (r, c1)" by force
  note step = auth_series_step [OF Suc.prems(1) ser]
  show ?case
  proof (cases r)
    case None
    with Suc.prems(2) ser step show ?thesis by (simp add: Let_def)
  next
    case (Some sr)
    show ?thesis
    proof (cases sr)
      case SeriesOk
      with Suc.prems(2) ser step Some show ?thesis by (simp add: Let_def)
    next
      case (SeriesErr e)
      let ?t = "if counter = 0 then 1 else counter"
      obtain o' ds c2 where rec: "resolution fuel tr (?t + 1) c1 = (o', ds, c2)"
        by (metis prod_cases3)
      with Suc.prems(2) ser Some SeriesErr have "outcome = o' \<and> c' = c2" by (simp add: Let_def)
      moreover have "never_throws (postHook (state c1))"
        using step Suc.prems(1) by (simp add: session_config_def)
      ultimately show ?thesis using Suc.IH [OF _ rec] step by simp
    qed
  qed
qed

text \<open>
  C13: every run of the retry loop keeps the handshake invariant (a verified token is
  present, a present token is the one the \<open>Authorization\<close> header carries) and
  never changes the credentials or the hooks. The post-hook is assumed never to throw:
  a hook that throws a falsy value makes \<open>async.series\<close> treat a failed step as a
  success.
\<close>

theorem resolution_preserves_inv:
  assumes "never_throws (postHook (state c))" "auth_inv c"
    and "resolution fuel tr counter c = (outcome, delays, c')"
  shows "auth_inv c' \<and> session_config (state c') = session_config (state c)"
  using resolution_step [OF assms(1,3)] assms(2) by blast

text \<open>
  C14: when the retry loop reports readiness, the session validates as
  \<open>TOKEN_VERIFIED\<close> (the credentials being present to begin with).
\<close>

theorem resolution_ready_verified:
  assumes "never_throws (postHook (state c))" "credentials_present (state c)"
    and "resolution fuel tr counter c = (Ready, delays, c')"
  shows "validate_state (Some (state c')) = Some TOKEN_VERIFIED"
proof -
  from resolution_step [OF assms(1,3)] have
    "session_config (state c') = session_config (state c)"
    "truthy (token (state c'))" "tokenVerified (state c') = JBool True" by simp_all
  with assms(2) show ?thesis
    by (simp add: validate_state_def credentials_present_def session_config_def)
qed

text \<open>
  C15: the loop started as \<open>resolution()\<close> schedules its \<open>i\<close>-th retry
  (counting from 0) after \<open>retry_delay (i + 1)\<close> ms: 1000, 2000, 4000, ...
\<close>

theorem resolution_schedule:
  assumes "resolution fuel tr 0 c = (outcome, delays, c')" "i < length delays"
  shows "delays ! i = retry_delay (Suc i)"
proof -
  have "delays = map retry_delay [1 ..< 1 + length delays]"
    using resolution_delays [OF assms(1)] by simp
  then have "delays ! i = map retry_delay [1 ..< 1 + length delays] ! i" by simp
  also have "\<dots> = retry_delay (Suc i)" using assms(2) by (simp del: upt_Suc)
  finally show ?thesis .
qed

subsection \<open>Progress of the loop\<close>

lemma promisify_no_hook_settles: "promisify None error d ps \<noteq> Pending"
  by (simp add: promisify_eval)

lemma axios_request_no_hooks:
  assumes "preHook (state c) = None" "postHook (state c) = None"
    and "axios_request tr cfg c = (p, c')"
  shows "p \<noteq> Pending \<and> length (sent c') = Suc (length (sent c))"
proof -
  obtain d n1 where tr: "addNetworkTracking (axios_prepare (defaults c) (authorization c) cfg) [''networkId''] (guid_next c) = (d, n1)"
    by force
  then have req: "request_fulfilled (state c) (axios_prepare (defaults c) (authorization c) cfg) (guid_next c) = (Fulfilled d, n1)"
    using assms(1) by (simp add: request_fulfilled_tracked promisify_eval)
  have "fst (response_stage (state c) (axios_dispatch tr (length (sent c)) d) n1) \<noteq> Pending"
    using assms(2) axios_dispatch_not_Pending [of tr "length (sent c)" d]
    by (auto simp: response_stage_def response_fulfilled_def response_rejected_def
        addResponseNetworkTracking_def postHook_i_def postErrorHook_i_def promisify_eval Let_def
        split: js_promise.splits prod.splits)
  with req assms(3) show ?thesis
    by (auto simp: axios_request_def split: prod.splits)
qed

lemma call_api_no_hooks:
  assumes "preHook (state c) = None" "postHook (state c) = None"
    and "\<And>d c. sent (snd (h d c)) = sent c" "call_api tr cfg h c = (r, c')"
  shows "r \<noteq> None \<and> length (sent c') = Suc (length (sent c))"
proof -
  obtain p c1 where req: "axios_request tr cfg c = (p, c1)" by force
  from axios_request_no_hooks [OF assms(1,2) req] have p: "p \<noteq> Pending"
    and len: "length (sent c1) = Suc (length (sent c))" by simp_all
  have w: "sent (snd (wrapResponse h x c1)) = sent c1" for x
    using assms(3) by (simp add: wrapResponse_def Let_def)
  show ?thesis
  proof (cases p)
    case (Fulfilled x)
    obtain cb c2 where "wrapResponse h x c1 = (cb, c2)" by force
    with w [of x] Fulfilled len req assms(4) show ?thesis by (auto simp: call_api_def)
  qed (use p len req assms(4) in \<open>auto simp: call_api_def\<close>)
qed

lemma auth_series_progress:
  assumes "preHook (state c) = None" "postHook (state c) = None" "auth_series tr c = (r, c')"
  shows "r \<noteq> None \<and> length (sent c) < length (sent c')"
proof -
  obtain r1 c1 where a: "authenticate tr c = (r1, c1)" by force
  have ha: "sent (snd (authenticate_handler d x)) = sent x" for d x
    by (simp add: authenticate_handler_def Let_def)
  have hv: "sent (snd (verifyToken_handler d x)) = sent x" for d x
    by (simp add: verifyToken_handler_def)
  from call_api_no_hooks [OF assms(1,2) ha a [unfolded authenticate_def]]
  have r1: "r1 \<noteq> None" and l1: "length (sent c1) = Suc (length (sent c))" by simp_all
  have nt: "never_throws (postHook (state c))" using assms(2) by (simp add: never_throws_def)
  have cfg1: "session_config (state c1) = session_config (state c)"
    using authenticate_step [OF nt a] by (auto simp: session_config_def)
  obtain r2 c2 where v: "verifyToken tr c1 = (r2, c2)" by force
  have "preHook (state c1) = None" "postHook (state c1) = None"
    using cfg1 assms(1,2) by (simp_all add: session_config_def)
  from call_api_no_hooks [OF this hv v [unfolded verifyToken_def]]
  have "r2 \<noteq> None" and "length (sent c2) = Suc (length (sent c1))" by simp_all
  with r1 l1 a v assms(3) show ?thesis
    by (auto simp: auth_series_def split: option.splits callback_call.splits if_splits)
qed

lemma auth_series_good:
  assumes "preHook (state c) = None" "postHook (state c) = None"
    and "provider_good_from k tr" "k \<le> length (sent c)"
  shows "fst (auth_series tr c) = Some SeriesOk \<and> length (sent (snd (auth_series tr c))) = length (sent c) + 2"
proof -
  obtain st body where g: "tr (length (sent c)) = (\<lambda>_. NetResponse st body)" "200 \<le> st" "st < 300"
    "is_object body" "validateSubCode (js_get body [''subCode''])" "truthy (js_get body [''data'', ''token''])"
    using assms(3,4) by (auto simp: provider_good_from_def)
  let ?c1 = "snd (authenticate tr c)"
  have a: "fst (authenticate tr c) = Some (Callback JUndef JUndef)" "state ?c1 = (state c)\<lparr>token := js_get body [''data'', ''token'']\<rparr>"
    "length (sent ?c1) = Suc (length (sent c))"
    using call_api_2xx_valid [where c = c and cfg = "authenticate_config (state c)" and tr = tr
      and st = st and body = body and h = authenticate_handler, OF assms(1,2) g(1-5)] g(4,6)
    by (simp_all add: authenticate_def authenticate_handler_def js_get_body_stamped Let_def del: js_get_single)
  have k1: "k \<le> length (sent ?c1)" using assms(4) a(3) by simp
  from assms(3) [unfolded provider_good_from_def, rule_format, OF k1]
  obtain st2 body2 where g2: "tr (length (sent ?c1)) = (\<lambda>_. NetResponse st2 body2)" "200 \<le> st2" "st2 < 300"
    "is_object body2" "validateSubCode (js_get body2 [''subCode''])"
    by blast
  have "preHook (state ?c1) = None" "postHook (state ?c1) = None" using a(2) assms(1,2) by simp_all
  then have v: "fst (verifyToken tr ?c1) = Some (Callback JUndef JUndef)"
    "length (sent (snd (verifyToken tr ?c1))) = Suc (length (sent ?c1))"
    using call_api_2xx_valid [where c = ?c1 and cfg = verifyToken_config and tr = tr
      and st = st2 and body = body2 and h = verifyToken_handler, OF _ _ g2]
    by (simp_all add: verifyToken_def verifyToken_handler_def verifyToken_config_def)
  obtain r1 c1 where a': "authenticate tr c = (r1, c1)" by force
  obtain r2 c2 where v': "verifyToken tr c1 = (r2, c2)" by force
  from a(1,3) v a' v' show ?thesis by (simp add: auth_series_def)
qed

lemma resolution_ready_fuel:
  assumes "preHook (state c) = None" "postHook (state c) = None"
    and "provider_good_from k tr" "k - length (sent c) < fuel"
  shows "fst (resolution fuel tr counter c) = Ready"
  using assms
proof (induction fuel arbitrary: counter c)
  case 0
  then show ?case by simp
next
  case (Suc fuel)
  obtain r c1 where ser: "auth_series tr c = (r, c1)" by force
  show ?case
  proof (cases "k \<le> length (sent c)")
    case True
    with auth_series_good [OF Suc.prems(1-3)] ser have "r = Some SeriesOk" by simp
    with ser show ?thesis by (simp add: Let_def)
  next
    case False
    from auth_series_progress [OF Suc.prems(1,2) ser]
    have r: "r \<noteq> None" and grow: "length (sent c) < length (sent c1)" by simp_all
    have nt: "never_throws (postHook (state c))" using Suc.prems(2) by (simp add: never_throws_def)
    have "session_config (state c1) = session_config (state c)"
      using auth_series_step [OF nt ser] by simp
    then have h1: "preHook (state c1) = None" "postHook (state c1) = None"
      using Suc.prems(1,2) by (simp_all add: session_config_def)
    have f: "k - length (sent c1) < fuel" using False grow Suc.prems(4) by linarith
    show ?thesis
    proof (cases r)
      case None
      with r show ?thesis by simp
    next
      case (Some sr)
      then show ?thesis
      proof (cases sr)
        case SeriesOk
        with Some ser show ?thesis by (simp add: Let_def)
      next
        case (SeriesErr e)
        let ?t = "if counter = 0 then 1 else counter"
        obtain o' ds c2 where rec: "resolution fuel tr (?t + 1) c1 = (o', ds, c2)"
          by (metis prod_cases3)
        have "fst (resolution fuel tr (?t + 1) c1) = Ready"
          by (rule Suc.IH [OF h1 Suc.prems(3) f])
        with rec have "o' = Ready" by simp
        with rec Some SeriesErr ser show ?thesis by (simp add: Let_def)
      qed
    qed
  qed
qed

text \<open>
  C16: the retry loop is live: if the provider answers correctly from its \<open>k\<close>-th
  request on (and no hook is installed), a loop given more cycles than the requests
  still missing before \<open>k\<close> ends \<open>Ready\<close>. Each failed cycle costs at least one
  request, so the bad prefix is used up.
\<close>

theorem resolution_eventually_ready:
  assumes "preHook (state c) = None" "postHook (state c) = None"
    and "provider_good_from k tr" "k - length (sent c) < fuel"
  shows "fst (resolution fuel tr counter c) = Ready"
  by (rule resolution_ready_fuel [OF assms])

text \<open>
  C17: with a provider that answers correctly, the handshake takes exactly two network
  calls (authenticate, then verifyToken), schedules no retry, and ends \<open>Ready\<close>.
\<close>

theorem handshake_two_calls:
  assumes "preHook (state c) = None" "postHook (state c) = None"
    and "provider_good_from (length (sent c)) tr"
  shows "fst (resolution (Suc fuel) tr counter c) = Ready
    \<and> fst (snd (resolution (Suc fuel) tr counter c)) = []
    \<and> length (sent (snd (snd (resolution (Suc fuel) tr counter c)))) = length (sent c) + 2"
proof -
  obtain r c1 where ser: "auth_series tr c = (r, c1)" by force
  with auth_series_good [OF assms order_refl]
  have "r = Some SeriesOk" "length (sent c1) = length (sent c) + 2" by simp_all
  with ser show ?thesis by (simp add: Let_def)
qed

lemma axios_request_net_failure:
  assumes "preHook (state c) = None" "postHook (state c) = None" "is_object cfg"
    and "tr (length (sent c)) = (\<lambda>_. NetFailure msg)"
  shows "\<exists>e. fst (axios_request tr cfg c) = Rejected e \<and> is_object e \<and> js_prop e ''message'' = msg"
  using assms
  by (auto simp: axios_request_def request_fulfilled_tracked addNetworkTracking_def promisify_eval
      axios_dispatch_def response_stage_def response_rejected_def addResponseNetworkTracking_def
      postErrorHook_i_def Let_def split: prod.splits)

lemma call_api_net_failure:
  assumes "preHook (state c) = None" "postHook (state c) = None" "is_object cfg"
    and "tr (length (sent c)) = (\<lambda>_. NetFailure msg)"
  shows "\<exists>e. fst (call_api tr cfg h c) = Some (Callback e JUndef) \<and> is_object e \<and> js_prop e ''message'' = msg"
proof -
  obtain e where e: "fst (axios_request tr cfg c) = Rejected e" "is_object e" "js_prop e ''message'' = msg"
    using axios_request_net_failure [where tr = tr and c = c and cfg = cfg and msg = msg, OF assms] by blast
  then show ?thesis by (auto simp: call_api_def case_prod_beta)
qed

lemma authenticate_first_fails:
  assumes "preHook (state c) = None" "postHook (state c) = None"
    and "tr (length (sent c)) = (\<lambda>_. NetFailure msg) \<or>
      (tr (length (sent c)) = (\<lambda>_. NetResponse st body) \<and> 200 \<le> st \<and> st < 300 \<and> is_object body
       \<and> validateSubCode (js_get body [''subCode'']) \<and> \<not> truthy (js_get body [''data'', ''token'']))"
  shows "\<exists>e. fst (authenticate tr c) = Some (Callback e JUndef) \<and> truthy e"
  using assms(3)
proof
  assume "tr (length (sent c)) = (\<lambda>_. NetFailure msg)"
  from call_api_net_failure [where h = authenticate_handler and tr = tr and c = c
      and cfg = "authenticate_config (state c)" and msg = msg, OF assms(1,2) authenticate_config_object(1) this]
  show ?thesis by (auto simp: authenticate_def is_object_truthy)
next
  assume a: "tr (length (sent c)) = (\<lambda>_. NetResponse st body) \<and> 200 \<le> st \<and> st < 300 \<and> is_object body
       \<and> validateSubCode (js_get body [''subCode'']) \<and> \<not> truthy (js_get body [''data'', ''token''])"
  then show ?thesis
    using call_api_2xx_valid [where c = c and cfg = "authenticate_config (state c)" and tr = tr
      and st = st and body = body and h = authenticate_handler,
      OF assms(1,2) _ _ _ _ _]
    by (simp add: authenticate_def authenticate_handler_def js_get_body_stamped Let_def del: js_get_single)
qed

text \<open>
  C27: an authenticate answer that is a 2xx with an accepted sub-code but no token is
  handled exactly like a transport failure of the step: the cycle fails without running
  \<open>verifyToken\<close> (one request only) and the loop schedules its retry after
  \<open>retry_delay\<close> of the current attempt.
\<close>

theorem no_token_retried_like_failure:
  assumes "preHook (state c) = None" "postHook (state c) = None"
    and "tr (length (sent c)) = (\<lambda>_. NetFailure msg) \<or>
      (tr (length (sent c)) = (\<lambda>_. NetResponse st body) \<and> 200 \<le> st \<and> st < 300 \<and> is_object body
       \<and> validateSubCode (js_get body [''subCode'']) \<and> \<not> truthy (js_get body [''data'', ''token'']))"
  shows "(\<exists>e. fst (auth_series tr c) = Some (SeriesErr e))
    \<and> length (sent (snd (auth_series tr c))) = Suc (length (sent c))
    \<and> hd (fst (snd (resolution (Suc fuel) tr counter c))) = retry_delay (if counter = 0 then 1 else counter)"
proof -
  obtain e where e: "fst (authenticate tr c) = Some (Callback e JUndef)" "truthy e"
    using authenticate_first_fails [where tr = tr and c = c and msg = msg and st = st and body = body, OF assms] by blast
  have ha: "sent (snd (authenticate_handler d x)) = sent x" for d x
    by (simp add: authenticate_handler_def Let_def)
  obtain r1 c1 where a: "authenticate tr c = (r1, c1)" by force
  from call_api_no_hooks [OF assms(1,2) ha a [unfolded authenticate_def]]
  have len: "length (sent c1) = Suc (length (sent c))" by simp
  have ser: "auth_series tr c = (Some (SeriesErr e), c1)"
    using a e by (simp add: auth_series_def)
  with len show ?thesis by (simp add: Let_def case_prod_beta)
qed

subsection \<open>Witnesses\<close>

lemmas run_eval = client_simps axios_eval js_simps Let_def addNetworkTracking_def
  getNetworkId_def stamp_body_def promisify_eval new_session_def js_get_cons auth_series_def
  retry_delay_def backoff_delay_def node_timer_delay_def TIMEOUT_MAX_def

lemma provider_good_example: "provider_good_from 0 (\<lambda>_ _. NetResponse 200 (JObj [(''subCode'', JStr ''200''), (''data'', JObj [(''token'', JStr ''tok'')])]))"
  unfolding provider_good_from_def
  by (intro allI impI exI [of _ 200] exI [of _ "JObj [(''subCode'', JStr ''200''), (''data'', JObj [(''token'', JStr ''tok'')])]"]) (simp add: sub_code_eval js_get_cons)

theorem retry_delay_doubles_witness: "retry_delay 22 = 2097152000"
  using retry_delay_doubles [of 22] by simp

theorem retry_delay_collapses_witness: "1 \<le> retry_delay 23 \<and> retry_delay 23 \<le> 9"
  using retry_delay_collapses [of 23] by simp

theorem resolution_preserves_inv_witness:
  "auth_inv (snd (snd (resolution 2 (\<lambda>_ _. NetFailure (JStr ''down'')) 0 (new_client JUndef (new_session (JStr ''id'') (JStr ''secret'') None None)))))"
proof -
  have run: "resolution 2 (\<lambda>_ _. NetFailure (JStr ''down'')) 0 (new_client JUndef (new_session (JStr ''id'') (JStr ''secret'') None None)) =
      (fst (resolution 2 (\<lambda>_ _. NetFailure (JStr ''down'')) 0 (new_client JUndef (new_session (JStr ''id'') (JStr ''secret'') None None))), fst (snd (resolution 2 (\<lambda>_ _. NetFailure (JStr ''down'')) 0 (new_client JUndef (new_session (JStr ''id'') (JStr ''secret'') None None)))),
       snd (snd (resolution 2 (\<lambda>_ _. NetFailure (JStr ''down'')) 0 (new_client JUndef (new_session (JStr ''id'') (JStr ''secret'') None None)))))" by simp
  have "never_throws (postHook (state (new_client JUndef (new_session (JStr ''id'') (JStr ''secret'') None None))))" "auth_inv (new_client JUndef (new_session (JStr ''id'') (JStr ''secret'') None None))"
    by (simp_all add: never_throws_def new_client_def new_session_def auth_inv_def)
  from resolution_preserves_inv [OF this run] show ?thesis by simp
qed

theorem resolution_ready_verified_witness:
  "validate_state (Some (state (snd (snd (resolution 1 (\<lambda>_ _. NetResponse 200 (JObj [(''subCode'', JStr ''200''), (''data'', JObj [(''token'', JStr ''tok'')])])) 0 (new_client JUndef (new_session (JStr ''id'') (JStr ''secret'') None None))))))) = Some TOKEN_VERIFIED"
proof -
  have ready: "fst (resolution 1 (\<lambda>_ _. NetResponse 200 (JObj [(''subCode'', JStr ''200''), (''data'', JObj [(''token'', JStr ''tok'')])])) 0 (new_client JUndef (new_session (JStr ''id'') (JStr ''secret'') None None))) = Ready"
    by (simp add: run_eval numeral_2_eq_2 sub_code_eval)
  have run: "resolution 1 (\<lambda>_ _. NetResponse 200 (JObj [(''subCode'', JStr ''200''), (''data'', JObj [(''token'', JStr ''tok'')])])) 0 (new_client JUndef (new_session (JStr ''id'') (JStr ''secret'') None None)) =
      (Ready, fst (snd (resolution 1 (\<lambda>_ _. NetResponse 200 (JObj [(''subCode'', JStr ''200''), (''data'', JObj [(''token'', JStr ''tok'')])])) 0 (new_client JUndef (new_session (JStr ''id'') (JStr ''secret'') None None)))), snd (snd (resolution 1 (\<lambda>_ _. NetResponse 200 (JObj [(''subCode'', JStr ''200''), (''data'', JObj [(''token'', JStr ''tok'')])])) 0 (new_client JUndef (new_session (JStr ''id'') (JStr ''secret'') None None)))))"
    using ready by (metis prod.collapse)
  have "never_throws (postHook (state (new_client JUndef (new_session (JStr ''id'') (JStr ''secret'') None None))))" "credentials_present (state (new_client JUndef (new_session (JStr ''id'') (JStr ''secret'') None None)))"
    by (simp_all add: never_throws_def new_client_def new_session_def credentials_present_def)
  from resolution_ready_verified [OF this run] show ?thesis .
qed

theorem resolution_schedule_witness:
  "fst (snd (resolution 2 (\<lambda>_ _. NetFailure (JStr ''down'')) 0 (new_client JUndef (new_session (JStr ''id'') (JStr ''secret'') None None)))) ! 1 = 2000"
proof -
  have len: "length (fst (snd (resolution 2 (\<lambda>_ _. NetFailure (JStr ''down'')) 0 (new_client JUndef (new_session (JStr ''id'') (JStr ''secret'') None None))))) = 2"
    by (simp add: run_eval numeral_2_eq_2)
  have run: "resolution 2 (\<lambda>_ _. NetFailure (JStr ''down'')) 0 (new_client JUndef (new_session (JStr ''id'') (JStr ''secret'') None None)) =
      (fst (resolution 2 (\<lambda>_ _. NetFailure (JStr ''down'')) 0 (new_client JUndef (new_session (JStr ''id'') (JStr ''secret'') None None))), fst (snd (resolution 2 (\<lambda>_ _. NetFailure (JStr ''down'')) 0 (new_client JUndef (new_session (JStr ''id'') (JStr ''secret'') None None)))),
       snd (snd (resolution 2 (\<lambda>_ _. NetFailure (JStr ''down'')) 0 (new_client JUndef (new_session (JStr ''id'') (JStr ''secret'') None None)))))" by simp
  have "fst (snd (resolution 2 (\<lambda>_ _. NetFailure (JStr ''down'')) 0 (new_client JUndef (new_session (JStr ''id'') (JStr ''secret'') None None)))) ! 1 = retry_delay (Suc 1)"
    using resolution_schedule [OF run, of 1] len by simp
  then show ?thesis using retry_delay_doubles_witness
    by (simp add: retry_delay_def backoff_delay_def node_timer_delay_def TIMEOUT_MAX_def)
qed

theorem resolution_eventually_ready_witness:
  "fst (resolution 1 (\<lambda>_ _. NetResponse 200 (JObj [(''subCode'', JStr ''200''), (''data'', JObj [(''token'', JStr ''tok'')])])) 0 (new_client JUndef (new_session (JStr ''id'') (JStr ''secret'') None None))) = Ready"
  using resolution_eventually_ready [of "new_client JUndef (new_session (JStr ''id'') (JStr ''secret'') None None)" 0 "(\<lambda>_ _. NetResponse 200 (JObj [(''subCode'', JStr ''200''), (''data'', JObj [(''token'', JStr ''tok'')])]))" 1 0] provider_good_example
  by (simp add: new_client_def new_session_def)

theorem handshake_two_calls_witness:
  "fst (resolution 1 (\<lambda>_ _. NetResponse 200 (JObj [(''subCode'', JStr ''200''), (''data'', JObj [(''token'', JStr ''tok'')])])) 0 (new_client JUndef (new_session (JStr ''id'') (JStr ''secret'') None None))) = Ready
   \<and> fst (snd (resolution 1 (\<lambda>_ _. NetResponse 200 (JObj [(''subCode'', JStr ''200''), (''data'', JObj [(''token'', JStr ''tok'')])])) 0 (new_client JUndef (new_session (JStr ''id'') (JStr ''secret'') None None)))) = []
   \<and> length (sent (snd (snd (resolution 1 (\<lambda>_ _. NetResponse 200 (JObj [(''subCode'', JStr ''200''), (''data'', JObj [(''token'', JStr ''tok'')])])) 0 (new_client JUndef (new_session (JStr ''id'') (JStr ''secret'') None None)))))) = 2"
  using handshake_two_calls [of "new_client JUndef (new_session (JStr ''id'') (JStr ''secret'') None None)" "(\<lambda>_ _. NetResponse 200 (JObj [(''subCode'', JStr ''200''), (''data'', JObj [(''token'', JStr ''tok'')])]))" 0 0] provider_good_example
  by (simp add: new_client_def new_session_def)

theorem no_token_retried_like_failure_witness:
  "(\<exists>e. fst (auth_series (\<lambda>_ _. NetResponse 200 (JObj [(''subCode'', JStr ''200''), (''data'', JObj [])]))
        (new_client JUndef (new_session (JStr ''id'') (JStr ''secret'') None None))) = Some (SeriesErr e))
   \<and> length (sent (snd (auth_series (\<lambda>_ _. NetResponse 200 (JObj [(''subCode'', JStr ''200''), (''data'', JObj [])]))
        (new_client JUndef (new_session (JStr ''id'') (JStr ''secret'') None None))))) = 1
   \<and> hd (fst (snd (resolution 1 (\<lambda>_ _. NetResponse 200 (JObj [(''subCode'', JStr ''200''), (''data'', JObj [])])) 0
        (new_client JUndef (new_session (JStr ''id'') (JStr ''secret'') None None))))) = 1000"
proof -
  have h: "preHook (state (new_client JUndef (new_session (JStr ''id'') (JStr ''secret'') None None))) = None"
    "postHook (state (new_client JUndef (new_session (JStr ''id'') (JStr ''secret'') None None))) = None"
    by (simp_all add: new_client_def new_session_def)
  have t: "(\<lambda>_ _. NetResponse 200 (JObj [(''subCode'', JStr ''200''), (''data'', JObj [])]))
        (length (sent (new_client JUndef (new_session (JStr ''id'') (JStr ''secret'') None None)))) = (\<lambda>_. NetFailure (JStr ''down'')) \<or>
      ((\<lambda>_ _. NetResponse 200 (JObj [(''subCode'', JStr ''200''), (''data'', JObj [])]))
        (length (sent (new_client JUndef (new_session (JStr ''id'') (JStr ''secret'') None None)))) = (\<lambda>_. NetResponse 200 (JObj [(''subCode'', JStr ''200''), (''data'', JObj [])]))
       \<and> 200 \<le> (200::int) \<and> (200::int) < 300 \<and> is_object (JObj [(''subCode'', JStr ''200''), (''data'', JObj [])])
       \<and> validateSubCode (js_get (JObj [(''subCode'', JStr ''200''), (''data'', JObj [])]) [''subCode''])
       \<and> \<not> truthy (js_get (JObj [(''subCode'', JStr ''200''), (''data'', JObj [])]) [''data'', ''token'']))"
    by (simp add: sub_code_eval js_get_cons)
  from no_token_retried_like_failure [where fuel = 0 and counter = 0, OF h t] show ?thesis
    by (simp add: retry_delay_def backoff_delay_def node_timer_delay_def TIMEOUT_MAX_def new_client_def)
qed

end
