(* ===== verification/RetryLoop.thy ===== *)
theory RetryLoop
  imports AuthSession
begin

text \<open>
  The retry loop of \<open>src/lib/index.js\<close> (lines 147-159) without fuel: \<open>resolution\<close>
  reschedules itself on every failed cycle and nothing bounds the number of cycles, so
  it is a \<open>partial_function (option)\<close>. \<open>Some (delays, c)\<close> is the loop reaching
  \<open>resolve()\<close> after scheduling \<open>delays\<close>; \<open>None\<close> is a loop that never does,
  because it retries forever or because a cycle never completes.
\<close>

partial_function (option) resolution_loop ::
  "transport \<Rightarrow> nat \<Rightarrow> client \<Rightarrow> (nat list \<times> client) option" where
  "resolution_loop tr counter c =
     (let timeout = (if counter = 0 then 1 else counter) in
      case auth_series tr c of
        (None, c1) \<Rightarrow> None
      | (Some SeriesOk, c1) \<Rightarrow> Some ([], c1)
      | (Some (SeriesErr e), c1) \<Rightarrow>
          Option.bind (resolution_loop tr (timeout + 1) c1)
            (\<lambda>(delays, c2). Some (retry_delay timeout # delays, c2)))"

subsection \<open>Lemmas\<close>

lemma resolution_fuel_loop:
  "resolution fuel tr counter c = (Ready, ds, c') \<Longrightarrow> resolution_loop tr counter c = Some (ds, c')"
proof (induction fuel arbitrary: counter c ds c')
  case 0
  then show ?case by simp
next
  case (Suc fuel)
  obtain r c1 where ser: "auth_series tr c = (r, c1)" by force
  let ?t = "if counter = 0 then 1 else counter"
  show ?case
  proof (cases r)
    case None
    with Suc.prems ser show ?thesis by simp
  next
    case (Some sr)
    show ?thesis
    proof (cases sr)
      case SeriesOk
      with Some Suc.prems ser show ?thesis by (simp add: resolution_loop.simps)
    next
      case (SeriesErr e)
      obtain o' ds' c2 where rec: "resolution fuel tr (?t + 1) c1 = (o', ds', c2)"
        by (metis prod_cases3)
      with Suc.prems ser Some SeriesErr have "o' = Ready" "ds = retry_delay ?t # ds'" "c' = c2"
        by (simp_all add: Let_def)
      with Suc.IH [of "?t + 1" c1 ds' c2] rec Some SeriesErr ser show ?thesis
        by (simp add: resolution_loop.simps)
    qed
  qed
qed

lemma resolution_loop_fuel:
  assumes ret: "resolution_loop tr counter c = Some r"
  shows "\<exists>fuel. resolution fuel tr counter c = (Ready, fst r, snd r)"
proof (rule resolution_loop.raw_induct [where P = "\<lambda>tr counter c r. \<exists>fuel. resolution fuel tr counter c = (Ready, fst r, snd r)", OF _ ret])
  fix f tr counter c r
  assume IH: "\<And>tr counter c r. f tr counter c = Some r \<Longrightarrow> \<exists>fuel. resolution fuel tr counter c = (Ready, fst r, snd r)"
    and eq: "(let timeout = (if counter = 0 then 1 else counter) in
      case auth_series tr c of
        (None, c1) \<Rightarrow> None
      | (Some SeriesOk, c1) \<Rightarrow> Some ([], c1)
      | (Some (SeriesErr e), c1) \<Rightarrow>
          Option.bind (f tr (timeout + 1) c1)
            (\<lambda>(delays, c2). Some (retry_delay timeout # delays, c2))) = Some r"
  obtain sr c1 where ser: "auth_series tr c = (sr, c1)" by force
  let ?t = "if counter = 0 then 1 else counter"
  show "\<exists>fuel. resolution fuel tr counter c = (Ready, fst r, snd r)"
  proof (cases sr)
    case None
    with eq ser show ?thesis by simp
  next
    case (Some x)
    show ?thesis
    proof (cases x)
      case SeriesOk
      with Some eq ser have "r = ([], c1)" by simp
      with Some SeriesOk ser show ?thesis by (intro exI [of _ 1]) simp
    next
      case (SeriesErr e)
      with Some eq ser obtain ds' c2 where rec: "f tr (?t + 1) c1 = Some (ds', c2)"
        and r: "r = (retry_delay ?t # ds', c2)"
        by (auto simp: Let_def bind_eq_Some_conv)
      from IH [OF rec] obtain fuel where "resolution fuel tr (?t + 1) c1 = (Ready, ds', c2)" by auto
      with r Some SeriesErr ser show ?thesis by (intro exI [of _ "Suc fuel"]) (simp add: Let_def)
    qed
  qed
qed


lemma failing_cycle:
  assumes "preHook (state c) = None" "postHook (state c) = None"
    and "tr (length (sent c)) = (\<lambda>_. NetFailure msg)"
  shows "\<exists>e. fst (auth_series tr c) = Some (SeriesErr e) \<and> state (snd (auth_series tr c)) = state c"
proof -
  obtain e where e: "fst (authenticate tr c) = Some (Callback e JUndef)" "truthy e"
    using authenticate_first_fails [where tr = tr and c = c and msg = msg and st = 0 and body = JUndef] assms
    by blast
  obtain r1 c1 where a: "authenticate tr c = (r1, c1)" by force
  have nt: "never_throws (postHook (state c))" using assms(2) by (simp add: never_throws_def)
  from authenticate_step [OF nt a] e a have "state c1 = state c" by auto
  with a e show ?thesis by (simp add: auth_series_def)
qed

lemma failing_provider_fuel:
  assumes "preHook (state c) = None" "postHook (state c) = None"
    and "\<forall>k. tr k = (\<lambda>_. NetFailure msg)"
  shows "fst (resolution fuel tr counter c) \<noteq> Ready"
  using assms(1,2)
proof (induction fuel arbitrary: counter c)
  case (Suc fuel)
  obtain e where e: "fst (auth_series tr c) = Some (SeriesErr e)"
    and st: "state (snd (auth_series tr c)) = state c"
    using failing_cycle [OF Suc.prems] assms(3) by blast
  let ?t = "if counter = 0 then 1 else counter"
  have "fst (resolution fuel tr (?t + 1) (snd (auth_series tr c))) \<noteq> Ready"
    using Suc.IH st Suc.prems by simp
  with e show ?case
    by (cases "auth_series tr c") (simp add: Let_def case_prod_beta)
qed simp

text \<open>
  C29: the retry loop returns: with no hooks and a provider that answers correctly from
  some request on, the loop reaches \<open>resolve()\<close>.
\<close>

theorem resolution_loop_terminates:
  assumes "preHook (state c) = None" "postHook (state c) = None" "provider_good_from k tr"
  shows "\<exists>r. resolution_loop tr counter c = Some r"
proof -
  let ?fuel = "Suc (k - length (sent c))"
  have "fst (resolution ?fuel tr counter c) = Ready"
    by (rule resolution_ready_fuel [OF assms]) simp
  then have "resolution ?fuel tr counter c = (Ready, fst (snd (resolution ?fuel tr counter c)), snd (snd (resolution ?fuel tr counter c)))"
    by (metis prod.collapse)
  from resolution_fuel_loop [OF this] show ?thesis by blast
qed

text \<open>
  C30: against a provider that is never reachable the loop never returns: the client is
  never released, however long one waits.
\<close>

theorem failing_provider_loop_diverges:
  assumes "preHook (state c) = None" "postHook (state c) = None"
    and "\<forall>k. tr k = (\<lambda>_. NetFailure msg)"
  shows "resolution_loop tr counter c = None"
proof (rule ccontr)
  assume "resolution_loop tr counter c \<noteq> None"
  then obtain r where "resolution_loop tr counter c = Some r" by blast
  from resolution_loop_fuel [OF this] obtain fuel where "fst (resolution fuel tr counter c) = Ready" by (metis fst_conv)
  with failing_provider_fuel [OF assms] show False by blast
qed

lemma axios_request_throwing_posthook:
  assumes "preHook (state c) = None" "postHook (state c) = Some h" "\<forall>x. h x = Throws v"
  shows "fst (axios_request tr cfg c) = Rejected v"
proof -
  obtain d n1 where t: "addNetworkTracking (axios_prepare (defaults c) (authorization c) cfg) [''networkId''] (guid_next c) = (d, n1)"
    by force
  then have req: "request_fulfilled (state c) (axios_prepare (defaults c) (authorization c) cfg) (guid_next c) = (Fulfilled d, n1)"
    using assms(1) by (simp add: request_fulfilled_tracked promisify_eval)
  have "fst (response_stage (state c) (axios_dispatch tr (length (sent c)) d) n1) = Rejected v"
    using assms(2,3) axios_dispatch_not_Pending [of tr "length (sent c)" d]
    by (auto simp: response_stage_def response_fulfilled_def response_rejected_def
        addResponseNetworkTracking_def postHook_i_def postErrorHook_i_def promisify_eval case_prod_beta
        split: js_promise.splits)
  with req show ?thesis by (simp add: axios_request_def case_prod_beta)
qed

lemma call_api_throwing_posthook:
  assumes "preHook (state c) = None" "postHook (state c) = Some h" "\<forall>x. h x = Throws v"
  shows "fst (call_api tr cfg hdl c) = Some (Callback v JUndef) \<and> state (snd (call_api tr cfg hdl c)) = state c"
proof -
  obtain p c1 where req: "axios_request tr cfg c = (p, c1)" by force
  with axios_request_throwing_posthook [OF assms, of tr cfg] have "p = Rejected v" by simp
  with req axios_request_frame [OF req] show ?thesis by (simp add: call_api_def)
qed

text \<open>
  C33: the hypothesis \<open>never_throws\<close> of C13 and C14 is needed. A post-hook that
  throws a falsy value (\<open>throw undefined\<close>) rejects every request with that value,
  \<open>.catch(callback)\<close> passes it on as the step's error, and \<open>async.series\<close> reads a
  falsy error as success (the semantics of async 2.x; async 3 would end the series
  on \<open>false\<close> without calling back): the loop reaches \<open>resolve()\<close> at once although no token
  was ever obtained, and the session still validates as \<open>UNAUTHENTICATED\<close>.
\<close>

theorem falsy_throw_fakes_readiness:
  assumes "preHook (state c) = None" "postHook (state c) = Some h" "\<forall>x. h x = Throws v"
    and "\<not> truthy v" "credentials_present (state c)" "\<not> truthy (token (state c))"
  shows "\<exists>c'. resolution_loop tr counter c = Some ([], c')
    \<and> validate_state (Some (state c')) = Some UNAUTHENTICATED"
proof -
  note a = call_api_throwing_posthook [OF assms(1-3), of tr "authenticate_config (state c)" authenticate_handler]
  let ?c1 = "snd (authenticate tr c)"
  have h1: "preHook (state ?c1) = None" "postHook (state ?c1) = Some h"
    using a assms(1,2) by (simp_all add: authenticate_def)
  note v = call_api_throwing_posthook [OF h1 assms(3), of tr verifyToken_config verifyToken_handler]
  have ser: "auth_series tr c = (Some SeriesOk, snd (verifyToken tr ?c1))"
    using a v assms(4) by (simp add: auth_series_def authenticate_def verifyToken_def case_prod_beta split: prod.splits)
  have st: "state (snd (verifyToken tr ?c1)) = state c"
    using a v by (simp add: authenticate_def verifyToken_def)
  have "resolution_loop tr counter c = Some ([], snd (verifyToken tr ?c1))"
    using ser by (simp add: resolution_loop.simps)
  moreover have "validate_state (Some (state c)) = Some UNAUTHENTICATED"
    using assms(5,6) by (simp add: validate_state_def credentials_present_def)
  ultimately show ?thesis using st by auto
qed

subsection \<open>Witnesses\<close>

theorem resolution_loop_terminates_witness:
  "\<exists>r. resolution_loop (\<lambda>_ _. NetResponse 200 (JObj [(''subCode'', JStr ''200''), (''data'', JObj [(''token'', JStr ''tok'')])])) 0
      (new_client JUndef (new_session (JStr ''id'') (JStr ''secret'') None None)) = Some r"
  by (rule resolution_loop_terminates [OF _ _ provider_good_example]) (simp_all add: new_client_def new_session_def)

theorem failing_provider_loop_diverges_witness:
  "resolution_loop (\<lambda>_ _. NetFailure (JStr ''down'')) 0 (new_client JUndef (new_session (JStr ''id'') (JStr ''secret'') None None)) = None"
  by (rule failing_provider_loop_diverges) (simp_all add: new_client_def new_session_def)


theorem falsy_throw_fakes_readiness_witness:
  "\<exists>c'. resolution_loop (\<lambda>_ _. NetFailure (JStr ''down'')) 0 (new_client JUndef (new_session (JStr ''id'') (JStr ''secret'') None (Some (\<lambda>_. Throws JUndef)))) = Some ([], c')
     \<and> validate_state (Some (state c')) = Some UNAUTHENTICATED"
  by (rule falsy_throw_fakes_readiness [where h = "\<lambda>_. Throws JUndef" and v = JUndef])
     (simp_all add: new_client_def new_session_def credentials_present_def)

end
