(* ===== verification/Endpoints.thy ===== *)
theory Endpoints
  imports Client
begin

text \<open>
  What the endpoint methods of \<open>src/lib/index.js\<close> (lines 66-131) put on the wire.
  Each builds a request config with \<open>_.pick\<close> over a fixed key list; the config that
  reaches the network is that config with the method and timeout defaults, the
  \<open>Authorization\<close> header and a correlation id added, and nothing else changed.
\<close>

subsection \<open>Lemmas\<close>

lemma js_prop_tracked:
  "k \<noteq> ''networkId'' \<Longrightarrow> js_prop (fst (addNetworkTracking d [''networkId''] n)) k = js_prop d k"
  by (simp add: addNetworkTracking_def Let_def)

text \<open>A key the method's config sets to a value that is not an object reaches the network as set.\<close>

lemma tracked_config_prop:
  assumes "k \<noteq> ''networkId''" "has_own (obj_props cfg) k" "\<not> typeof_object (js_prop cfg k)"
  shows "js_prop (fst (addNetworkTracking (axios_prepare defs auth cfg) [''networkId''] n)) k = js_prop cfg k"
  using assms by (simp add: js_prop_tracked axios_prepare_wins)

lemma axios_request_sends:
  assumes "axios_request tr cfg c = (p, c')" "never_rewrites (preHook (state c))"
  shows "sent c' = sent c \<or>
    sent c' = sent c @ [fst (addNetworkTracking (axios_prepare (defaults c) (authorization c) cfg) [''networkId''] (guid_next c))]"
proof -
  obtain d n' where t: "addNetworkTracking (axios_prepare (defaults c) (authorization c) cfg) [''networkId''] (guid_next c) = (d, n')"
    by force
  obtain p1 n1 where rf: "request_fulfilled (state c) (axios_prepare (defaults c) (authorization c) cfg) (guid_next c) = (p1, n1)"
    by force
  have "p1 = Fulfilled cfg1 \<Longrightarrow> cfg1 = d" for cfg1
    using rf t by (auto simp: request_fulfilled_tracked dest: promisify_Fulfilled [OF assms(2)])
  with t rf assms(1) show ?thesis
    by (auto simp: axios_request_def split: js_promise.splits prod.splits)
qed

lemma call_api_sends:
  assumes "\<And>d x. sent (snd (h d x)) = sent x" "call_api tr cfg h c = (r, c')"
    "never_rewrites (preHook (state c))"
  shows "sent c' = sent c \<or>
    sent c' = sent c @ [fst (addNetworkTracking (axios_prepare (defaults c) (authorization c) cfg) [''networkId''] (guid_next c))]"
proof -
  obtain p c1 where req: "axios_request tr cfg c = (p, c1)" by force
  have w: "sent (snd (wrapResponse h x c1)) = sent c1" for x
    using assms(1) by (simp add: wrapResponse_def Let_def)
  have "sent c' = sent c1"
    using req assms(2) w by (auto simp: call_api_def case_prod_beta split: js_promise.splits)
  with axios_request_sends [OF req assms(3)] show ?thesis by simp
qed

lemma call_api_sent_one:
  assumes "\<And>d x. snd (h d x) = x" "call_api tr cfg h c = (r, c')" "sent c' = sent c @ [cfg1]"
    "never_rewrites (preHook (state c))"
  shows "cfg1 = fst (addNetworkTracking (axios_prepare (defaults c) (authorization c) cfg) [''networkId''] (guid_next c))"
  using call_api_sends [OF _ assms(2,4)] assms(1,3) by auto

lemma call_api_sent_tracked:
  assumes "\<And>d x. sent (snd (h d x)) = sent x" "sent (snd (call_api tr cfg h c)) = sent c @ [cfg1]"
    "never_rewrites (preHook (state c))"
  shows "cfg1 = fst (addNetworkTracking (axios_prepare (defaults c) (authorization c) cfg) [''networkId''] (guid_next c))"
  using call_api_sends [where h = h and tr = tr and cfg = cfg and c = c, OF assms(1) prod.collapse [symmetric] assms(3)] assms(2)
  by auto

lemma js_get_js_pick_absent: "k \<notin> set keys \<Longrightarrow> js_get (js_pick v keys) [k] = JUndef"
  by (cases v) (simp_all add: pick_step_prop)


text \<open>
  C22: \<open>addBeneficiary\<close> sends exactly the picked parameters as the request body, and
  the caller's \<open>address2\<close> and \<open>pincode\<close> are never among them: the key list has
  \<open>'address2 '\<close> and \<open>'pincode '\<close>, with a trailing space. (The constructor's
  \<open>axiosConfig\<close> must not carry an object as \<open>data\<close>: axios would merge it in.)
\<close>

theorem addBeneficiary_drops_address2_pincode:
  assumes "addBeneficiary tr params c = (r, c')" "sent c' = sent c @ [cfg1]" "never_rewrites (preHook (state c))"
    and "\<not> typeof_object (js_prop (defaults c) ''data'')"
  shows "js_prop cfg1 ''data'' = js_pick params addBeneficiary_fields
    \<and> js_get cfg1 [''data'', ''address2''] = JUndef \<and> js_get cfg1 [''data'', ''pincode''] = JUndef"
proof -
  have "cfg1 = fst (addNetworkTracking (axios_prepare (defaults c) (authorization c)
      (JObj [(''url'', JStr URL_ADD_BENEFICIARY), (''method'', JStr ''post''), (''data'', js_pick params addBeneficiary_fields)]))
      [''networkId''] (guid_next c))"
    by (rule call_api_sent_one [OF _ assms(1) [unfolded addBeneficiary_def] assms(2,3)]) simp
  then have d: "js_prop cfg1 ''data'' = js_pick params addBeneficiary_fields"
    using assms(4) by (simp add: js_prop_tracked axios_prepare_request)
  have "''address2'' \<notin> set addBeneficiary_fields" "''pincode'' \<notin> set addBeneficiary_fields"
    by (simp_all add: addBeneficiary_fields_def)
  with d show ?thesis
    by (simp add: js_get_cons js_get_js_pick_absent del: js_get_single)
qed

text \<open>
  C23: \<open>requestTransfer\<close> sends exactly the picked parameters as the request body, and
  the caller's \<open>remarks\<close> are never among them (the key is \<open>'remarks '\<close>).
\<close>

theorem requestTransfer_drops_remarks:
  assumes "requestTransfer tr params c = (r, c')" "sent c' = sent c @ [cfg1]" "never_rewrites (preHook (state c))"
    and "\<not> typeof_object (js_prop (defaults c) ''data'')"
  shows "js_prop cfg1 ''data'' = js_pick params requestTransfer_fields
    \<and> js_get cfg1 [''data'', ''remarks''] = JUndef"
proof -
  have "cfg1 = fst (addNetworkTracking (axios_prepare (defaults c) (authorization c)
      (JObj [(''url'', JStr URL_REQUEST_TRANSFER), (''method'', JStr ''post''), (''data'', js_pick params requestTransfer_fields)]))
      [''networkId''] (guid_next c))"
    by (rule call_api_sent_one [OF _ assms(1) [unfolded requestTransfer_def] assms(2,3)]) simp
  then have d: "js_prop cfg1 ''data'' = js_pick params requestTransfer_fields"
    using assms(4) by (simp add: js_prop_tracked axios_prepare_request)
  have "''remarks'' \<notin> set requestTransfer_fields" by (simp add: requestTransfer_fields_def)
  with d show ?thesis
    by (simp add: js_get_cons js_get_js_pick_absent del: js_get_single)
qed

text \<open>
  C24: \<open>listTransfers\<close> sends its pagination as the body of a \<open>GET\<close> request and no
  query parameters, where \<open>getBeneficiaries\<close> sends the same two keys as query
  parameters; provided the constructor's \<open>axiosConfig\<close> sets no \<open>method\<close>,
  \<open>params\<close> or object \<open>data\<close> of its own, which axios merges into every request.
\<close>

theorem listTransfers_pagination_in_get_body:
  assumes "listTransfers tr params c = (r, c')" "sent c' = sent c @ [cfg1]" "never_rewrites (preHook (state c))"
    and "\<not> has_own (obj_props (defaults c)) ''method''" "js_prop (defaults c) ''params'' = JUndef"
    and "\<not> typeof_object (js_prop (defaults c) ''data'')"
  shows "js_prop cfg1 ''method'' = JStr ''get'' \<and> js_prop cfg1 ''params'' = JUndef
    \<and> js_prop cfg1 ''data'' = js_pick params [''maxReturn'', ''lastReturnId'']"
proof -
  have "cfg1 = fst (addNetworkTracking (axios_prepare (defaults c) (authorization c)
      (JObj [(''url'', JStr URL_LIST_TRANSFERS), (''data'', js_pick params [''maxReturn'', ''lastReturnId''])]))
      [''networkId''] (guid_next c))"
    by (rule call_api_sent_one [OF _ assms(1) [unfolded listTransfers_def] assms(2,3)]) simp
  then show ?thesis
    using assms(4-6)
    by (simp add: js_prop_tracked axios_prepare_request axios_prepare_method axios_prepare_default)
qed

text \<open>
  C28: \<open>getBeneficiary\<close> requests \<open>baseURL\<close> joined with
  \<open>`${URLS.GET_BENEFICIARY}/${_.get(params, 'beneId')}`\<close>: the id is put into the
  path as its string conversion, not URL-encoded, and a missing \<open>beneId\<close> requests
  \<open>.../getBeneficiary/undefined\<close>. Holds for a non-empty string \<open>baseURL\<close> in
  \<open>axiosConfig\<close> (the sources set none: the URL constants are paths).
\<close>

theorem getBeneficiary_url_on_wire:
  assumes "getBeneficiary tr params c = (r, c')" "sent c' = sent c @ [cfg1]" "never_rewrites (preHook (state c))"
    and "js_prop (defaults c) ''baseURL'' = JStr b" "b \<noteq> []"
  shows "js_prop (axios_wire cfg1) ''url'' =
    JStr (combine_urls b (URL_GET_BENEFICIARY @ ''/'' @ js_to_string (js_get params [''beneId''])))"
proof -
  let ?u = "URL_GET_BENEFICIARY @ ''/'' @ js_to_string (js_get params [''beneId''])"
  have c1: "cfg1 = fst (addNetworkTracking (axios_prepare (defaults c) (authorization c) (JObj [(''url'', JStr ?u)]))
      [''networkId''] (guid_next c))"
    by (rule call_api_sent_one [OF _ assms(1) [unfolded getBeneficiary_def] assms(2,3)]) simp
  then have o: "is_object cfg1" by (simp add: addNetworkTracking_def Let_def)
  have "js_prop cfg1 ''url'' = JStr ?u"
    unfolding c1 by (simp add: js_prop_tracked axios_prepare_wins)
  moreover have "js_prop cfg1 ''baseURL'' = JStr b"
    unfolding c1 using assms(4) by (simp add: js_prop_tracked axios_prepare_default)
  moreover have "\<not> is_absolute_url ?u"
    by (simp add: URL_GET_BENEFICIARY_def is_absolute_url_slash)
  ultimately show ?thesis
    using o assms(5) by (simp add: js_prop_axios_wire_url wire_url_def)
qed

subsection \<open>Witnesses\<close>

lemmas request_eval = client_simps axios_eval js_simps Let_def addNetworkTracking_def getNetworkId_def
  stamp_body_def promisify_eval new_session_def js_get_cons

lemma sent_single: "sent c = [] \<Longrightarrow> length (sent c') = 1 \<Longrightarrow> sent c' = sent c @ [last (sent c')]"
  by (cases "sent c'") simp_all

theorem addBeneficiary_drops_address2_pincode_witness:
  "js_get (last (sent (snd (addBeneficiary (\<lambda>_ _. NetResponse 200 (JObj [(''subCode'', JStr ''200'')]))
      (JObj [(''name'', JStr ''A''), (''address2'', JStr ''Flat 1''), (''pincode'', JStr ''560001'')])
      (new_client JUndef (new_session (JStr ''id'') (JStr ''secret'') None None)))))) [''data'', ''address2''] = JUndef"
proof -
  let ?run = "addBeneficiary (\<lambda>_ _. NetResponse 200 (JObj [(''subCode'', JStr ''200'')]))
      (JObj [(''name'', JStr ''A''), (''address2'', JStr ''Flat 1''), (''pincode'', JStr ''560001'')])
      (new_client JUndef (new_session (JStr ''id'') (JStr ''secret'') None None))"
  have "length (sent (snd ?run)) = 1"
    by (simp add: request_eval addBeneficiary_def addBeneficiary_fields_def sub_code_eval)
  from addBeneficiary_drops_address2_pincode [OF prod.collapse [symmetric] sent_single [OF _ this]]
  show ?thesis by (simp add: new_client_def new_session_def getNetwork_def)
qed

theorem requestTransfer_drops_remarks_witness:
  "js_get (last (sent (snd (requestTransfer (\<lambda>_ _. NetResponse 200 (JObj [(''subCode'', JStr ''200'')]))
      (JObj [(''beneId'', JStr ''b1''), (''amount'', JNum 100), (''remarks'', JStr ''rent'')])
      (new_client JUndef (new_session (JStr ''id'') (JStr ''secret'') None None)))))) [''data'', ''remarks''] = JUndef"
proof -
  let ?run = "requestTransfer (\<lambda>_ _. NetResponse 200 (JObj [(''subCode'', JStr ''200'')]))
      (JObj [(''beneId'', JStr ''b1''), (''amount'', JNum 100), (''remarks'', JStr ''rent'')])
      (new_client JUndef (new_session (JStr ''id'') (JStr ''secret'') None None))"
  have "length (sent (snd ?run)) = 1"
    by (simp add: request_eval requestTransfer_def requestTransfer_fields_def sub_code_eval)
  from requestTransfer_drops_remarks [OF prod.collapse [symmetric] sent_single [OF _ this]]
  show ?thesis by (simp add: new_client_def new_session_def getNetwork_def)
qed

theorem listTransfers_pagination_in_get_body_witness:
  "js_prop (last (sent (snd (listTransfers (\<lambda>_ _. NetResponse 200 (JObj [(''subCode'', JStr ''200'')]))
      (JObj [(''maxReturn'', JNum 10)])
      (new_client JUndef (new_session (JStr ''id'') (JStr ''secret'') None None)))))) ''params'' = JUndef"
proof -
  let ?run = "listTransfers (\<lambda>_ _. NetResponse 200 (JObj [(''subCode'', JStr ''200'')]))
      (JObj [(''maxReturn'', JNum 10)])
      (new_client JUndef (new_session (JStr ''id'') (JStr ''secret'') None None))"
  have "length (sent (snd ?run)) = 1"
    by (simp add: request_eval listTransfers_def sub_code_eval)
  from listTransfers_pagination_in_get_body [OF prod.collapse [symmetric] sent_single [OF _ this]]
  show ?thesis by (simp add: new_client_def new_session_def getNetwork_def)
qed

theorem getBeneficiary_url_on_wire_witness:
  "js_prop (axios_wire (last (sent (snd (getBeneficiary (\<lambda>_ _. NetFailure (JStr ''down'')) (JObj [])
      (new_client (JObj [(''baseURL'', JStr ''https://x.example/'')]) (new_session (JStr ''id'') (JStr ''secret'') None None)))))))
     ''url'' = JStr ''https://x.example/payout/v1/getBeneficiary/undefined''"
proof -
  let ?run = "getBeneficiary (\<lambda>_ _. NetFailure (JStr ''down'')) (JObj [])
      (new_client (JObj [(''baseURL'', JStr ''https://x.example/'')]) (new_session (JStr ''id'') (JStr ''secret'') None None))"
  have "length (sent (snd ?run)) = 1"
    by (simp add: request_eval getBeneficiary_def)
  from getBeneficiary_url_on_wire [where b = "''https://x.example/''", OF prod.collapse [symmetric] sent_single [OF _ this]]
  show ?thesis by (simp add: new_client_def new_session_def getNetwork_def combine_urls_def URL_GET_BENEFICIARY_def js_simps)
qed

end
