(* ===== verification/Readiness.thy ===== *)
theory Readiness
  imports AuthSession Endpoints
begin

text \<open>
  The client object the constructor of \<open>src/lib/index.js\<close> returns (lines
  134-161). With \<open>initialized\<close> unset or truthy, every method but the two handshake
  steps is wrapped by \<open>buffer-methods\<close>: a call made before \<open>resolve()\<close> is queued,
  \<open>resolve()\<close> replays the queue in call order once, and later calls run at once;
  \<open>resolve()\<close> is called when the handshake loop succeeds. With \<open>initialized\<close>
  falsy (but defined) the raw methods are returned and no handshake is started.
  \<open>buffer-methods\<close> is a library; its queue is modelled from the specification (a
  FIFO flushed exactly once). The client is a state machine whose events are a method
  call and one handshake cycle (the timer-driven retries interleave with the caller's
  calls in any order); the delays are not part of this model. The theory also holds
  the generic lifting of a per-request property to every reachable state
  (\<open>request_inv\<close>, \<open>reachable_inv\<close>, \<open>reachable_inv_guarded\<close>) and the fact
  that the hooks never change.
\<close>

datatype api_call =
    ValidateCall
  | AuthenticateCall
  | VerifyTokenCall
  | ValidateBeneficiaryCall jsval
  | AddBeneficiaryCall jsval
  | GetBeneficiaryCall jsval
  | GetBeneficiaryIdCall jsval
  | GetBeneficiariesCall jsval
  | RemoveBeneficiaryCall jsval
  | RequestTransferCall jsval
  | GetBalanceCall
  | ListTransfersCall jsval
  | GetTransferCall jsval

datatype call_result = StatusResult "status option" | CallbackResult "callback_call option"

definition callback_result :: "callback_call option \<times> client \<Rightarrow> call_result \<times> client" where
  "callback_result rc = (CallbackResult (fst rc), snd rc)"

fun run_call :: "transport \<Rightarrow> api_call \<Rightarrow> client \<Rightarrow> call_result \<times> client" where
  "run_call tr ValidateCall c = (StatusResult (validate_state (Some (state c))), c)"
| "run_call tr AuthenticateCall c = callback_result (authenticate tr c)"
| "run_call tr VerifyTokenCall c = callback_result (verifyToken tr c)"
| "run_call tr (ValidateBeneficiaryCall p) c = callback_result (validateBeneficiary tr p c)"
| "run_call tr (AddBeneficiaryCall p) c = callback_result (addBeneficiary tr p c)"
| "run_call tr (GetBeneficiaryCall p) c = callback_result (getBeneficiary tr p c)"
| "run_call tr (GetBeneficiaryIdCall p) c = callback_result (getBeneficiaryId tr p c)"
| "run_call tr (GetBeneficiariesCall p) c = callback_result (getBeneficiaries tr p c)"
| "run_call tr (RemoveBeneficiaryCall p) c = callback_result (removeBeneficiary tr p c)"
| "run_call tr (RequestTransferCall p) c = callback_result (requestTransfer tr p c)"
| "run_call tr GetBalanceCall c = callback_result (getBalance tr c)"
| "run_call tr (ListTransfersCall p) c = callback_result (listTransfers tr p c)"
| "run_call tr (GetTransferCall p) c = callback_result (getTransfer tr p c)"

text \<open>The two methods \<open>_.omit\<close> removes from the buffered object.\<close>

fun handshake_call :: "api_call \<Rightarrow> bool" where
  "handshake_call AuthenticateCall = True"
| "handshake_call VerifyTokenCall = True"
| "handshake_call _ = False"

text \<open>The ten endpoint methods (\<open>validate\<close> and the handshake steps excluded).\<close>

fun endpoint_call :: "api_call \<Rightarrow> bool" where
  "endpoint_call ValidateCall = False"
| "endpoint_call AuthenticateCall = False"
| "endpoint_call VerifyTokenCall = False"
| "endpoint_call _ = True"

fun run_calls :: "transport \<Rightarrow> api_call list \<Rightarrow> client \<Rightarrow> (api_call \<times> call_result) list \<times> client" where
  "run_calls tr [] c = ([], c)"
| "run_calls tr (x # xs) c =
     (let (r, c1) = run_call tr x c; (rs, c2) = run_calls tr xs c1 in ((x, r) # rs, c2))"

subsection \<open>The client state machine\<close>

record cashfree =
  cli :: client
  buffered :: bool
  ready :: bool
  stalled :: bool
  pending :: "api_call list"
  executed :: "(api_call \<times> call_result) list"
  attempt :: nat

text \<open>\<open>_.isUndefined(initialized) ? true : initialized\<close>, then \<open>if (!isInitialized)\<close>.\<close>

definition is_initialized :: "jsval \<Rightarrow> bool" where
  "is_initialized initialized \<longleftrightarrow> initialized = JUndef \<or> truthy initialized"

text \<open>The constructor's \<open>axiosConfig\<close>, session and \<open>initialized\<close>.\<close>

definition cashfree_new :: "jsval \<Rightarrow> session \<Rightarrow> jsval \<Rightarrow> cashfree" where
  "cashfree_new axiosConfig st initialized =
     \<lparr>cli = new_client axiosConfig st, buffered = is_initialized initialized,
      ready = \<not> is_initialized initialized, stalled = False,
      pending = [], executed = [], attempt = 0\<rparr>"

datatype event = Call api_call | HandshakeCycle

text \<open>
  A method the returned object has: all of them in raw mode, all but the two handshake
  steps in buffered mode (calling a missing one is a \<open>TypeError\<close> at the call site
  and changes nothing).
\<close>

definition exposed :: "bool \<Rightarrow> api_call \<Rightarrow> bool" where
  "exposed b x \<longleftrightarrow> \<not> (b \<and> handshake_call x)"

text \<open>
  A call runs at once when the client is ready and is queued otherwise. A handshake
  cycle is \<open>async.series([authenticate, verifyToken])\<close>: on success the queue is
  replayed and the client becomes ready; on failure the next cycle is due (its delay
  is \<open>retry_delay\<close>); a cycle that never completes stalls the loop for good.
\<close>

fun cashfree_step :: "transport \<Rightarrow> event \<Rightarrow> cashfree \<Rightarrow> cashfree" where
  "cashfree_step tr (Call x) s =
     (if \<not> exposed (buffered s) x then s
      else if ready s then (let (r, c1) = run_call tr x (cli s) in s\<lparr>cli := c1, executed := executed s @ [(x, r)]\<rparr>)
      else s\<lparr>pending := pending s @ [x]\<rparr>)"
| "cashfree_step tr HandshakeCycle s =
     (if ready s \<or> stalled s then s
      else (case auth_series tr (cli s) of
              (None, c1) \<Rightarrow> s\<lparr>cli := c1, stalled := True\<rparr>
            | (Some SeriesOk, c1) \<Rightarrow>
                (let (rs, c2) = run_calls tr (pending s) c1
                 in s\<lparr>cli := c2, ready := True, pending := [], executed := executed s @ rs\<rparr>)
            | (Some (SeriesErr e), c1) \<Rightarrow> s\<lparr>cli := c1, attempt := Suc (attempt s)\<rparr>))"

inductive reachable :: "transport \<Rightarrow> jsval \<Rightarrow> session \<Rightarrow> jsval \<Rightarrow> cashfree \<Rightarrow> bool"
  for tr axiosConfig st initialized where
  init: "reachable tr axiosConfig st initialized (cashfree_new axiosConfig st initialized)"
| step: "reachable tr axiosConfig st initialized s \<Longrightarrow> reachable tr axiosConfig st initialized (cashfree_step tr ev s)"

fun calls_of :: "event list \<Rightarrow> api_call list" where
  "calls_of [] = []"
| "calls_of (Call x # es) = x # calls_of es"
| "calls_of (HandshakeCycle # es) = calls_of es"

fun run_events :: "transport \<Rightarrow> event list \<Rightarrow> cashfree \<Rightarrow> cashfree" where
  "run_events tr [] s = s"
| "run_events tr (e # es) s = run_events tr es (cashfree_step tr e s)"

text \<open>The two requests of the handshake, by their URL.\<close>

definition handshake_urls :: "jsval set" where
  "handshake_urls = {JStr URL_AUTHENTICATE, JStr URL_VERIFY_TOKEN}"

text \<open>The invariant of buffered mode.\<close>

definition ready_inv :: "cashfree \<Rightarrow> bool" where
  "ready_inv s \<longleftrightarrow>
     (if ready s then pending s = []
      else executed s = [] \<and> (\<forall>x\<in>set (sent (cli s)). js_prop x ''url'' \<in> handshake_urls))"

text \<open>The state of a client whose pre-hook never calls back.\<close>

definition hung_inv :: "hook \<Rightarrow> cashfree \<Rightarrow> bool" where
  "hung_inv h s \<longleftrightarrow> \<not> ready s \<and> executed s = [] \<and> preHook (state (cli s)) = Some h"

text \<open>
  A property of the client that every request made by a method of
  \<open>src/lib/index.js\<close> preserves holds in every reachable state of the object the
  constructor returns. The methods' request configs are object literals with neither a
  \<open>networkId\<close> nor a \<open>timeout\<close>, and their handlers change only the session and the
  \<open>Authorization\<close> header; \<open>request_inv P\<close> says that \<open>P\<close> survives any such
  request, and the lemmas below lift it through \<open>run_call\<close>, the handshake, the
  replay of the queue and \<open>cashfree_step\<close>.
\<close>

definition method_config :: "jsval \<Rightarrow> bool" where
  "method_config cfg \<longleftrightarrow>
     is_object cfg \<and> \<not> has_own (obj_props cfg) ''networkId'' \<and> \<not> has_own (obj_props cfg) ''timeout''"

definition handler_frame :: "handler \<Rightarrow> bool" where
  "handler_frame h \<longleftrightarrow>
     (\<forall>d x. sent (snd (h d x)) = sent x \<and> guid_next (snd (h d x)) = guid_next x
        \<and> defaults (snd (h d x)) = defaults x \<and> preHook (state (snd (h d x))) = preHook (state x))"

definition request_inv :: "(client \<Rightarrow> bool) \<Rightarrow> bool" where
  "request_inv P \<longleftrightarrow>
     (\<forall>tr cfg h c. method_config cfg \<longrightarrow> handler_frame h \<longrightarrow> P c \<longrightarrow> P (snd (call_api tr cfg h c)))"

subsection \<open>Lemmas\<close>

lemmas endpoint_defs = validateBeneficiary_def validateBeneficiary_handler_def addBeneficiary_def getBeneficiary_def
  getBeneficiaryId_def getBeneficiaries_def removeBeneficiary_def requestTransfer_def
  getBalance_def listTransfers_def getTransfer_def

lemma run_call_inv: "request_inv P \<Longrightarrow> P c \<Longrightarrow> P (snd (run_call tr x c))"
  by (cases x)
     (simp_all add: request_inv_def callback_result_def endpoint_defs authenticate_def verifyToken_def
        method_config_def handler_frame_def authenticate_config_def verifyToken_config_def
        authenticate_handler_def verifyToken_handler_def Let_def)

lemma auth_series_inv:
  assumes "request_inv P" "auth_series tr c = (r, c')" "P c"
  shows "P c'"
proof -
  have a: "P (snd (authenticate tr c))"
    using run_call_inv [OF assms(1,3), of tr AuthenticateCall] by (simp add: callback_result_def)
  then have v: "P (snd (verifyToken tr (snd (authenticate tr c))))"
    using run_call_inv [OF assms(1), of "snd (authenticate tr c)" tr VerifyTokenCall] by (simp add: callback_result_def)
  have "c' = snd (authenticate tr c) \<or> c' = snd (verifyToken tr (snd (authenticate tr c)))"
    using assms(2) by (auto simp: auth_series_def split: prod.splits option.splits callback_call.splits if_splits)
  with a v show ?thesis by blast
qed

lemma run_calls_inv: "request_inv P \<Longrightarrow> P c \<Longrightarrow> P (snd (run_calls tr xs c))"
proof (induction xs arbitrary: c)
  case (Cons x xs)
  then have "P (snd (run_calls tr xs (snd (run_call tr x c))))"
    by (simp add: run_call_inv)
  then show ?case by (simp add: case_prod_beta)
qed simp

lemma cashfree_step_inv:
  assumes "request_inv P" "P (cli s)"
  shows "P (cli (cashfree_step tr e s))"
proof (cases e)
  case HandshakeCycle
  obtain r c1 where ser: "auth_series tr (cli s) = (r, c1)" by force
  have "P c1" by (rule auth_series_inv [OF assms(1) ser assms(2)])
  with assms(2) HandshakeCycle ser run_calls_inv [OF assms(1) this, of tr "pending s"] show ?thesis
    by (auto simp: case_prod_beta split: option.splits series_result.splits)
qed (use assms in \<open>auto simp: case_prod_beta run_call_inv\<close>)

lemma reachable_inv:
  assumes "request_inv P" "P (new_client axiosConfig st)" "reachable tr axiosConfig st initialized s"
  shows "P (cli s)"
  using assms(3)
proof (induction rule: reachable.induct)
  case init
  then show ?case using assms(2) by (simp add: cashfree_new_def)
next
  case (step s ev)
  then show ?case using cashfree_step_inv [OF assms(1)] by blast
qed

lemma call_api_frame:
  assumes "handler_frame h" "axios_request tr cfg c = (p, c1)"
  shows "sent (snd (call_api tr cfg h c)) = sent c1 \<and> guid_next (snd (call_api tr cfg h c)) = guid_next c1
    \<and> defaults (snd (call_api tr cfg h c)) = defaults c1
    \<and> preHook (state (snd (call_api tr cfg h c))) = preHook (state c1)"
  using assms by (auto simp: handler_frame_def call_api_def wrapResponse_def Let_def case_prod_beta split: js_promise.splits)

text \<open>The hooks are fixed at construction: no request or handler changes them.\<close>

lemma request_inv_preHook: "request_inv (\<lambda>c. preHook (state c) = hk)"
  unfolding request_inv_def
proof (intro allI impI)
  fix tr cfg h and c :: client
  assume "handler_frame h" "preHook (state c) = hk"
  moreover obtain p c1 where req: "axios_request tr cfg c = (p, c1)" by force
  ultimately show "preHook (state (snd (call_api tr cfg h c))) = hk"
    using call_api_frame axios_request_frame [OF req] by metis
qed

text \<open>
  A property that survives every method request made while the pre-hook does not
  write to the config holds in every reachable state of an object built with such a
  pre-hook.
\<close>

lemma reachable_inv_guarded:
  assumes step: "\<And>tr cfg h c. method_config cfg \<Longrightarrow> handler_frame h \<Longrightarrow>
      never_rewrites (preHook (state c)) \<Longrightarrow> P c \<Longrightarrow> P (snd (call_api tr cfg h c))"
    and nr: "never_rewrites (preHook st)" and init: "P (new_client axiosConfig st)"
    and r: "reachable tr axiosConfig st initialized s"
  shows "P (cli s)"
proof -
  have "request_inv (\<lambda>c. preHook (state c) = preHook st \<and> P c)"
    unfolding request_inv_def
  proof (intro allI impI)
    fix tr cfg h and c :: client
    assume m: "method_config cfg" and f: "handler_frame h" and i: "preHook (state c) = preHook st \<and> P c"
    then have "preHook (state (snd (call_api tr cfg h c))) = preHook st"
      using request_inv_preHook [unfolded request_inv_def] by blast
    moreover have "P (snd (call_api tr cfg h c))" using step [OF m f] i nr by simp
    ultimately show "preHook (state (snd (call_api tr cfg h c))) = preHook st \<and> P (snd (call_api tr cfg h c))" ..
  qed
  from reachable_inv [OF this _ r] init show ?thesis by (simp add: new_client_def)
qed

lemma run_call_preHook: "preHook (state (snd (run_call tr x c))) = preHook (state c)"
  by (rule run_call_inv [OF request_inv_preHook]) (rule refl)

lemma reachable_preHook: "reachable tr axiosConfig st initialized s \<Longrightarrow> preHook (state (cli s)) = preHook st"
  by (rule reachable_inv [OF request_inv_preHook]) (simp add: new_client_def)

lemma call_api_url:
  assumes "\<And>d x. sent (snd (h d x)) = sent x" "call_api tr cfg h c = (r, c')"
    "never_rewrites (preHook (state c))"
    and "has_own (obj_props cfg) ''url''" "\<not> typeof_object (js_prop cfg ''url'')"
  shows "\<exists>xs. sent c' = sent c @ xs \<and> (\<forall>x\<in>set xs. js_prop x ''url'' = js_prop cfg ''url'')"
  using call_api_sends [OF assms(1-3)]
proof
  assume "sent c' = sent c"
  then show ?thesis by (intro exI [of _ "[]"]) simp
qed (auto simp: tracked_config_prop assms(4,5))

lemma auth_series_urls:
  assumes "auth_series tr c = (r, c')" "never_rewrites (preHook (state c))"
  shows "\<exists>xs. sent c' = sent c @ xs \<and> (\<forall>x\<in>set xs. js_prop x ''url'' \<in> handshake_urls)"
proof -
  have ha: "sent (snd (authenticate_handler d x)) = sent x" for d x
    by (simp add: authenticate_handler_def Let_def)
  have hv: "sent (snd (verifyToken_handler d x)) = sent x" for d x
    by (simp add: verifyToken_handler_def)
  obtain r1 c1 where a: "authenticate tr c = (r1, c1)" by force
  obtain r2 c2 where v: "verifyToken tr c1 = (r2, c2)" by force
  have "preHook (state c1) = preHook (state c)"
    using run_call_preHook [of tr AuthenticateCall c] a by (simp add: callback_result_def)
  then have nr1: "never_rewrites (preHook (state c1))" using assms(2) by simp
  from call_api_url [OF ha a [unfolded authenticate_def] assms(2)] obtain xs where
    x1: "sent c1 = sent c @ xs" "\<forall>x\<in>set xs. js_prop x ''url'' \<in> handshake_urls"
    by (auto simp: authenticate_config_def handshake_urls_def)
  from call_api_url [OF hv v [unfolded verifyToken_def] nr1] obtain ys where
    x2: "sent c2 = sent c1 @ ys" "\<forall>x\<in>set ys. js_prop x ''url'' \<in> handshake_urls"
    by (auto simp: verifyToken_config_def handshake_urls_def)
  have "c' = c1 \<or> c' = c2"
    using a v assms(1) by (auto simp: auth_series_def split: option.splits callback_call.splits if_splits)
  with x1 x2 show ?thesis by (metis append.assoc Un_iff set_append)
qed

lemma run_calls_fst [simp]: "map fst (fst (run_calls tr xs c)) = xs"
proof (induction xs arbitrary: c)
  case (Cons x xs)
  then show ?case by (simp split: prod.split) (metis fst_conv)
qed simp

lemma buffered_step [simp]: "buffered (cashfree_step tr e s) = buffered s"
  by (cases e) (auto split: prod.splits option.splits series_result.splits)

lemma ready_inv_step:
  assumes inv: "ready_inv s" and nr: "never_rewrites (preHook (state (cli s)))"
  shows "ready_inv (cashfree_step tr e s)"
proof (cases e)
  case (Call x)
  then show ?thesis using inv by (auto simp: ready_inv_def split: prod.splits)
next
  case HandshakeCycle
  obtain r c1 where ser: "auth_series tr (cli s) = (r, c1)" by force
  obtain rs c2 where rc: "run_calls tr (pending s) c1 = (rs, c2)" by force
  from auth_series_urls [OF ser nr] obtain xs where
    "sent c1 = sent (cli s) @ xs" "\<forall>x\<in>set xs. js_prop x ''url'' \<in> handshake_urls" by blast
  with inv HandshakeCycle ser rc show ?thesis
    by (auto simp: ready_inv_def split: option.splits series_result.splits)
qed

lemma reachable_ready_inv:
  "reachable tr axiosConfig st initialized s \<Longrightarrow> is_initialized initialized \<Longrightarrow>
     never_rewrites (preHook st) \<Longrightarrow> ready_inv s"
proof (induction rule: reachable.induct)
  case init
  then show ?case by (simp add: ready_inv_def cashfree_new_def new_client_def)
next
  case (step s ev)
  then show ?case by (simp add: ready_inv_step reachable_preHook)
qed

text \<open>
  C19: in buffered mode, as long as the client is not ready no method has run, and
  every request that has reached the network is a handshake request (authenticate or
  verify-token): business requests never overtake the login. The pre-hook must not
  write to the config it is passed: it could redirect a handshake request elsewhere.
\<close>

theorem no_business_request_before_ready:
  assumes "is_initialized initialized" "reachable tr axiosConfig st initialized s" "\<not> ready s"
    and "never_rewrites (preHook st)"
  shows "executed s = [] \<and> set (map (\<lambda>x. js_prop x ''url'') (sent (cli s))) \<subseteq> handshake_urls"
  using reachable_ready_inv [OF assms(2,1,4)] assms(3) by (auto simp: ready_inv_def)

lemma axios_request_hangs:
  assumes "preHook (state c) = Some h" "\<forall>x. h x = Hangs"
  shows "axios_request tr cfg c = (Pending, c\<lparr>guid_next := snd (addNetworkTracking (axios_prepare (defaults c) (authorization c) cfg) [''networkId''] (guid_next c))\<rparr>)"
  using assms
  by (simp add: axios_request_def request_fulfilled_tracked promisify_eval response_stage_def split: prod.splits)

lemma auth_series_hangs:
  assumes "preHook (state c) = Some h" "\<forall>x. h x = Hangs"
  shows "fst (auth_series tr c) = None \<and> state (snd (auth_series tr c)) = state c"
  using axios_request_hangs [OF assms]
  by (simp add: auth_series_def authenticate_def call_api_def)

lemma hung_inv_step:
  assumes "\<forall>x. h x = Hangs" "hung_inv h s"
  shows "hung_inv h (cashfree_step tr e s)"
proof (cases e)
  case HandshakeCycle
  obtain c1 where "auth_series tr (cli s) = (None, c1)" "state c1 = state (cli s)"
    using auth_series_hangs [of "cli s" h tr] assms by (simp add: hung_inv_def) (metis prod.collapse)
  with HandshakeCycle assms(2) show ?thesis by (simp add: hung_inv_def)
qed (use assms(2) in \<open>auto simp: hung_inv_def split: prod.splits\<close>)

text \<open>
  C21: a pre-hook that never calls back stalls the handshake for good: whatever
  happens next, the client never becomes ready and no buffered call ever runs.
\<close>

theorem hanging_prehook_blocks_forever:
  assumes "is_initialized initialized" "preHook st = Some h" "\<forall>x. h x = Hangs"
  shows "\<not> ready (run_events tr es (cashfree_new axiosConfig st initialized))
    \<and> executed (run_events tr es (cashfree_new axiosConfig st initialized)) = []"
proof -
  have "hung_inv h (run_events tr es s)" if "hung_inv h s" for s
    using that by (induction es arbitrary: s) (simp_all add: hung_inv_step [OF assms(3)])
  moreover have "hung_inv h (cashfree_new axiosConfig st initialized)"
    using assms(1,2) by (simp add: hung_inv_def cashfree_new_def new_client_def)
  ultimately show ?thesis by (simp add: hung_inv_def)
qed

lemma call_api_pure:
  assumes "\<And>d x. snd (h d x) = x"
  shows "state (snd (call_api tr cfg h c)) = state c \<and> (\<exists>ys. sent (snd (call_api tr cfg h c)) = sent c @ ys)"
proof -
  obtain p c1 where req: "axios_request tr cfg c = (p, c1)" by force
  have w: "snd (wrapResponse h r c1) = c1" for r
    using assms by (simp add: wrapResponse_def Let_def)
  have "snd (call_api tr cfg h c) = c1"
    using req w by (auto simp: call_api_def case_prod_beta split: js_promise.splits)
  moreover have "\<exists>ys. sent c1 = sent c @ ys" using axios_request_sent [OF req] by blast
  ultimately show ?thesis using axios_request_frame [OF req] by simp
qed

lemma run_call_pure:
  assumes "\<not> handshake_call x"
  shows "state (snd (run_call tr x c)) = state c \<and> (\<exists>ys. sent (snd (run_call tr x c)) = sent c @ ys)"
  using assms by (cases x) (simp_all add: callback_result_def endpoint_defs call_api_pure Let_def)

lemma run_calls_pure:
  assumes "\<forall>x\<in>set xs. \<not> handshake_call x"
  shows "state (snd (run_calls tr xs c)) = state c \<and> (\<exists>ys. sent (snd (run_calls tr xs c)) = sent c @ ys)
    \<and> (\<forall>r. (ValidateCall, r) \<in> set (fst (run_calls tr xs c)) \<longrightarrow> r = StatusResult (validate_state (Some (state c))))"
  using assms
proof (induction xs arbitrary: c)
  case (Cons x xs)
  obtain r c1 where rc: "run_call tr x c = (r, c1)" by force
  obtain rs c2 where rcs: "run_calls tr xs c1 = (rs, c2)" by force
  have p: "state c1 = state c" "\<exists>ys. sent c1 = sent c @ ys"
    using run_call_pure [of x tr c] Cons.prems rc by simp_all
  have v: "x = ValidateCall \<Longrightarrow> r = StatusResult (validate_state (Some (state c)))"
    using rc by auto
  from Cons.IH [of c1] Cons.prems rcs p v rc show ?case by auto
qed simp

lemma run_events_append [simp]: "run_events tr (es @ es') s = run_events tr es' (run_events tr es s)"
  by (induction es arbitrary: s) simp_all

lemma run_events_queue:
  assumes "\<not> ready s" "\<not> stalled s" "\<forall>x\<in>set xs. \<not> handshake_call x"
  shows "run_events tr (map Call xs) s = s\<lparr>pending := pending s @ xs\<rparr>"
  using assms by (induction xs arbitrary: s) (simp_all add: exposed_def)

text \<open>
  C20: calls made before the first handshake cycle are replayed, in call order, when a
  handshake succeeds: the client is ready, the two first network requests are the
  handshake's, and a buffered \<open>validate()\<close> reports \<open>TOKEN_VERIFIED\<close>.
\<close>

theorem deferred_calls_run_after_handshake:
  assumes "is_initialized initialized" "preHook st = None" "postHook st = None"
    and "provider_good_from 0 tr" "credentials_present st" "\<forall>x\<in>set xs. \<not> handshake_call x"
  shows "ready (run_events tr (map Call xs @ [HandshakeCycle]) (cashfree_new axiosConfig st initialized))
    \<and> map fst (executed (run_events tr (map Call xs @ [HandshakeCycle]) (cashfree_new axiosConfig st initialized))) = xs
    \<and> set (map (\<lambda>x. js_prop x ''url'') (take 2 (sent (cli (run_events tr (map Call xs @ [HandshakeCycle]) (cashfree_new axiosConfig st initialized))))))
          \<subseteq> handshake_urls
    \<and> set (filter (\<lambda>e. fst e = ValidateCall) (executed (run_events tr (map Call xs @ [HandshakeCycle]) (cashfree_new axiosConfig st initialized))))
          \<subseteq> {(ValidateCall, StatusResult (Some TOKEN_VERIFIED))}"
proof -
  let ?s0 = "cashfree_new axiosConfig st initialized"
  have q: "run_events tr (map Call xs) ?s0 = ?s0\<lparr>pending := xs\<rparr>"
    using run_events_queue [of ?s0 xs tr] assms(1,6) by (simp add: cashfree_new_def)
  let ?c = "new_client axiosConfig st"
  have h: "preHook (state ?c) = None" "postHook (state ?c) = None" using assms(2,3) by (simp_all add: new_client_def)
  have g: "fst (auth_series tr ?c) = Some SeriesOk" "length (sent (snd (auth_series tr ?c))) = 2"
    using auth_series_good [OF h assms(4)] by (simp_all add: new_client_def)
  obtain c1 where ser: "auth_series tr ?c = (Some SeriesOk, c1)" and len: "length (sent c1) = 2"
    using g by (metis prod.collapse)
  have nt: "never_throws (postHook (state ?c))" using assms(3) by (simp add: never_throws_def new_client_def)
  from auth_series_step [OF nt ser] have verified:
    "validate_state (Some (state c1)) = Some TOKEN_VERIFIED"
    using assms(5) by (simp add: validate_state_def credentials_present_def session_config_def new_client_def)
  from auth_series_urls [OF ser] h(1) have u: "\<forall>x\<in>set (sent c1). js_prop x ''url'' \<in> handshake_urls"
    by (auto simp: new_client_def)
  obtain rs c2 where rc: "run_calls tr xs c1 = (rs, c2)" by force
  from run_calls_pure [OF assms(6), of tr c1] rc obtain ys where
    c2: "sent c2 = sent c1 @ ys" "\<forall>r. (ValidateCall, r) \<in> set rs \<longrightarrow> r = StatusResult (validate_state (Some (state c1)))"
    by auto
  have "take 2 (sent c2) = sent c1" using c2(1) len by simp
  moreover have "map fst rs = xs" using run_calls_fst [of tr xs c1] rc by simp
  ultimately show ?thesis using q ser rc u c2(2) verified assms(1)
    by (auto simp: cashfree_new_def)
qed

text \<open>
  C26: a transport failure is never swallowed by an endpoint method: with no hooks
  installed, when the request fails at the network the method's callback receives an
  error object carrying the transport's message, and no value.
\<close>

theorem transport_failure_reaches_callback:
  assumes "endpoint_call x" "preHook (state c) = None" "postHook (state c) = None"
    and "tr (length (sent c)) = (\<lambda>_. NetFailure msg)"
  shows "\<exists>e. fst (run_call tr x c) = CallbackResult (Some (Callback e JUndef)) \<and> is_object e \<and> js_prop e ''message'' = msg"
  using assms by (cases x) (simp_all add: callback_result_def endpoint_defs call_api_net_failure)

lemma call_api_auth_frame:
  assumes "\<And>d x. authorization (snd (h d x)) = authorization x \<and> token (state (snd (h d x))) = token (state x)"
  shows "authorization (snd (call_api tr cfg h c)) = authorization c
    \<and> token (state (snd (call_api tr cfg h c))) = token (state c)"
proof -
  obtain p c1 where req: "axios_request tr cfg c = (p, c1)" by force
  have "authorization (snd (call_api tr cfg h c)) = authorization c1
      \<and> token (state (snd (call_api tr cfg h c))) = token (state c1)"
    using req assms by (auto simp: call_api_def wrapResponse_def Let_def case_prod_beta split: js_promise.splits)
  with axios_request_frame [OF req] show ?thesis by simp
qed

lemma run_call_auth_frame:
  "x \<noteq> AuthenticateCall \<Longrightarrow> authorization (snd (run_call tr x c)) = authorization c
    \<and> token (state (snd (run_call tr x c))) = token (state c)"
  by (cases x) (simp_all add: callback_result_def endpoint_defs verifyToken_def verifyToken_handler_def
      call_api_auth_frame Let_def)

text \<open>
  C35: in raw mode (\<open>initialized\<close> falsy) nothing authenticates on the caller's
  behalf: every call runs at once, and until the caller itself calls \<open>authenticate\<close>
  no token is stored and the library never sets the \<open>Authorization\<close> default
  header (a header the caller supplies through \<open>axiosConfig\<close> is its own).
\<close>

theorem raw_mode_no_token_until_authenticate:
  assumes "\<not> is_initialized initialized" "AuthenticateCall \<notin> set (calls_of es)"
  shows "ready (run_events tr es (cashfree_new axiosConfig st initialized))
    \<and> authorization (cli (run_events tr es (cashfree_new axiosConfig st initialized))) = JUndef
    \<and> token (state (cli (run_events tr es (cashfree_new axiosConfig st initialized)))) = token st"
proof -
  have "ready (run_events tr es s) \<and> authorization (cli (run_events tr es s)) = authorization (cli s)
      \<and> token (state (cli (run_events tr es s))) = token (state (cli s))"
    if "ready s" "AuthenticateCall \<notin> set (calls_of es)" for s
    using that
  proof (induction es arbitrary: s)
    case (Cons e es)
    then have n: "AuthenticateCall \<notin> set (calls_of [e])" "AuthenticateCall \<notin> set (calls_of es)"
      by (cases e; simp)+
    have "ready (cashfree_step tr e s) \<and> authorization (cli (cashfree_step tr e s)) = authorization (cli s)
      \<and> token (state (cli (cashfree_step tr e s))) = token (state (cli s))"
      using Cons.prems(1) n(1) run_call_auth_frame [of _ tr "cli s"]
      by (cases e) (auto simp: case_prod_beta)
    with Cons.IH [OF _ n(2)] show ?case by simp
  qed simp
  from this [of "cashfree_new axiosConfig st initialized"] assms show ?thesis
    by (simp add: cashfree_new_def new_client_def)
qed

text \<open>
  C36: \<open>authenticate\<close> never resets \<open>tokenVerified\<close>. Called again on a verified
  session (raw mode exposes it to the caller), it stores the new token and the session
  still validates as \<open>TOKEN_VERIFIED\<close>, although \<open>verifyToken\<close> never ran for
  that token.
\<close>

theorem reauthentication_keeps_verified:
  assumes "preHook (state c) = None" "postHook (state c) = None"
    and "tokenVerified (state c) = JBool True" "credentials_present (state c)"
    and "tr (length (sent c)) = (\<lambda>_. NetResponse st body)" "200 \<le> st" "st < 300"
    and "is_object body" "validateSubCode (js_get body [''subCode''])"
    and "truthy (js_get body [''data'', ''token''])"
  shows "token (state (snd (authenticate tr c))) = js_get body [''data'', ''token'']
    \<and> validate_state (Some (state (snd (authenticate tr c)))) = Some TOKEN_VERIFIED"
proof -
  have "state (snd (authenticate tr c)) = (state c)\<lparr>token := js_get body [''data'', ''token'']\<rparr>"
    using call_api_2xx_valid [where c = c and cfg = "authenticate_config (state c)" and tr = tr
      and st = st and body = body and h = authenticate_handler,
      OF assms(1,2) assms(5-9)] assms(8,10)
    by (simp add: authenticate_def authenticate_handler_def js_get_body_stamped Let_def del: js_get_single)
  with assms(3,4,10) show ?thesis
    by (simp add: validate_state_def credentials_present_def)
qed

subsection \<open>Witnesses\<close>

theorem no_business_request_before_ready_witness:
  "executed (cashfree_step (\<lambda>_ _. NetFailure (JStr ''down'')) HandshakeCycle
      (cashfree_new JUndef (new_session (JStr ''id'') (JStr ''secret'') None None) JUndef)) = [] \<and>
   set (map (\<lambda>x. js_prop x ''url'') (sent (cli (cashfree_step (\<lambda>_ _. NetFailure (JStr ''down'')) HandshakeCycle
      (cashfree_new JUndef (new_session (JStr ''id'') (JStr ''secret'') None None) JUndef))))) \<subseteq> handshake_urls"
proof -
  have r: "reachable (\<lambda>_ _. NetFailure (JStr ''down'')) JUndef (new_session (JStr ''id'') (JStr ''secret'') None None) JUndef
      (cashfree_step (\<lambda>_ _. NetFailure (JStr ''down'')) HandshakeCycle
        (cashfree_new JUndef (new_session (JStr ''id'') (JStr ''secret'') None None) JUndef))"
    by (intro reachable.step reachable.init)
  have n: "\<not> ready (cashfree_step (\<lambda>_ _. NetFailure (JStr ''down'')) HandshakeCycle
      (cashfree_new JUndef (new_session (JStr ''id'') (JStr ''secret'') None None) JUndef))"
    by (simp add: cashfree_new_def is_initialized_def run_eval split: prod.splits)
  have i: "is_initialized JUndef" by (simp add: is_initialized_def)
  have h: "never_rewrites (preHook (new_session (JStr ''id'') (JStr ''secret'') None None))"
    by (simp add: new_session_def)
  from no_business_request_before_ready [OF i r n h] show ?thesis .
qed

theorem deferred_calls_run_after_handshake_witness:
  "ready (run_events (\<lambda>_ _. NetResponse 200 (JObj [(''subCode'', JStr ''200''), (''data'', JObj [(''token'', JStr ''tok'')])]))
      (map Call [GetBalanceCall, ValidateCall] @ [HandshakeCycle]) (cashfree_new JUndef (new_session (JStr ''id'') (JStr ''secret'') None None) JUndef))
   \<and> map fst (executed (run_events (\<lambda>_ _. NetResponse 200 (JObj [(''subCode'', JStr ''200''), (''data'', JObj [(''token'', JStr ''tok'')])]))
      (map Call [GetBalanceCall, ValidateCall] @ [HandshakeCycle]) (cashfree_new JUndef (new_session (JStr ''id'') (JStr ''secret'') None None) JUndef))) = [GetBalanceCall, ValidateCall]
   \<and> set (map (\<lambda>x. js_prop x ''url'') (take 2 (sent (cli (run_events (\<lambda>_ _. NetResponse 200 (JObj [(''subCode'', JStr ''200''), (''data'', JObj [(''token'', JStr ''tok'')])]))
      (map Call [GetBalanceCall, ValidateCall] @ [HandshakeCycle]) (cashfree_new JUndef (new_session (JStr ''id'') (JStr ''secret'') None None) JUndef))))))
        \<subseteq> handshake_urls
   \<and> set (filter (\<lambda>e. fst e = ValidateCall) (executed (run_events (\<lambda>_ _. NetResponse 200 (JObj [(''subCode'', JStr ''200''), (''data'', JObj [(''token'', JStr ''tok'')])]))
      (map Call [GetBalanceCall, ValidateCall] @ [HandshakeCycle]) (cashfree_new JUndef (new_session (JStr ''id'') (JStr ''secret'') None None) JUndef))))
        \<subseteq> {(ValidateCall, StatusResult (Some TOKEN_VERIFIED))}"
proof -
  have h: "is_initialized JUndef" "preHook (new_session (JStr ''id'') (JStr ''secret'') None None) = None"
    "postHook (new_session (JStr ''id'') (JStr ''secret'') None None) = None"
    "credentials_present (new_session (JStr ''id'') (JStr ''secret'') None None)"
    "\<forall>x\<in>set [GetBalanceCall, ValidateCall]. \<not> handshake_call x"
    by (simp_all add: is_initialized_def new_session_def credentials_present_def)
  from deferred_calls_run_after_handshake [OF h(1-3) provider_good_example h(4,5)] show ?thesis .
qed

theorem hanging_prehook_blocks_forever_witness:
  "\<not> ready (run_events (\<lambda>_ _. NetFailure (JStr ''down'')) [Call GetBalanceCall, HandshakeCycle, HandshakeCycle]
      (cashfree_new JUndef (new_session (JStr ''id'') (JStr ''secret'') (Some (\<lambda>_. Hangs)) None) JUndef))
   \<and> executed (run_events (\<lambda>_ _. NetFailure (JStr ''down'')) [Call GetBalanceCall, HandshakeCycle, HandshakeCycle]
      (cashfree_new JUndef (new_session (JStr ''id'') (JStr ''secret'') (Some (\<lambda>_. Hangs)) None) JUndef)) = []"
proof -
  have h: "is_initialized JUndef" "preHook (new_session (JStr ''id'') (JStr ''secret'') (Some (\<lambda>_. Hangs)) None) = Some (\<lambda>_. Hangs)"
    "\<forall>x. (\<lambda>_. Hangs) x = Hangs"
    by (simp_all add: is_initialized_def new_session_def)
  from hanging_prehook_blocks_forever [OF h] show ?thesis .
qed

theorem transport_failure_reaches_callback_witness:
  "\<exists>e. fst (run_call (\<lambda>_ _. NetFailure (JStr ''ECONNRESET'')) (GetTransferCall (JObj [(''transferId'', JStr ''t1'')]))
      (new_client JUndef (new_session (JStr ''id'') (JStr ''secret'') None None)))
     = CallbackResult (Some (Callback e JUndef)) \<and> is_object e \<and> js_prop e ''message'' = JStr ''ECONNRESET''"
proof -
  have h: "endpoint_call (GetTransferCall (JObj [(''transferId'', JStr ''t1'')]))"
    "preHook (state (new_client JUndef (new_session (JStr ''id'') (JStr ''secret'') None None))) = None"
    "postHook (state (new_client JUndef (new_session (JStr ''id'') (JStr ''secret'') None None))) = None"
    "(\<lambda>_ _. NetFailure (JStr ''ECONNRESET'')) (length (sent (new_client JUndef (new_session (JStr ''id'') (JStr ''secret'') None None))))
       = (\<lambda>_. NetFailure (JStr ''ECONNRESET''))"
    by (simp_all add: new_client_def new_session_def)
  from transport_failure_reaches_callback [OF h] show ?thesis .
qed

theorem raw_mode_no_token_until_authenticate_witness:
  "ready (run_events (\<lambda>_ _. NetFailure (JStr ''down'')) [Call GetBalanceCall, Call VerifyTokenCall] (cashfree_new JUndef (new_session (JStr ''id'') (JStr ''secret'') None None) (JBool False)))
   \<and> authorization (cli (run_events (\<lambda>_ _. NetFailure (JStr ''down'')) [Call GetBalanceCall, Call VerifyTokenCall] (cashfree_new JUndef (new_session (JStr ''id'') (JStr ''secret'') None None) (JBool False)))) = JUndef
   \<and> token (state (cli (run_events (\<lambda>_ _. NetFailure (JStr ''down'')) [Call GetBalanceCall, Call VerifyTokenCall] (cashfree_new JUndef (new_session (JStr ''id'') (JStr ''secret'') None None) (JBool False)))))
       = token (new_session (JStr ''id'') (JStr ''secret'') None None)"
  by (rule raw_mode_no_token_until_authenticate) (simp_all add: is_initialized_def)

theorem reauthentication_keeps_verified_witness:
  "token (state (snd (authenticate (\<lambda>_ _. NetResponse 200 (JObj [(''subCode'', JStr ''200''), (''data'', JObj [(''token'', JStr ''tok2'')])])) (new_client JUndef ((new_session (JStr ''id'') (JStr ''secret'') None None)\<lparr>token := JStr ''tok1'', tokenVerified := JBool True\<rparr>))))) = JStr ''tok2''
   \<and> validate_state (Some (state (snd (authenticate (\<lambda>_ _. NetResponse 200 (JObj [(''subCode'', JStr ''200''), (''data'', JObj [(''token'', JStr ''tok2'')])])) (new_client JUndef ((new_session (JStr ''id'') (JStr ''secret'') None None)\<lparr>token := JStr ''tok1'', tokenVerified := JBool True\<rparr>)))))) = Some TOKEN_VERIFIED"
proof -
  have h: "preHook (state (new_client JUndef ((new_session (JStr ''id'') (JStr ''secret'') None None)\<lparr>token := JStr ''tok1'', tokenVerified := JBool True\<rparr>))) = None" "postHook (state (new_client JUndef ((new_session (JStr ''id'') (JStr ''secret'') None None)\<lparr>token := JStr ''tok1'', tokenVerified := JBool True\<rparr>))) = None"
    "tokenVerified (state (new_client JUndef ((new_session (JStr ''id'') (JStr ''secret'') None None)\<lparr>token := JStr ''tok1'', tokenVerified := JBool True\<rparr>))) = JBool True" "credentials_present (state (new_client JUndef ((new_session (JStr ''id'') (JStr ''secret'') None None)\<lparr>token := JStr ''tok1'', tokenVerified := JBool True\<rparr>)))"
    "(\<lambda>_ _. NetResponse 200 (JObj [(''subCode'', JStr ''200''), (''data'', JObj [(''token'', JStr ''tok2'')])])) (length (sent (new_client JUndef ((new_session (JStr ''id'') (JStr ''secret'') None None)\<lparr>token := JStr ''tok1'', tokenVerified := JBool True\<rparr>)))) = (\<lambda>_. NetResponse 200 (JObj [(''subCode'', JStr ''200''), (''data'', JObj [(''token'', JStr ''tok2'')])]))"
    "200 \<le> (200::int)" "(200::int) < 300" "is_object (JObj [(''subCode'', JStr ''200''), (''data'', JObj [(''token'', JStr ''tok2'')])])"
    "validateSubCode (js_get (JObj [(''subCode'', JStr ''200''), (''data'', JObj [(''token'', JStr ''tok2'')])]) [''subCode''])"
    "truthy (js_get (JObj [(''subCode'', JStr ''200''), (''data'', JObj [(''token'', JStr ''tok2'')])]) [''data'', ''token''])"
    by (simp_all add: new_client_def new_session_def credentials_present_def sub_code_eval js_get_cons)
  from reauthentication_keeps_verified [OF h] show ?thesis by (simp add: js_get_cons)
qed

end
