(* ===== verification/Spec2Isabelle.thy ===== *)
theory Spec2Isabelle
  imports Validate Pipeline Client AuthSession RetryLoop Endpoints Readiness
begin

text \<open>
  \<^bold>\<open>A verification development of node-cashfree\<close>, the Node.js client of the
  Cashfree payouts API (\<open>src/lib\<close>).

  \<^bold>\<open>The program.\<close> \<open>src/lib/index.js\<close> exports a constructor. It builds an axios
  instance (\<open>getNetwork\<close>), a session object \<open>state\<close> holding the credentials
  and the two optional hooks, installs the interceptors of
  \<open>src/lib/interceptors.js\<close> on the instance, and defines the methods:
  \<open>validate()\<close> (\<open>src/lib/validate.js\<close>), the two handshake steps
  \<open>authenticate\<close> and \<open>verifyToken\<close>, and ten endpoint methods, each a request
  whose answer goes through \<open>wrapResponse\<close> to a node-style callback. Unless
  \<open>initialized\<close> is given falsy, it returns the methods wrapped by
  \<open>buffer-methods\<close> (calls queue until \<open>resolve()\<close>) and starts the retry loop
  \<open>resolution\<close>, which runs both handshake steps with \<open>async.series\<close> and
  calls \<open>resolve()\<close> once they succeed. The interceptors stamp a correlation id
  (\<open>networkId\<close>) on every request and response, run the caller's pre-hook and
  post-hook through \<open>promisify\<close>, and reject a response whose provider
  \<open>subCode\<close> is not accepted. \<open>src/lib/constants.js\<close> holds the URLs, the
  statuses and the timeout; \<open>src/test.js\<close> is a script against the live API.

  \<^bold>\<open>The theories\<close>, bottom up:
  \<^item> \<open>Prelude\<close>: decimal printing of naturals (\<open>string_of_nat\<close>, injective, used
    for correlation ids) and the leading digit of a number (used by the delay).
  \<^item> \<open>JsValue\<close>: JavaScript values (\<open>jsval\<close>, integers for numbers, objects as
    association lists in insertion order), truthiness, and lodash's \<open>_.get\<close>,
    \<open>_.set\<close>, \<open>_.pick\<close> (\<open>js_get\<close>, \<open>js_set\<close>, \<open>js_pick\<close>) with their
    read-after-write lemmas.
  \<^item> \<open>Session\<close>: \<open>constants.js\<close> (\<open>status\<close>, the \<open>URL_*\<close> constants,
    \<open>TIMEOUT\<close>), the session record (\<open>state\<close> of index.js), the hook interface
    (\<open>hook_result\<close>: a hook calls back with an error, first writes to the
    \<open>data\<close> object it is passed and then calls back, throws, or never calls back),
    and \<open>validateSubCode\<close>.
  \<^item> \<open>Validate\<close>: \<open>validate.js\<close> as \<open>validate_state\<close>, an option-valued chain of
    its early returns (\<open>None\<close> would be falling off the end).
  \<^item> \<open>Interceptors\<close>: every function of \<open>interceptors.js\<close>: \<open>getNetworkId\<close>
    (the \<open>n\<close>-th fresh id; the supply index is threaded as state),
    \<open>addNetworkTracking\<close>, \<open>promisify\<close> (a promise is the state it settles
    in, \<open>Pending\<close> for never) with the hook's completion callback
    \<open>hook_callback\<close>, the four hooks and the two \<open>use\<close> calls; the aliasing
    write of \<open>postHook\<close> into the response body is \<open>stamp_body\<close>, and a hook's
    own writes to the object it was passed reach the caller through \<open>hook_data\<close>.
  \<^item> \<open>AxiosConfig\<close>: what axios does to a request config, from the code of
    the axios release the client was written against (0.18): the deep merge
    \<open>utils.merge\<close> (\<open>js_merge\<close>, a \<open>function\<close> terminating on the size of its
    second argument, with its read lemmas), and \<open>dispatchRequest\<close>'s rewrite of the
    config before it is sent (\<open>axios_wire\<close>: \<open>baseURL\<close> joined to a relative
    \<open>url\<close> by \<open>isAbsoluteURL\<close> and \<open>combineURLs\<close>, the header groups flattened).
  \<^item> \<open>Transport\<close>: \<open>getNetwork\<close> (the instance defaults
    \<open>_.extend({ timeout: TIMEOUT }, axiosConfig)\<close>), the axios request chain (the
    request config merged over \<open>{method: 'get'}\<close> and the instance defaults with
    the \<open>Authorization\<close> default header, \<open>axios_prepare\<close>; the request
    interceptor; dispatch, \<open>axios_dispatch\<close>, which sends \<open>axios_wire\<close> of the
    config and gives it to the answer; the response interceptor) and the
    \<open>client\<close> record built by
    \<open>new_client axiosConfig st\<close>: session, instance defaults, Authorization default
    header, id supply, and the log of requests that reached the network.
    The remote side is a \<open>transport\<close>, the answer to the \<open>k\<close>-th request.
  \<^item> \<open>Pipeline\<close>: properties of one request through the chain; the hook
    predicates \<open>never_throws\<close> and \<open>never_rewrites\<close> (the hook never writes
    to the object it is passed), the hypotheses of several claims.
  \<^item> \<open>Client\<close>: \<open>wrapResponse\<close>, \<open>call_api\<close> (request, \<open>then\<close>,
    \<open>catch\<close>), the handshake steps and the ten endpoint methods of index.js;
    the end of the \<open>then\<close> continuation as \<open>then_result\<close> (the callback called,
    or a value raised before it, which \<open>.catch\<close> hands to the callback);
    \<open>call_api_invocations\<close>, the list of the callback's invocations when the
    callback itself may throw, of which \<open>call_api\<close> is the first.
  \<^item> \<open>AuthSession\<close>: \<open>auth_series\<close>, the retry delay as the runtime computes it
    (\<open>retry_delay\<close>) and the retry loop \<open>resolution\<close> with fuel.
  \<^item> \<open>RetryLoop\<close>: the same loop without fuel, \<open>resolution_loop\<close>, a
    \<open>partial_function (option)\<close> whose \<open>None\<close> is a loop that never calls
    \<open>resolve()\<close>.
  \<^item> \<open>Endpoints\<close>: what the endpoint methods put on the wire (the config
    that reaches the network is the method's config with defaults and an id added).
  \<^item> \<open>Readiness\<close>: the returned object as a state machine (\<open>cashfree_step\<close>
    over method calls and handshake cycles, \<open>reachable\<close> as an inductive
    predicate) with the FIFO queue of \<open>buffer-methods\<close>; the constructor is
    \<open>cashfree_new axiosConfig st initialized\<close>. Its generic lemmas: a property
    every method's request preserves (\<open>request_inv\<close>) holds in every reachable
    state (\<open>reachable_inv\<close>), also when it needs the pre-hook not to write to the
    config (\<open>reachable_inv_guarded\<close>); the hooks never change.

  \<^bold>\<open>What is proved\<close> (claims C1-C40, each stated next to its theorem):
  \<open>validate()\<close> refines the specification's status table (C1); once a token is
  stored, every request but \<open>authenticate\<close>'s reaches the network with its
  \<open>Authorization\<close> header (C2); a pre-hook veto keeps the request off the network
  (C3) but the rejection reaches the caller with a second fresh id (C4); otherwise the
  settled result carries the id of the request sent (C5); a rejected sub-code is an
  error (C6); the handshake steps' effects on success and on a missing token (C7, C8);
  \<open>wrapResponse\<close>'s own failure branch is dead behind the interceptors (C9) and an
  empty body becomes a \<open>TypeError\<close> (C10); the delay doubles up to attempt 22 (C11)
  and collapses to 1-9 ms from attempt 23 (C12); the retry loop keeps the token/header
  invariant (C13), readiness means \<open>TOKEN_VERIFIED\<close> (C14), the schedule is
  \<open>retry_delay 1, 2, ...\<close> (C15), the loop ends \<open>Ready\<close> once the provider answers
  well (C16) after two requests (C17); \<open>validateBeneficiary\<close> turns an answer with
  \<open>data: null\<close> into a single \<open>TypeError\<close> callback (C18); no business request
  precedes readiness (C19), buffered calls are replayed after the handshake (C20), and a
  hanging pre-hook blocks the client forever (C21); \<open>addBeneficiary\<close> never sends
  \<open>address2\<close> or \<open>pincode\<close> and \<open>requestTransfer\<close> never sends \<open>remarks\<close>
  (C22, C23), because their key lists end those names with a space;
  \<open>listTransfers\<close> sends its pagination as the body of a \<open>GET\<close> (C24). The section
  below, spanning the interceptors, the transport, the methods and the state machine,
  shows that no two requests of a client ever carry the same correlation id (C25). A
  transport failure always reaches an endpoint method's callback (C26), and an
  authenticate answer without a token fails the handshake cycle exactly as a transport
  failure does (C27). \<open>getBeneficiary\<close> requests \<open>baseURL\<close> joined with the path
  and the unencoded \<open>beneId\<close>, \<open>.../undefined\<close> when it is missing (C28). The loop
  without fuel returns once the provider answers well (C29) and never returns against
  an unreachable provider (C30); \<open>authenticate\<close> sends exactly the credentials
  headers, plus an earlier token's \<open>Authorization\<close> (C31); the correlation id
  round-trips from the request to its answer or error (C32); a post-hook that throws a
  falsy value makes the loop report readiness with no token, under the
  \<open>async.series\<close> semantics of async 2.x (C33); every request carries the timeout
  \<open>axiosConfig\<close> configures, 30 s by default (C34); raw mode never authenticates on
  its own: the library sets no token and no \<open>Authorization\<close> default until the caller
  runs \<open>authenticate\<close> (C35); and a second \<open>authenticate\<close> keeps the session
  \<open>TOKEN_VERIFIED\<close> for an unverified token (C36). No endpoint method lets a caller
  supply its own correlation id (C37). A pre-hook that writes to the config it is
  passed sends its own version of the request (C38), so C2, C5, C19, C22-C25, C28,
  C31, C34 and C37 assume the pre-hook does not; any post-hook that writes a body with
  a present, rejected sub-code after the sub-code check makes the caller see that body
  as an error (C39), so C5 and C9 assume the post-hook does not write either. Every key
  of \<open>axiosConfig\<close> is merged into every request, so C2, C4-C6, C22-C25, C31 and C37
  assume the instance defaults do not set the key the claim is about
  (\<open>headers\<close>, \<open>networkId\<close>, \<open>data\<close>, \<open>params\<close>, \<open>method\<close>) to a value that
  would override or be merged with the method's own. Finally, a callback that throws
  on success is called a second time, with its own exception, by
  \<open>.catch(callback)\<close>, for every method whose handler ends by calling the callback
  (C40); \<open>validateBeneficiary\<close>'s handler can throw first, and then the callback runs
  once (C18).

  \<^bold>\<open>Bounds and fuel.\<close> \<open>2^t * 500\<close> is an exact double for \<open>t \<le> 1015\<close> and
  \<open>Infinity\<close> beyond (\<open>parseInt\<close> gives \<open>NaN\<close>); below \<open>10^21\<close> its decimal string
  is plain digits, from there on exponent notation, of which \<open>parseInt\<close> keeps the
  leading digit; Node waits 1 ms for a delay outside \<open>[1, 2^31-1]\<close>, and
  \<open>2^22 * 500 < 2^31 - 1 < 2^23 * 500\<close>: this is all of \<open>retry_delay\<close>. The retry loop
  has no bound, so \<open>resolution\<close> takes fuel, one unit per handshake cycle; C16 shows
  that fuel exceeding the number of bad answers still to come is enough, so running out
  is not a way of hiding non-termination, and \<open>RetryLoop\<close> states the loop without
  fuel: the lemmas \<open>resolution_loop_fuel\<close> and \<open>resolution_fuel_loop\<close> show the two
  agree, C29 that the loop returns, C30 that it need not. The
  state machine of \<open>Readiness\<close> needs no fuel: each event is one step.

  \<^bold>\<open>Not modelled.\<close> \<open>src/test.js\<close> (I/O against the live API); axios's own
  library defaults (\<open>Accept\<close> and \<open>Content-Type\<close> headers,
  \<open>transformRequest\<close>'s JSON serialisation of \<open>data\<close>, the lower-casing of
  \<open>method\<close>: the model's configs are the objects before serialisation), a
  \<open>url\<close> or \<open>baseURL\<close> that is not a string, its adapters, and the timing out
  itself (a timed-out request is one of the transport's failures); later axios
  releases (0.19 on) take \<open>url\<close>, \<open>method\<close>, \<open>params\<close> and \<open>data\<close> from the
  request only, which the model does not follow; a hook's writes to the
  \<open>error\<close> object it is passed, which would change the rejection value (its writes to
  \<open>data\<close> are modelled, also those made through \<open>params\<close>, which shares the body
  object with \<open>data\<close>: \<open>Rewrites d err\<close> carries the whole object after the
  hook); arrays (the API's list answers are opaque
  values); numbers beyond integers; \<open>console.log\<close>; the time between events
  (the retry delays are computed, the waiting is not). \<open>subCodeValidator.js\<close> is
  required but absent from the sources and is modelled from the specification, as
  are the libraries axios, lodash, async and buffer-methods.
\<close>

subsection \<open>Correlation ids across the client\<close>

text \<open>
  Every request in the log carries an id drawn from the supply below its current
  index, and the ids in the log are pairwise distinct.
\<close>

definition ids_inv :: "client \<Rightarrow> bool" where
  "ids_inv c \<longleftrightarrow>
     (\<forall>x\<in>set (sent c). \<exists>n<guid_next c. js_prop x ''networkId'' = getNetworkId n)
     \<and> distinct (map (\<lambda>x. js_prop x ''networkId'') (sent c))"

text \<open>
  The timeout the instance applies: \<open>_.extend({ timeout: TIMEOUT }, axiosConfig)\<close>
  keeps the caller's own \<open>timeout\<close> property whatever its value.
\<close>

definition configured_timeout :: "jsval \<Rightarrow> jsval" where
  "configured_timeout axiosConfig =
     (case axiosConfig of
        JObj ps \<Rightarrow> if has_own ps ''timeout'' then own (rev ps) ''timeout'' else JNum TIMEOUT
      | _ \<Rightarrow> JNum TIMEOUT)"

text \<open>The instance's timeout is \<open>t\<close>, and so is that of every request in the log.\<close>

definition timeout_inv :: "jsval \<Rightarrow> client \<Rightarrow> bool" where
  "timeout_inv t c \<longleftrightarrow>
     js_get (defaults c) [''timeout''] = t \<and> (\<forall>x\<in>set (sent c). js_prop x ''timeout'' = t)"

lemma addNetworkTracking_mono: "n \<le> snd (addNetworkTracking d p n)"
  by (simp add: addNetworkTracking_def Let_def)

lemma response_stage_mono: "n \<le> snd (response_stage st p n)"
  by (auto simp: response_stage_def response_fulfilled_def response_rejected_def
      addResponseNetworkTracking_def case_prod_beta addNetworkTracking_mono split: js_promise.splits)

lemma response_stage_step: "response_stage st p n = (p', n') \<Longrightarrow> n \<le> n'"
  using response_stage_mono [of n st p] by simp

text \<open>
  A method's request whose merged config carries no id of its own draws a fresh one:
  the instance defaults must not supply a truthy \<open>networkId\<close>.
\<close>

lemma method_config_networkId:
  "method_config cfg \<Longrightarrow>
     js_get (axios_prepare defs auth cfg) [''networkId''] = js_prop defs ''networkId''"
  by (simp add: method_config_def axios_prepare_default)

lemma axios_request_fresh_id:
  assumes "axios_request tr cfg c = (p, c')" "method_config cfg" "never_rewrites (preHook (state c))"
    "\<not> truthy (js_prop (defaults c) ''networkId'')"
  shows "guid_next c \<le> guid_next c' \<and> (sent c' = sent c \<or>
    (\<exists>cfg1. sent c' = sent c @ [cfg1] \<and> js_prop cfg1 ''networkId'' = getNetworkId (guid_next c)
       \<and> guid_next c < guid_next c'))"
proof -
  let ?d = "js_set (axios_prepare (defaults c) (authorization c) cfg) [''networkId''] (getNetworkId (guid_next c))"
  have t: "addNetworkTracking (axios_prepare (defaults c) (authorization c) cfg) [''networkId''] (guid_next c) = (?d, Suc (guid_next c))"
    using assms(4) method_config_networkId [OF assms(2)]
    by (simp add: addNetworkTracking_def del: js_get_single)
  have id: "js_prop ?d ''networkId'' = getNetworkId (guid_next c)" by simp
  obtain p1 where rf: "request_fulfilled (state c) (axios_prepare (defaults c) (authorization c) cfg) (guid_next c) = (p1, Suc (guid_next c))"
    using t by (simp add: request_fulfilled_tracked)
  have "p1 = Fulfilled cfg1 \<Longrightarrow> cfg1 = ?d" for cfg1
    using rf t by (auto simp: request_fulfilled_tracked dest: promisify_Fulfilled [OF assms(3)])
  show ?thesis
  proof (cases p1)
    case (Fulfilled cfg1)
    obtain p2 n2 where rs: "response_stage (state c) (axios_dispatch tr (length (sent c)) cfg1) (Suc (guid_next c)) = (p2, n2)"
      by force
    with rf Fulfilled assms(1) \<open>p1 = Fulfilled cfg1 \<Longrightarrow> cfg1 = ?d\<close> id show ?thesis
      by (auto simp: axios_request_def dest!: response_stage_step)
  qed (use rf assms(1) in \<open>auto simp: axios_request_def dest!: response_stage_step split: prod.splits\<close>)
qed

lemma ids_inv_append:
  assumes "ids_inv c" "guid_next c \<le> guid_next c'"
    and "sent c' = sent c \<or> (\<exists>cfg1. sent c' = sent c @ [cfg1] \<and> js_prop cfg1 ''networkId'' = getNetworkId (guid_next c)
       \<and> guid_next c < guid_next c')"
  shows "ids_inv c'"
  using assms(3)
proof
  assume "sent c' = sent c"
  with assms(1,2) show ?thesis by (fastforce simp: ids_inv_def)
next
  assume "\<exists>cfg1. sent c' = sent c @ [cfg1] \<and> js_prop cfg1 ''networkId'' = getNetworkId (guid_next c)
       \<and> guid_next c < guid_next c'"
  then obtain cfg1 where c': "sent c' = sent c @ [cfg1]" "js_prop cfg1 ''networkId'' = getNetworkId (guid_next c)"
    "guid_next c < guid_next c'" by blast
  have "getNetworkId (guid_next c) \<notin> (\<lambda>x. js_prop x ''networkId'') ` set (sent c)"
    using assms(1) by (fastforce simp: ids_inv_def)
  with assms(1,2) c' show ?thesis by (fastforce simp: ids_inv_def)
qed

lemma call_api_defaults: "handler_frame h \<Longrightarrow> defaults (snd (call_api tr cfg h c)) = defaults c"
  using call_api_frame [of h tr cfg c] axios_request_frame [of tr cfg c] by (metis prod.collapse)

lemma call_api_ids:
  assumes m: "method_config cfg" and f: "handler_frame h" and nr: "never_rewrites (preHook (state c))"
    and i: "ids_inv c \<and> \<not> truthy (js_prop (defaults c) ''networkId'')"
  shows "ids_inv (snd (call_api tr cfg h c)) \<and> \<not> truthy (js_prop (defaults (snd (call_api tr cfg h c))) ''networkId'')"
proof -
  obtain p c1 where req: "axios_request tr cfg c = (p, c1)" by force
  from i have i1: "ids_inv c" and d: "\<not> truthy (js_prop (defaults c) ''networkId'')" by simp_all
  from call_api_frame [OF f req] axios_request_fresh_id [OF req m nr d] ids_inv_append [OF i1]
  have "ids_inv (snd (call_api tr cfg h c))" by (metis (no_types, lifting))
  with d call_api_defaults [OF f] show ?thesis by simp
qed

lemma reachable_ids:
  "reachable tr axiosConfig st initialized s \<Longrightarrow> never_rewrites (preHook st) \<Longrightarrow>
     \<not> truthy (js_get (getNetwork axiosConfig) [''networkId'']) \<Longrightarrow> ids_inv (cli s)"
  using reachable_inv_guarded [where P = "\<lambda>c. ids_inv c \<and> \<not> truthy (js_prop (defaults c) ''networkId'')",
      OF call_api_ids, of st axiosConfig tr initialized s]
  by (simp add: ids_inv_def new_client_def)

lemma getNetwork_timeout: "js_get (getNetwork axiosConfig) [''timeout''] = configured_timeout axiosConfig"
  by (cases axiosConfig) (simp_all add: getNetwork_def configured_timeout_def own_extend)

lemma call_api_timeout:
  assumes m: "method_config cfg" and f: "handler_frame h" and nr: "never_rewrites (preHook (state c))"
    and i: "timeout_inv t c"
  shows "timeout_inv t (snd (call_api tr cfg h c))"
proof -
  obtain p c1 where req: "axios_request tr cfg c = (p, c1)" by force
  have "js_prop (fst (addNetworkTracking (axios_prepare (defaults c) (authorization c) cfg) [''networkId''] (guid_next c))) ''timeout''
      = js_get (defaults c) [''timeout'']"
    using m by (cases "defaults c") (simp_all add: method_config_def addNetworkTracking_def axios_prepare_default Let_def)
  with call_api_frame [OF f req] axios_request_sends [OF req nr] axios_request_frame [OF req] i
  show ?thesis by (auto simp: timeout_inv_def)
qed

text \<open>
  C25: no two requests that reach the network carry the same correlation id, in any
  reachable state of the client, buffered or raw: every method builds its config
  without a \<open>networkId\<close>, so the request interceptor draws a fresh one for each, and
  the id supply only grows; provided the pre-hook does not write to the config, where
  it could overwrite the id, and the constructor's \<open>axiosConfig\<close> carries no truthy
  \<open>networkId\<close>: axios merges it into every request, and the interceptor then keeps it.
\<close>

theorem distinct_correlation_ids:
  assumes "reachable tr axiosConfig st initialized s" "never_rewrites (preHook st)"
    "\<not> truthy (js_get (getNetwork axiosConfig) [''networkId''])"
  shows "distinct (map (\<lambda>x. js_prop x ''networkId'') (sent (cli s)))"
  using reachable_ids [OF assms] by (simp add: ids_inv_def)

text \<open>
  C34: every request that reaches the network carries the instance's timeout: 30 s
  (\<open>TIMEOUT\<close>) unless the constructor's \<open>axiosConfig\<close> has an own \<open>timeout\<close>,
  whose value then applies to every request, handshake included, even when it is
  \<open>0\<close> or \<open>undefined\<close>, which leaves the request without a timeout (a
  pre-hook that writes to the config could change it, so it is assumed not to).
\<close>

theorem request_timeout_configured:
  assumes "reachable tr axiosConfig st initialized s" "never_rewrites (preHook st)"
  shows "set (map (\<lambda>x. js_prop x ''timeout'') (sent (cli s))) \<subseteq> {configured_timeout axiosConfig}"
proof -
  have "timeout_inv (configured_timeout axiosConfig) (new_client axiosConfig st)"
    by (simp add: timeout_inv_def new_client_def getNetwork_timeout del: js_get_single)
  from reachable_inv_guarded [where P = "timeout_inv (configured_timeout axiosConfig)",
      OF call_api_timeout assms(2) this assms(1)]
  have "timeout_inv (configured_timeout axiosConfig) (cli s)" .
  then show ?thesis by (auto simp: timeout_inv_def)
qed

lemma call_api_fresh_id:
  assumes "\<And>d x. snd (h d x) = x" "method_config cfg" "sent (snd (call_api tr cfg h c)) = sent c @ [cfg1]"
    "never_rewrites (preHook (state c))" "\<not> truthy (js_prop (defaults c) ''networkId'')"
  shows "js_prop cfg1 ''networkId'' = getNetworkId (guid_next c)"
proof -
  have "cfg1 = fst (addNetworkTracking (axios_prepare (defaults c) (authorization c) cfg) [''networkId''] (guid_next c))"
    using call_api_sent_one [OF assms(1) prod.collapse [symmetric] assms(3,4)] .
  with assms(5) method_config_networkId [OF assms(2)] show ?thesis
    by (simp add: addNetworkTracking_def del: js_get_single)
qed

text \<open>
  C37: a caller cannot supply its own correlation id through an endpoint method: the
  methods build their configs with \<open>_.pick\<close> lists that never include
  \<open>networkId\<close>, so every request they send carries a fresh id, whatever the
  parameters hold (unless the instance defaults supply a truthy id, which axios merges
  into every request).
\<close>

theorem caller_networkId_ignored:
  assumes "endpoint_call x" "sent (snd (run_call tr x c)) = sent c @ [cfg1]"
    "never_rewrites (preHook (state c))" "\<not> truthy (js_prop (defaults c) ''networkId'')"
  shows "js_prop cfg1 ''networkId'' = getNetworkId (guid_next c)"
  using assms
  apply (cases x)
  apply (simp_all add: callback_result_def endpoint_defs)
  apply (erule call_api_fresh_id [rotated 2]; simp add: method_config_def Let_def validateBeneficiary_handler_def)+
  done

subsection \<open>The bearer token on the wire\<close>

text \<open>
  Once \<open>authenticate\<close> has set \<open>network.defaults.headers.common.Authorization\<close>,
  every endpoint method's request reaches the network with that header: the methods'
  configs carry no headers, axios merges the instance defaults under them, and
  \<open>dispatchRequest\<close> flattens the \<open>common\<close> group into the headers it sends;
  provided \<open>axiosConfig\<close> sets no \<open>headers\<close> of its own and the pre-hook does not
  rewrite the config.
\<close>

lemma call_api_bearer:
  assumes "\<And>d x. sent (snd (h d x)) = sent x" "is_object cfg" "\<not> has_own (obj_props cfg) ''headers''"
    "sent (snd (call_api tr cfg h c)) = sent c @ [cfg1]" "never_rewrites (preHook (state c))"
    "is_object (defaults c)" "\<not> has_own (obj_props (defaults c)) ''headers''"
    "truthy (authorization c)" "\<not> typeof_object (authorization c)"
  shows "js_get (axios_wire cfg1) [''headers'', ''Authorization''] = authorization c"
proof -
  have c1: "cfg1 = fst (addNetworkTracking (axios_prepare (defaults c) (authorization c) cfg) [''networkId''] (guid_next c))"
    by (rule call_api_sent_tracked [OF assms(1,4,5)])
  then have "is_object cfg1" by (simp add: addNetworkTracking_def Let_def)
  moreover have "js_prop cfg1 ''headers'' = JObj [(''common'', JObj [(''Authorization'', authorization c)])]"
    using c1 axios_prepare_headers [OF assms(6,7,3,8)] by (simp add: js_prop_tracked)
  ultimately show ?thesis
    using flatten_headers_common [OF assms(9)]
    by (simp add: js_get_cons js_prop_axios_wire_headers)
qed

text \<open>
  C2: once \<open>authenticate\<close> has set \<open>network.defaults.headers.common.Authorization\<close>,
  every request but \<open>authenticate\<close>'s own (\<open>verifyToken\<close> and every endpoint
  method) reaches the network with that header: the methods' configs carry no
  headers, axios merges the instance defaults under them, and \<open>dispatchRequest\<close>
  flattens the \<open>common\<close> group into the headers it sends; provided
  \<open>axiosConfig\<close> sets no \<open>headers\<close> of its own and the pre-hook does not rewrite
  the config.
\<close>

theorem bearer_on_wire:
  assumes "x \<noteq> AuthenticateCall" "sent (snd (run_call tr x c)) = sent c @ [cfg1]"
    "never_rewrites (preHook (state c))" "is_object (defaults c)"
    "\<not> has_own (obj_props (defaults c)) ''headers''"
    "truthy (authorization c)" "\<not> typeof_object (authorization c)"
  shows "js_get (axios_wire cfg1) [''headers'', ''Authorization''] = authorization c"
  using assms
  apply (cases x)
  apply (simp_all add: callback_result_def endpoint_defs verifyToken_def verifyToken_config_def)
  apply (erule call_api_bearer [rotated 3]; simp add: Let_def verifyToken_handler_def validateBeneficiary_handler_def)+
  done


theorem distinct_correlation_ids_witness:
  "distinct (map (\<lambda>x. js_prop x ''networkId'')
     (sent (cli (cashfree_step (\<lambda>_ _. NetFailure (JStr ''down'')) (Call GetBalanceCall)
       (cashfree_step (\<lambda>_ _. NetFailure (JStr ''down'')) (Call GetBalanceCall)
         (cashfree_new JUndef (new_session (JStr ''id'') (JStr ''secret'') None None) (JBool False)))))))"
proof -
  have "reachable (\<lambda>_ _. NetFailure (JStr ''down'')) JUndef (new_session (JStr ''id'') (JStr ''secret'') None None) (JBool False)
     (cashfree_step (\<lambda>_ _. NetFailure (JStr ''down'')) (Call GetBalanceCall)
       (cashfree_step (\<lambda>_ _. NetFailure (JStr ''down'')) (Call GetBalanceCall)
         (cashfree_new JUndef (new_session (JStr ''id'') (JStr ''secret'') None None) (JBool False))))"
    by (intro reachable.step reachable.init)
  from distinct_correlation_ids [OF this] show ?thesis by (simp add: new_session_def getNetwork_def)
qed

theorem request_timeout_configured_witness:
  "set (map (\<lambda>x. js_prop x ''timeout'')
     (sent (cli (cashfree_step (\<lambda>_ _. NetFailure (JStr ''down'')) (Call GetBalanceCall)
       (cashfree_new (JObj [(''timeout'', JNum 0)]) (new_session (JStr ''id'') (JStr ''secret'') None None) (JBool False))))))
   \<subseteq> {configured_timeout (JObj [(''timeout'', JNum 0)])}"
proof -
  have "reachable (\<lambda>_ _. NetFailure (JStr ''down'')) (JObj [(''timeout'', JNum 0)]) (new_session (JStr ''id'') (JStr ''secret'') None None) (JBool False)
     (cashfree_step (\<lambda>_ _. NetFailure (JStr ''down'')) (Call GetBalanceCall)
       (cashfree_new (JObj [(''timeout'', JNum 0)]) (new_session (JStr ''id'') (JStr ''secret'') None None) (JBool False)))"
    by (intro reachable.step reachable.init)
  from request_timeout_configured [OF this] show ?thesis by (simp add: new_session_def)
qed

theorem caller_networkId_ignored_witness:
  "js_prop (last (sent (snd (run_call (\<lambda>_ _. NetFailure (JStr ''down'')) (GetTransferCall (JObj [(''transferId'', JStr ''t1''), (''networkId'', JStr ''mine'')])) (new_client JUndef (new_session (JStr ''id'') (JStr ''secret'') None None)))))) ''networkId'' = getNetworkId 0"
proof -
  have "length (sent (snd (run_call (\<lambda>_ _. NetFailure (JStr ''down'')) (GetTransferCall (JObj [(''transferId'', JStr ''t1''), (''networkId'', JStr ''mine'')])) (new_client JUndef (new_session (JStr ''id'') (JStr ''secret'') None None))))) = 1"
    by (simp add: request_eval getTransfer_def callback_result_def)
  from caller_networkId_ignored [OF _ sent_single [OF _ this]] show ?thesis
    by (simp add: new_client_def new_session_def getNetwork_def)
qed

theorem bearer_on_wire_witness:
  "js_get (axios_wire (last (sent (snd (run_call (\<lambda>_ _. NetFailure (JStr ''down'')) VerifyTokenCall
     ((new_client JUndef (new_session (JStr ''id'') (JStr ''secret'') None None))\<lparr>authorization := JStr ''Bearer tok''\<rparr>))))))
     [''headers'', ''Authorization''] = JStr ''Bearer tok''"
proof -
  have "length (sent (snd (run_call (\<lambda>_ _. NetFailure (JStr ''down'')) VerifyTokenCall
     ((new_client JUndef (new_session (JStr ''id'') (JStr ''secret'') None None))\<lparr>authorization := JStr ''Bearer tok''\<rparr>)))) = 1"
    by (simp add: request_eval callback_result_def)
  from bearer_on_wire [OF _ sent_single [OF _ this]] show ?thesis
    by (simp add: new_client_def new_session_def getNetwork_def)
qed


end
